theory Spec2Isabelle
  imports Main "HOL-Library.Word" "HOL-Library.Sublist"
begin

unbundle bit_operations_syntax

section \<open>The C environment of prepare-app.c\<close>

text \<open>
  \<^verbatim>\<open>prepare-app.c\<close> is a straight-line sequence of system and library calls, each followed
  by a check of its result. The model keeps the calls in the order of the source and makes
  the kernel a parameter: an oracle answers every call. Constants of the system headers
  carry their Linux values.
\<close>

type_synonym errno_t = int

definition ENOENT :: errno_t where "ENOENT = 2"
definition EEXIST :: errno_t where "EEXIST = 17"
definition EISDIR :: errno_t where "EISDIR = 21"

text \<open>\<^verbatim>\<open>unsigned long\<close> mount flags, \<^verbatim>\<open>int\<close> open flags, \<^verbatim>\<open>mode_t\<close> modes.\<close>

definition MS_BIND :: "64 word" where "MS_BIND = 4096"
definition MS_REC :: "64 word" where "MS_REC = 16384"

definition O_RDONLY :: "32 word" where "O_RDONLY = 0"
definition O_WRONLY :: "32 word" where "O_WRONLY = 1"
definition O_CREAT :: "32 word" where "O_CREAT = 64"
definition O_NOCTTY :: "32 word" where "O_NOCTTY = 256"
definition O_DIRECTORY :: "32 word" where "O_DIRECTORY = 65536"
definition O_CLOEXEC :: "32 word" where "O_CLOEXEC = 524288"
definition F_OK :: "32 word" where "F_OK = 0"
definition AT_EACCESS :: "32 word" where "AT_EACCESS = 512"
definition DT_DIR :: "8 word" where "DT_DIR = 4"
definition EXIT_SUCCESS :: int where "EXIT_SUCCESS = 0"

text \<open>Lines 48-60 of the source. \<^verbatim>\<open>lenof\<close> is the length of a string literal.\<close>

definition lenof :: "string \<Rightarrow> nat" where
  "lenof str = length str"

definition MACHINE_ID_LEN :: nat where
  "MACHINE_ID_LEN = lenof ''0123456789abcdef0123456789ab''"

definition MACHINE_NAME_LEN :: nat where
  "MACHINE_NAME_LEN = lenof ''rkt-01234567-89ab-cdef-0123-456789ab''"

text \<open>\<^verbatim>\<open>uid_t\<close> is a 32-bit unsigned integer on Linux, so \<^verbatim>\<open>(uid_t) -1\<close> is \<open>2^32 - 1\<close>.\<close>

definition UNMAPPED :: "32 word" where
  "UNMAPPED = - 1"

definition CGROUP2_SUPER_MAGIC :: "64 word" where
  "CGROUP2_SUPER_MAGIC = 0x63677270"

record dir_op_t =
  name :: string
  mode :: "32 word"

record mount_point =
  source :: string
  target :: string
  fstype :: string
  options :: "string option"
  flags :: "64 word"

record dirent =
  d_name :: string
  d_type :: "8 word"

section \<open>Calls, their results, and the kernel as an oracle\<close>

text \<open>
  Every call the program issues is recorded with its arguments and its result. A result
  \<open>Inl e\<close> is the failure of the call with \<^verbatim>\<open>errno = e\<close>. A directory stream is the
  finite list of entries \<^verbatim>\<open>readdir\<close> will deliver, and the error (if any) that ends it.
\<close>

datatype syscall =
    Mount string string string "64 word" "string option" "errno_t + unit"
  | Open string "32 word" "32 word option" "errno_t + nat"
  | Openat int string "32 word" "32 word" "errno_t + nat"
  | Close int "errno_t + unit"
  | Read int nat "errno_t + string"
  | Write int string "errno_t + nat"
  | Unlinkat int string "32 word" "errno_t + unit"
  | Umask "32 word"
  | Mkdirat int string "32 word" "errno_t + unit"
  | Faccessat int string "32 word" "32 word" "errno_t + unit"
  | Access string "32 word" "errno_t + unit"
  | Statfs string "errno_t + 64 word"
  | Fopen string string "errno_t + unit"
  | Fscanf string "int \<times> 32 word \<times> 32 word \<times> 32 word"
  | Fclose "errno_t + unit"
  | Opendir string "errno_t + dirent list \<times> errno_t option"
  | Readdir "errno_t + dirent option"
  | Closedir "errno_t + unit"
  | Creat string "32 word" "errno_t + nat"
  | Symlink string string "errno_t + unit"

text \<open>
  The kernel and the C library: one answer per call. The first argument is the number of
  calls issued before this one, so an answer may depend on the moment of the call.
  \<open>k_fscanf\<close> gives the return value of \<^verbatim>\<open>fscanf\<close> and the values the three variables
  hold after it (whatever they held before, where no field was assigned). \<open>k_stack\<close> is
  the content of the uninitialised buffer \<^verbatim>\<open>buf\<close> of \<^verbatim>\<open>get_machine_name\<close>.
\<close>

record kernel =
  k_mount :: "nat \<Rightarrow> string \<Rightarrow> string \<Rightarrow> string \<Rightarrow> 64 word \<Rightarrow> string option \<Rightarrow> errno_t + unit"
  k_open :: "nat \<Rightarrow> string \<Rightarrow> 32 word \<Rightarrow> 32 word option \<Rightarrow> errno_t + nat"
  k_openat :: "nat \<Rightarrow> int \<Rightarrow> string \<Rightarrow> 32 word \<Rightarrow> 32 word \<Rightarrow> errno_t + nat"
  k_close :: "nat \<Rightarrow> int \<Rightarrow> errno_t + unit"
  k_read :: "nat \<Rightarrow> int \<Rightarrow> nat \<Rightarrow> errno_t + string"
  k_write :: "nat \<Rightarrow> int \<Rightarrow> string \<Rightarrow> errno_t + nat"
  k_unlinkat :: "nat \<Rightarrow> int \<Rightarrow> string \<Rightarrow> 32 word \<Rightarrow> errno_t + unit"
  k_mkdirat :: "nat \<Rightarrow> int \<Rightarrow> string \<Rightarrow> 32 word \<Rightarrow> errno_t + unit"
  k_faccessat :: "nat \<Rightarrow> int \<Rightarrow> string \<Rightarrow> 32 word \<Rightarrow> 32 word \<Rightarrow> errno_t + unit"
  k_access :: "nat \<Rightarrow> string \<Rightarrow> 32 word \<Rightarrow> errno_t + unit"
  k_statfs :: "nat \<Rightarrow> string \<Rightarrow> errno_t + 64 word"
  k_fopen :: "nat \<Rightarrow> string \<Rightarrow> string \<Rightarrow> errno_t + unit"
  k_fscanf :: "nat \<Rightarrow> string \<Rightarrow> int \<times> 32 word \<times> 32 word \<times> 32 word"
  k_fclose :: "nat \<Rightarrow> errno_t + unit"
  k_opendir :: "nat \<Rightarrow> string \<Rightarrow> errno_t + dirent list \<times> errno_t option"
  k_closedir :: "nat \<Rightarrow> errno_t + unit"
  k_creat :: "nat \<Rightarrow> string \<Rightarrow> 32 word \<Rightarrow> errno_t + nat"
  k_symlink :: "nat \<Rightarrow> string \<Rightarrow> string \<Rightarrow> errno_t + unit"
  k_stack :: string

section \<open>Program state and control\<close>

text \<open>
  The parts of \<^verbatim>\<open>main\<close>, in the order of the source; every recorded call carries the
  part that issued it.
\<close>

datatype stage =
    Make_Mountpoint
  | Open_Root
  | Unlink_Paths
  | Make_Dirs
  | Etc_Hosts
  | Close_Root
  | Dev_Nodes
  | Dir_Mounts
  | Sys_Mount
  | File_Mounts
  | Symlinks

type_synonym event = "stage \<times> syscall"

record st =
  exit_err :: int
  errno :: errno_t
  stage :: stage
  trace :: "event list"

text \<open>A computation either goes on with a value, or has called \<^verbatim>\<open>exit\<close> with a status.\<close>

datatype 'a outcome = Done 'a st | Exit int st

type_synonym 'a run = "st \<Rightarrow> 'a outcome"

definition return :: "'a \<Rightarrow> 'a run" where
  "return x s = Done x s"

definition bind :: "'a run \<Rightarrow> ('a \<Rightarrow> 'b run) \<Rightarrow> 'b run" where
  "bind m f s = (case m s of Done x s' \<Rightarrow> f x s' | Exit c s' \<Rightarrow> Exit c s')"

definition seq :: "unit run \<Rightarrow> 'b run \<Rightarrow> 'b run" where
  "seq m k = bind m (\<lambda>_. k)"

fun for_each :: "'a list \<Rightarrow> ('a \<Rightarrow> unit run) \<Rightarrow> unit run" where
  "for_each [] body = return ()"
| "for_each (x # xs) body = seq (body x) (for_each xs body)"

fun block :: "unit run list \<Rightarrow> unit run" where
  "block [] = return ()"
| "block (m # ms) = seq m (block ms)"

definition ignore :: "'a run \<Rightarrow> unit run" where
  "ignore m = bind m (\<lambda>_. return ())"

definition final :: "'a outcome \<Rightarrow> st" where
  "final r = (case r of Done x s \<Rightarrow> s | Exit c s \<Rightarrow> s)"

definition get_errno :: "errno_t run" where
  "get_errno s = Done (errno s) s"

definition set_errno :: "errno_t \<Rightarrow> unit run" where
  "set_errno e s = Done () (s\<lparr>errno := e\<rparr>)"

definition enter :: "stage \<Rightarrow> unit run" where
  "enter g s = Done () (s\<lparr>stage := g\<rparr>)"

text \<open>
  \<^verbatim>\<open>exit_if(cond, ...)\<close> expands to \<^verbatim>\<open>exit_err++; if(cond) { ...; exit(exit_err); }\<close>:
  the counter is incremented before the condition is evaluated. The condition is a
  computation \<open>m\<close> and a test \<open>bad\<close> of its value; the value stays available afterwards.
  \<^verbatim>\<open>pexit_if\<close> differs in the message only.
\<close>

definition exit_if :: "'a run \<Rightarrow> ('a \<Rightarrow> bool) \<Rightarrow> 'a run" where
  "exit_if m bad s =
     (case m (s\<lparr>exit_err := exit_err s + 1\<rparr>) of
        Done x s' \<Rightarrow> if bad x then Exit (exit_err s') s' else Done x s'
      | Exit c s' \<Rightarrow> Exit c s')"

definition pexit_if :: "'a run \<Rightarrow> ('a \<Rightarrow> bool) \<Rightarrow> 'a run" where
  "pexit_if m bad = exit_if m bad"

text \<open>
  A call: ask the oracle, record the call with its result, set \<^verbatim>\<open>errno\<close> when it failed
  (a call that succeeds leaves \<^verbatim>\<open>errno\<close> alone).
\<close>

definition call :: "(nat \<Rightarrow> errno_t + 'a) \<Rightarrow> ((errno_t + 'a) \<Rightarrow> syscall) \<Rightarrow> (errno_t + 'a) run" where
  "call k mk s =
     (let r = k (length (trace s));
          s' = s\<lparr>trace := trace s @ [(stage s, mk r)]\<rparr>
      in Done r (case r of Inl e \<Rightarrow> s'\<lparr>errno := e\<rparr> | Inr _ \<Rightarrow> s'))"

text \<open>The C return value of a call that returns 0 or -1, and of one that returns a descriptor.\<close>

definition ret0 :: "errno_t + unit \<Rightarrow> int" where
  "ret0 r = (case r of Inl _ \<Rightarrow> - 1 | Inr _ \<Rightarrow> 0)"

definition retfd :: "errno_t + nat \<Rightarrow> int" where
  "retfd r = (case r of Inl _ \<Rightarrow> - 1 | Inr fd \<Rightarrow> int fd)"

definition sys_mount :: "kernel \<Rightarrow> string \<Rightarrow> string \<Rightarrow> string \<Rightarrow> 64 word \<Rightarrow> string option \<Rightarrow> int run" where
  "sys_mount k src tgt ty fl dat =
     bind (call (\<lambda>n. k_mount k n src tgt ty fl dat) (Mount src tgt ty fl dat)) (\<lambda>r. return (ret0 r))"

definition sys_open :: "kernel \<Rightarrow> string \<Rightarrow> 32 word \<Rightarrow> 32 word option \<Rightarrow> int run" where
  "sys_open k path fl md =
     bind (call (\<lambda>n. k_open k n path fl md) (Open path fl md)) (\<lambda>r. return (retfd r))"

definition sys_openat :: "kernel \<Rightarrow> int \<Rightarrow> string \<Rightarrow> 32 word \<Rightarrow> 32 word \<Rightarrow> int run" where
  "sys_openat k dfd path fl md =
     bind (call (\<lambda>n. k_openat k n dfd path fl md) (Openat dfd path fl md)) (\<lambda>r. return (retfd r))"

definition sys_close :: "kernel \<Rightarrow> int \<Rightarrow> int run" where
  "sys_close k fd = bind (call (\<lambda>n. k_close k n fd) (Close fd)) (\<lambda>r. return (ret0 r))"

text \<open>
  \<^verbatim>\<open>read(fd, buf, count)\<close>: the return value and the new content of the buffer, whose
  first bytes are overwritten by the (at most \<open>count\<close>) bytes read.
\<close>

definition sys_read :: "kernel \<Rightarrow> int \<Rightarrow> string \<Rightarrow> nat \<Rightarrow> (int \<times> string) run" where
  "sys_read k fd buf count =
     bind (call (\<lambda>n. map_sum id (take count) (k_read k n fd count)) (Read fd count))
       (\<lambda>r. return (case r of Inl _ \<Rightarrow> (- 1, buf)
                            | Inr bs \<Rightarrow> (int (length bs), bs @ drop (length bs) buf)))"

text \<open>\<^verbatim>\<open>write(fd, buf, len)\<close> writes from the first \<open>len\<close> bytes of the buffer.\<close>

definition sys_write :: "kernel \<Rightarrow> int \<Rightarrow> string \<Rightarrow> int \<Rightarrow> int run" where
  "sys_write k fd buf len =
     bind (call (\<lambda>n. map_sum id (min (nat len)) (k_write k n fd (take (nat len) buf)))
                (Write fd (take (nat len) buf)))
       (\<lambda>r. return (case r of Inl _ \<Rightarrow> - 1 | Inr w \<Rightarrow> int w))"

definition sys_unlinkat :: "kernel \<Rightarrow> int \<Rightarrow> string \<Rightarrow> 32 word \<Rightarrow> int run" where
  "sys_unlinkat k dfd path fl =
     bind (call (\<lambda>n. k_unlinkat k n dfd path fl) (Unlinkat dfd path fl)) (\<lambda>r. return (ret0 r))"

definition sys_umask :: "32 word \<Rightarrow> unit run" where
  "sys_umask m s = Done () (s\<lparr>trace := trace s @ [(stage s, Umask m)]\<rparr>)"

definition sys_mkdirat :: "kernel \<Rightarrow> int \<Rightarrow> string \<Rightarrow> 32 word \<Rightarrow> int run" where
  "sys_mkdirat k dfd path md =
     bind (call (\<lambda>n. k_mkdirat k n dfd path md) (Mkdirat dfd path md)) (\<lambda>r. return (ret0 r))"

definition sys_faccessat :: "kernel \<Rightarrow> int \<Rightarrow> string \<Rightarrow> 32 word \<Rightarrow> 32 word \<Rightarrow> int run" where
  "sys_faccessat k dfd path md fl =
     bind (call (\<lambda>n. k_faccessat k n dfd path md fl) (Faccessat dfd path md fl))
       (\<lambda>r. return (ret0 r))"

definition sys_access :: "kernel \<Rightarrow> string \<Rightarrow> 32 word \<Rightarrow> int run" where
  "sys_access k path md =
     bind (call (\<lambda>n. k_access k n path md) (Access path md)) (\<lambda>r. return (ret0 r))"

text \<open>\<^verbatim>\<open>statfs\<close>: the return value and \<^verbatim>\<open>fs.f_type\<close>.\<close>

definition sys_statfs :: "kernel \<Rightarrow> string \<Rightarrow> (int \<times> 64 word) run" where
  "sys_statfs k path =
     bind (call (\<lambda>n. k_statfs k n path) (Statfs path))
       (\<lambda>r. return (case r of Inl _ \<Rightarrow> (- 1, 0) | Inr ty \<Rightarrow> (0, ty)))"

text \<open>\<^verbatim>\<open>fopen\<close> and \<^verbatim>\<open>opendir\<close> return a pointer: \<open>None\<close> is \<^verbatim>\<open>NULL\<close>.\<close>

definition sys_fopen :: "kernel \<Rightarrow> string \<Rightarrow> string \<Rightarrow> unit option run" where
  "sys_fopen k path md =
     bind (call (\<lambda>n. k_fopen k n path md) (Fopen path md))
       (\<lambda>r. return (case r of Inl _ \<Rightarrow> None | Inr _ \<Rightarrow> Some ()))"

definition sys_fscanf :: "kernel \<Rightarrow> string \<Rightarrow> (int \<times> 32 word \<times> 32 word \<times> 32 word) run" where
  "sys_fscanf k fmt s =
     (let r = k_fscanf k (length (trace s)) fmt
      in Done r (s\<lparr>trace := trace s @ [(stage s, Fscanf fmt r)]\<rparr>))"

definition sys_fclose :: "kernel \<Rightarrow> int run" where
  "sys_fclose k = bind (call (k_fclose k) Fclose) (\<lambda>r. return (ret0 r))"

definition sys_opendir :: "kernel \<Rightarrow> string \<Rightarrow> (dirent list \<times> errno_t option) option run" where
  "sys_opendir k path =
     bind (call (\<lambda>n. k_opendir k n path) (Opendir path))
       (\<lambda>r. return (case r of Inl _ \<Rightarrow> None | Inr d \<Rightarrow> Some d))"

text \<open>
  \<^verbatim>\<open>readdir\<close> on a stream: the next entry; at the end \<^verbatim>\<open>NULL\<close>, with \<^verbatim>\<open>errno\<close> set when
  the stream ends by an error.
\<close>

definition sys_readdir :: "errno_t + dirent option \<Rightarrow> unit run" where
  "sys_readdir r = bind (call (\<lambda>n. r) Readdir) (\<lambda>_. return ())"

definition sys_closedir :: "kernel \<Rightarrow> int run" where
  "sys_closedir k = bind (call (k_closedir k) Closedir) (\<lambda>r. return (ret0 r))"

definition sys_creat :: "kernel \<Rightarrow> string \<Rightarrow> 32 word \<Rightarrow> int run" where
  "sys_creat k path md =
     bind (call (\<lambda>n. k_creat k n path md) (Creat path md)) (\<lambda>r. return (retfd r))"

definition sys_symlink :: "kernel \<Rightarrow> string \<Rightarrow> string \<Rightarrow> int run" where
  "sys_symlink k tgt path =
     bind (call (\<lambda>n. k_symlink k n tgt path) (Symlink tgt path)) (\<lambda>r. return (ret0 r))"

text \<open>
  \<^verbatim>\<open>snprintf(buf, sz, ...)\<close> with the formatted text \<open>str\<close>: the buffer receives at most
  \<open>sz - 1\<close> characters, the return value is the length of the whole text.
\<close>

definition snprintf :: "nat \<Rightarrow> string \<Rightarrow> string \<times> int" where
  "snprintf sz str = (take (sz - 1) str, int (length str))"

text \<open>
  The conversion \<^verbatim>\<open>%.Ns\<close> applied to a pointer into a buffer: the characters up to the
  first NUL, and at most \<open>N\<close> of them.
\<close>

definition fmt_prec_s :: "nat \<Rightarrow> string \<Rightarrow> string" where
  "fmt_prec_s n bytes = takeWhile (\<lambda>c. c \<noteq> CHR 0x00) (take n bytes)"


definition octal :: "nat list \<Rightarrow> 32 word" where
  "octal ds = foldl (\<lambda>a d. 8 * a + of_nat d) 0 ds"

definition TAB :: char where "TAB = CHR 0x09"
definition NL :: char where "NL = CHR 0x0A"

section \<open>The program\<close>

subsection \<open>\<^verbatim>\<open>get_machine_name\<close> (lines 78-99)\<close>

text \<open>
  The result is the return value and the content of \<^verbatim>\<open>out\<close>. \<^verbatim>\<open>buf\<close> has
  \<^verbatim>\<open>MACHINE_ID_LEN + 1\<close> bytes and is not initialised. The messages of \<^verbatim>\<open>err_out\<close> on the
  diagnostic stream are not modelled.
\<close>

definition get_machine_name :: "kernel \<Rightarrow> string \<Rightarrow> nat \<Rightarrow> (int \<times> string) run" where
  "get_machine_name K out out_len =
     bind (sys_open K ''/etc/machine-id'' O_RDONLY None) (\<lambda>fd.
       if fd = - 1 then return (0, out)
       else
         bind (sys_read K fd
                 (take (MACHINE_ID_LEN + 1) (k_stack K @ replicate (MACHINE_ID_LEN + 1) (CHR 0x00)))
                 MACHINE_ID_LEN) (\<lambda>(n, buf).
           if n = - 1 then bind (sys_close K fd) (\<lambda>_. return (0, out))
           else
             bind (sys_close K fd) (\<lambda>c.
               if c \<noteq> 0 then return (0, out)
               else
                 (let (out', r) =
                        snprintf out_len
                          (''rkt-'' @ fmt_prec_s 8 buf @ ''-'' @ fmt_prec_s 4 (drop 8 buf) @ ''-''
                           @ fmt_prec_s 4 (drop 12 buf) @ ''-'' @ fmt_prec_s 4 (drop 16 buf) @ ''-''
                           @ fmt_prec_s 8 (drop 20 buf))
                  in if r \<ge> int out_len then return (0, out') else return (1, out')))))"

subsection \<open>\<^verbatim>\<open>ensure_etc_hosts_exists\<close> (lines 101-129)\<close>

definition ensure_etc_hosts_exists :: "kernel \<Rightarrow> string \<Rightarrow> int \<Rightarrow> int run" where
  "ensure_etc_hosts_exists K root rootfd =
     bind (sys_faccessat K rootfd ''etc/hosts'' F_OK AT_EACCESS) (\<lambda>a.
       if a = 0 then return 1
       else
         bind (get_machine_name K [] (MACHINE_NAME_LEN + 1)) (\<lambda>(got, name).
           if got = 0 then return 0
           else
             (let (hosts, len) =
                    snprintf 128
                      (''127.0.0.1'' @ [TAB] @ name @ [TAB] @ ''localhost'' @ [TAB]
                       @ ''localhost.localdomain'' @ [NL])
              in if len \<ge> 128 then return 0
                 else
                   bind (sys_openat K rootfd ''etc/hosts'' (O_WRONLY OR O_CREAT) (octal [0, 6, 4, 4]))
                     (\<lambda>fd.
                       if fd = - 1 then return 0
                       else
                         bind (sys_write K fd hosts len) (\<lambda>w.
                           if w \<noteq> len then bind (sys_close K fd) (\<lambda>_. return 0)
                           else
                             bind (sys_close K fd) (\<lambda>c.
                               if c \<noteq> 0 then return 0 else return 1))))))"

subsection \<open>\<^verbatim>\<open>mount_at\<close> (lines 131-139)\<close>

definition mount_at :: "kernel \<Rightarrow> string \<Rightarrow> mount_point \<Rightarrow> unit run" where
  "mount_at K root mnt =
     (let (to, n) = snprintf 4096 (root @ ''/'' @ target mnt)
      in seq (ignore (exit_if (return n) (\<lambda>n. n \<ge> 4096)))
           (ignore (pexit_if (sys_mount K (source mnt) to (fstype mnt) (flags mnt) (options mnt))
                      (\<lambda>r. r = - 1))))"

subsection \<open>\<^verbatim>\<open>mount_sys\<close> (lines 141-221)\<close>

definition mnt_rec :: mount_point where
  "mnt_rec = \<lparr>source = ''/sys'', target = ''sys'', fstype = ''bind'', options = None,
              flags = MS_BIND OR MS_REC\<rparr>"

definition sys_bind_table :: "mount_point list" where
  "sys_bind_table =
     [\<lparr>source = ''/sys'', target = ''sys'', fstype = ''bind'', options = None, flags = MS_BIND\<rparr>,
      \<lparr>source = ''/sys/fs/cgroup'', target = ''sys/fs/cgroup'', fstype = ''bind'', options = None,
       flags = MS_BIND\<rparr>]"

text \<open>
  The \<^verbatim>\<open>while ((d = readdir(dir)))\<close> loop of lines 205-218, over the entries the stream
  still holds; \<open>e\<close> is the error that ends the stream, if any.
\<close>

fun readdir_loop :: "kernel \<Rightarrow> string \<Rightarrow> dirent list \<Rightarrow> errno_t option \<Rightarrow> unit run" where
  "readdir_loop K root [] e = sys_readdir (case e of None \<Rightarrow> Inr None | Some x \<Rightarrow> Inl x)"
| "readdir_loop K root (d # ds) e =
     seq (sys_readdir (Inr (Some d)))
       (if d_type d \<noteq> DT_DIR then readdir_loop K root ds e
        else if d_name d = ''.'' then readdir_loop K root ds e
        else if d_name d = ''..'' then readdir_loop K root ds e
        else
          (let (to, n) = snprintf 4096 (''sys/fs/cgroup/'' @ d_name d)
           in seq (ignore (exit_if (return n) (\<lambda>n. n \<ge> 4096)))
                (seq (mount_at K root
                        \<lparr>source = to, target = to, fstype = ''bind'', options = None,
                         flags = MS_BIND\<rparr>)
                   (readdir_loop K root ds e))))"

text \<open>Lines 192-220: what \<^verbatim>\<open>mount_sys\<close> does when neither early \<^verbatim>\<open>return\<close> is taken.\<close>

definition mount_sys_cgroup_v1 :: "kernel \<Rightarrow> string \<Rightarrow> unit run" where
  "mount_sys_cgroup_v1 K root =
     seq (for_each sys_bind_table (mount_at K root))
       (let (to, n) = snprintf 4096 (root @ ''/'' @ ''sys/fs/cgroup'')
        in seq (ignore (exit_if (return n) (\<lambda>n. n \<ge> 4096)))
             (bind (pexit_if (sys_opendir K to) (\<lambda>dir. dir = None)) (\<lambda>dir.
                case dir of
                  None \<Rightarrow> return ()
                | Some (ents, e) \<Rightarrow>
                    block
                      [set_errno 0,
                       readdir_loop K root ents e,
                       ignore (pexit_if get_errno (\<lambda>e. e \<noteq> 0)),
                       ignore (pexit_if (sys_closedir K) (\<lambda>c. c \<noteq> 0))])))"

text \<open>
  \<^verbatim>\<open>uid_t\<close> has four bytes, so the \<^verbatim>\<open>PRIu32\<close> branch of line 174 is the one that runs;
  \<^verbatim>\<open>PRIu32\<close> is \<^verbatim>\<open>"u"\<close>.
\<close>

definition mount_sys :: "kernel \<Rightarrow> string \<Rightarrow> unit run" where
  "mount_sys K root =
     bind (pexit_if (sys_statfs K ''/sys/fs/cgroup'') (\<lambda>(r, f_type). r \<noteq> 0)) (\<lambda>(r, f_type).
       if f_type = CGROUP2_SUPER_MAGIC then mount_at K root mnt_rec
       else
         bind (sys_access K ''/proc/1/uid_map'' F_OK) (\<lambda>a.
           if a = 0 then
             bind (pexit_if (sys_fopen K ''/proc/1/uid_map'' ''re'') (\<lambda>f. f = None)) (\<lambda>f.
               bind (sys_fscanf K ''%u %u %u'') (\<lambda>(k, uid_base, uid_shift, uid_range).
                 seq (ignore (pexit_if (sys_fclose K) (\<lambda>c. c \<noteq> 0)))
                   (seq (ignore (pexit_if (return k) (\<lambda>k. k \<noteq> 3)))
                      (if uid_base \<noteq> 0 \<or> uid_shift \<noteq> 0 \<or> uid_range \<noteq> UNMAPPED
                       then mount_at K root mnt_rec
                       else mount_sys_cgroup_v1 K root))))
           else mount_sys_cgroup_v1 K root))"

subsection \<open>\<^verbatim>\<open>main\<close> (lines 223-394)\<close>

definition unlink_paths :: "string list" where
  "unlink_paths = [''dev/shm'', ''dev/ptmx'']"

definition dirs :: "dir_op_t list" where
  "dirs =
     [\<lparr>name = ''dev'', mode = octal [0, 7, 5, 5]\<rparr>,
      \<lparr>name = ''dev/net'', mode = octal [0, 7, 5, 5]\<rparr>,
      \<lparr>name = ''dev/shm'', mode = octal [0, 7, 5, 5]\<rparr>,
      \<lparr>name = ''etc'', mode = octal [0, 7, 5, 5]\<rparr>,
      \<lparr>name = ''proc'', mode = octal [0, 7, 5, 5]\<rparr>,
      \<lparr>name = ''sys'', mode = octal [0, 7, 5, 5]\<rparr>,
      \<lparr>name = ''tmp'', mode = octal [0, 1, 7, 7, 7]\<rparr>,
      \<lparr>name = ''dev/pts'', mode = octal [0, 7, 5, 5]\<rparr>,
      \<lparr>name = ''run'', mode = octal [0, 7, 5, 5]\<rparr>,
      \<lparr>name = ''run/systemd'', mode = octal [0, 7, 5, 5]\<rparr>,
      \<lparr>name = ''run/systemd/journal'', mode = octal [0, 7, 5, 5]\<rparr>]"

definition devnodes :: "string list" where
  "devnodes =
     [''/dev/null'', ''/dev/zero'', ''/dev/full'', ''/dev/random'', ''/dev/urandom'', ''/dev/tty'',
      ''/dev/net/tun'', ''/dev/console'']"

definition dirs_mount_table :: "mount_point list" where
  "dirs_mount_table =
     [\<lparr>source = ''/proc'', target = ''/proc'', fstype = ''bind'', options = None,
       flags = MS_BIND OR MS_REC\<rparr>,
      \<lparr>source = ''/dev/shm'', target = ''/dev/shm'', fstype = ''bind'', options = None,
       flags = MS_BIND\<rparr>,
      \<lparr>source = ''/dev/pts'', target = ''/dev/pts'', fstype = ''bind'', options = None,
       flags = MS_BIND\<rparr>,
      \<lparr>source = ''/run/systemd/journal'', target = ''/run/systemd/journal'', fstype = ''bind'',
       options = None, flags = MS_BIND\<rparr>]"

definition files_mount_table :: "mount_point list" where
  "files_mount_table =
     [\<lparr>source = ''/etc/rkt-resolv.conf'', target = ''/etc/resolv.conf'', fstype = ''bind'',
       options = None, flags = MS_BIND\<rparr>]"

text \<open>The body of the loop of lines 292-296.\<close>

definition unlink_path :: "kernel \<Rightarrow> int \<Rightarrow> string \<Rightarrow> unit run" where
  "unlink_path K rootfd p =
     ignore (pexit_if
       (bind (sys_unlinkat K rootfd p 0) (\<lambda>r.
          bind get_errno (\<lambda>e. return (r \<noteq> 0 \<and> e \<noteq> ENOENT \<and> e \<noteq> EISDIR))))
       (\<lambda>b. b))"

text \<open>The body of the loop of lines 300-305.\<close>

definition make_dir :: "kernel \<Rightarrow> int \<Rightarrow> dir_op_t \<Rightarrow> unit run" where
  "make_dir K rootfd d =
     ignore (pexit_if
       (bind (sys_mkdirat K rootfd (name d) (mode d)) (\<lambda>r.
          bind get_errno (\<lambda>e. return (r = - 1 \<and> e \<noteq> EEXIST))))
       (\<lambda>b. b))"

text \<open>
  The body of the loop of lines 328-351; \<^verbatim>\<open>continue\<close> ends the body. The result of
  \<^verbatim>\<open>open\<close> is only used to close the descriptor, and the result of \<^verbatim>\<open>close\<close> is not used.
\<close>

definition bind_devnode :: "kernel \<Rightarrow> string \<Rightarrow> string \<Rightarrow> unit run" where
  "bind_devnode K root from =
     bind (sys_access K from F_OK) (\<lambda>a.
       if a \<noteq> 0 then return ()
       else
         (let (to, n) = snprintf 4096 (root @ from)
          in block
               [ignore (exit_if (return n) (\<lambda>n. n \<ge> 4096)),
                bind (sys_open K to (O_WRONLY OR O_CREAT OR O_CLOEXEC OR O_NOCTTY)
                        (Some (octal [0, 6, 4, 4])))
                  (\<lambda>fd. if fd \<noteq> - 1 then ignore (sys_close K fd) else return ()),
                ignore (pexit_if (sys_mount K from to ''bind'' MS_BIND None) (\<lambda>r. r = - 1))]))"

text \<open>The body of the loop of lines 362-379.\<close>

definition bind_file :: "kernel \<Rightarrow> string \<Rightarrow> mount_point \<Rightarrow> unit run" where
  "bind_file K root mnt =
     (let (to, n) = snprintf 4096 (root @ ''/'' @ target mnt)
      in seq (ignore (exit_if (return n) (\<lambda>n. n \<ge> 4096)))
           (bind (sys_access K (source mnt) F_OK) (\<lambda>a.
              if a \<noteq> 0 then return ()
              else
                seq (bind (sys_access K to F_OK) (\<lambda>b.
                       if b \<noteq> 0 then
                         bind (pexit_if (sys_creat K to (octal [0, 6, 4, 4])) (\<lambda>fd. fd = - 1))
                           (\<lambda>fd. ignore (pexit_if (sys_close K fd) (\<lambda>c. c = - 1)))
                       else return ()))
                  (ignore (pexit_if (sys_mount K (source mnt) to (fstype mnt) (flags mnt)
                                       (options mnt))
                             (\<lambda>r. r = - 1))))))"

text \<open>Lines 381-385 and 387-391: a symbolic link \<open>link\<close> under the root, pointing to \<open>dest\<close>.\<close>

definition make_symlink :: "kernel \<Rightarrow> string \<Rightarrow> string \<Rightarrow> string \<Rightarrow> unit run" where
  "make_symlink K root dest link =
     (let (to, n) = snprintf 4096 (root @ link)
      in seq (ignore (exit_if (return n) (\<lambda>n. n \<ge> 4096)))
           (ignore (pexit_if
              (bind (sys_symlink K dest to) (\<lambda>r.
                 bind get_errno (\<lambda>e. return (r = - 1 \<and> e \<noteq> EEXIST))))
              (\<lambda>b. b))))"

text \<open>Lines 288-391, once \<^verbatim>\<open>rootfd\<close> is open.\<close>

definition prepare :: "kernel \<Rightarrow> string \<Rightarrow> int \<Rightarrow> unit run" where
  "prepare K root rootfd =
     block
       [enter Unlink_Paths,
        for_each unlink_paths (unlink_path K rootfd),
        enter Make_Dirs,
        sys_umask 0,
        for_each dirs (make_dir K rootfd),
        enter Etc_Hosts,
        ignore (exit_if (ensure_etc_hosts_exists K root rootfd) (\<lambda>r. r = 0)),
        enter Close_Root,
        ignore (sys_close K rootfd),
        enter Dev_Nodes,
        for_each devnodes (bind_devnode K root),
        enter Dir_Mounts,
        for_each dirs_mount_table (mount_at K root),
        enter Sys_Mount,
        mount_sys K root,
        enter File_Mounts,
        for_each files_mount_table (bind_file K root),
        enter Symlinks,
        make_symlink K root ''/dev/pts/ptmx'' ''/dev/ptmx'',
        make_symlink K root ''/run/systemd/journal/dev-log'' ''/dev/log'']"

text \<open>\<^verbatim>\<open>argv\<close> is the list of the arguments, \<^verbatim>\<open>argc\<close> its length.\<close>

definition main :: "kernel \<Rightarrow> string list \<Rightarrow> int run" where
  "main K argv =
     seq (ignore (exit_if (return (int (length argv))) (\<lambda>argc. argc < 2)))
       (let root = argv ! 1
        in seq (enter Make_Mountpoint)
             (seq (ignore (pexit_if (sys_mount K root root ''bind'' (MS_BIND OR MS_REC) None)
                             (\<lambda>r. r = - 1)))
                (seq (enter Open_Root)
                   (bind (sys_open K root (O_DIRECTORY OR O_CLOEXEC) None)
                      (\<lambda>rootfd.
                         seq (ignore (pexit_if (return rootfd) (\<lambda>rootfd. rootfd < 0)))
                           (seq (prepare K root rootfd) (return EXIT_SUCCESS)))))))"

text \<open>The state in which the process starts: nothing counted, nothing called.\<close>

definition init :: st where
  "init = \<lparr>exit_err = 0, errno = 0, stage = Make_Mountpoint, trace = []\<rparr>"

section \<open>Observing a run\<close>

definition completed :: "'a outcome \<Rightarrow> bool" where
  "completed r = (case r of Done x s \<Rightarrow> True | Exit c s \<Rightarrow> False)"

text \<open>The calls a computation has added to the trace of the state \<open>s\<close> it started in.\<close>

definition new_events :: "st \<Rightarrow> 'a outcome \<Rightarrow> event list" where
  "new_events s r = drop (length (trace s)) (trace (final r))"

text \<open>The record of a \<^verbatim>\<open>mount\<close> issued in part \<open>g\<close> as call number \<open>n\<close>.\<close>

definition mount_ev ::
  "kernel \<Rightarrow> nat \<Rightarrow> stage \<Rightarrow> string \<Rightarrow> string \<Rightarrow> string \<Rightarrow> 64 word \<Rightarrow> string option \<Rightarrow> event" where
  "mount_ev K n g src tgt ty fl dat = (g, Mount src tgt ty fl dat (k_mount K n src tgt ty fl dat))"

text \<open>The arguments of the \<^verbatim>\<open>mount\<close> calls of a trace, in order.\<close>

fun mount_args :: "syscall \<Rightarrow> (string \<times> string \<times> string \<times> 64 word \<times> string option) option" where
  "mount_args (Mount src tgt ty fl dat r) = Some (src, tgt, ty, fl, dat)"
| "mount_args _ = None"

definition mounts_of :: "event list \<Rightarrow> (string \<times> string \<times> string \<times> 64 word \<times> string option) list" where
  "mounts_of tr = List.map_filter (\<lambda>e. mount_args (snd e)) tr"

definition recursive :: "64 word \<Rightarrow> bool" where
  "recursive fl = (fl AND MS_REC \<noteq> 0)"

text \<open>Whether a recorded call failed.\<close>

definition is_err :: "errno_t + 'a \<Rightarrow> bool" where
  "is_err r = (case r of Inl _ \<Rightarrow> True | Inr _ \<Rightarrow> False)"

fun failed :: "syscall \<Rightarrow> bool" where
  "failed (Mount _ _ _ _ _ r) = is_err r"
| "failed (Open _ _ _ r) = is_err r"
| "failed (Openat _ _ _ _ r) = is_err r"
| "failed (Close _ r) = is_err r"
| "failed (Read _ _ r) = is_err r"
| "failed (Write _ _ r) = is_err r"
| "failed (Unlinkat _ _ _ r) = is_err r"
| "failed (Umask _) = False"
| "failed (Mkdirat _ _ _ r) = is_err r"
| "failed (Faccessat _ _ _ _ r) = is_err r"
| "failed (Access _ _ r) = is_err r"
| "failed (Statfs _ r) = is_err r"
| "failed (Fopen _ _ r) = is_err r"
| "failed (Fscanf _ _) = False"
| "failed (Fclose r) = is_err r"
| "failed (Opendir _ r) = is_err r"
| "failed (Readdir r) = is_err r"
| "failed (Closedir r) = is_err r"
| "failed (Creat _ _ r) = is_err r"
| "failed (Symlink _ _ r) = is_err r"

datatype kind =
    KMount | KOpen | KOpenat | KClose | KRead | KWrite | KUnlinkat | KUmask | KMkdirat
  | KFaccessat | KAccess | KStatfs | KFopen | KFscanf | KFclose | KOpendir | KReaddir
  | KClosedir | KCreat | KSymlink

fun kind_of :: "syscall \<Rightarrow> kind" where
  "kind_of (Mount _ _ _ _ _ _) = KMount"
| "kind_of (Open _ _ _ _) = KOpen"
| "kind_of (Openat _ _ _ _ _) = KOpenat"
| "kind_of (Close _ _) = KClose"
| "kind_of (Read _ _ _) = KRead"
| "kind_of (Write _ _ _) = KWrite"
| "kind_of (Unlinkat _ _ _ _) = KUnlinkat"
| "kind_of (Umask _) = KUmask"
| "kind_of (Mkdirat _ _ _ _) = KMkdirat"
| "kind_of (Faccessat _ _ _ _ _) = KFaccessat"
| "kind_of (Access _ _ _) = KAccess"
| "kind_of (Statfs _ _) = KStatfs"
| "kind_of (Fopen _ _ _) = KFopen"
| "kind_of (Fscanf _ _) = KFscanf"
| "kind_of (Fclose _) = KFclose"
| "kind_of (Opendir _ _) = KOpendir"
| "kind_of (Readdir _) = KReaddir"
| "kind_of (Closedir _) = KClosedir"
| "kind_of (Creat _ _ _) = KCreat"
| "kind_of (Symlink _ _ _) = KSymlink"

text \<open>
  A computation \<open>emits P\<close> when, from every state, it only appends calls to the trace,
  each in the current part and each satisfying \<open>P\<close>, and leaves the part as it is.
\<close>

definition emits :: "(syscall \<Rightarrow> bool) \<Rightarrow> 'a run \<Rightarrow> bool" where
  "emits P m =
     (\<forall>s. stage (final (m s)) = stage s \<and>
          (\<exists>evs. trace (final (m s)) = trace s @ evs \<and>
                 (\<forall>e\<in>set evs. fst e = stage s \<and> P (snd e))))"

definition of_kinds :: "kind set \<Rightarrow> syscall \<Rightarrow> bool" where
  "of_kinds S c = (kind_of c \<in> S)"

definition succeeds :: "'a run \<Rightarrow> bool" where
  "succeeds m = (\<forall>s. completed (m s))"

definition cgroup_fs_type :: "kernel \<Rightarrow> 64 word \<Rightarrow> bool" where
  "cgroup_fs_type K ty = (\<forall>n. k_statfs K n ''/sys/fs/cgroup'' = Inr ty)"

definition uid_map_opened :: "kernel \<Rightarrow> bool" where
  "uid_map_opened K =
     (\<forall>n. k_access K n ''/proc/1/uid_map'' F_OK = Inr () \<and>
          k_fopen K n ''/proc/1/uid_map'' ''re'' = Inr ())"

definition uid_map_record :: "kernel \<Rightarrow> 32 word \<Rightarrow> 32 word \<Rightarrow> 32 word \<Rightarrow> bool" where
  "uid_map_record K b sh rg =
     (uid_map_opened K \<and>
      (\<forall>n. k_fscanf K n ''%u %u %u'' = (3, b, sh, rg) \<and> k_fclose K n = Inr ()))"

definition K_plain :: kernel where
  "K_plain =
     \<lparr>k_mount = (\<lambda>n src tgt ty fl dat. Inr ()),
      k_open = (\<lambda>n path fl md. if path = ''/etc/machine-id'' then Inr 4 else Inr 3),
      k_openat = (\<lambda>n dfd path fl md. Inr 4),
      k_close = (\<lambda>n fd. Inr ()),
      k_read = (\<lambda>n fd count. Inr (take count (''0123456789abcdef0123456789abcdef'' @ [NL]))),
      k_write = (\<lambda>n fd bs. Inr (length bs)),
      k_unlinkat = (\<lambda>n dfd path fl. Inl ENOENT),
      k_mkdirat = (\<lambda>n dfd path md. Inr ()),
      k_faccessat = (\<lambda>n dfd path md fl. Inl ENOENT),
      k_access = (\<lambda>n path md. Inr ()),
      k_statfs = (\<lambda>n path. Inr 0x01021994),
      k_fopen = (\<lambda>n path md. Inr ()),
      k_fscanf = (\<lambda>n fmt. (3, 0, 0, UNMAPPED)),
      k_fclose = (\<lambda>n. Inr ()),
      k_opendir =
        (\<lambda>n path.
           Inr ([\<lparr>d_name = ''.'', d_type = DT_DIR\<rparr>, \<lparr>d_name = ''..'', d_type = DT_DIR\<rparr>,
                 \<lparr>d_name = ''cpu'', d_type = DT_DIR\<rparr>, \<lparr>d_name = ''cpuacct'', d_type = 10\<rparr>,
                 \<lparr>d_name = ''memory'', d_type = DT_DIR\<rparr>], None)),
      k_closedir = (\<lambda>n. Inr ()),
      k_creat = (\<lambda>n path md. Inr 3),
      k_symlink = (\<lambda>n tgt path. Inr ()),
      k_stack = []\<rparr>"

definition K_unified :: kernel where
  "K_unified = K_plain\<lparr>k_statfs := (\<lambda>n path. Inr CGROUP2_SUPER_MAGIC)\<rparr>"

definition K_nested :: kernel where
  "K_nested = K_plain\<lparr>k_fscanf := (\<lambda>n fmt. (3, 100000, 0, 65536))\<rparr>"

definition K_malformed :: kernel where
  "K_malformed = K_plain\<lparr>k_fscanf := (\<lambda>n fmt. (2, 0, 0, 7))\<rparr>"

text \<open>
  The entries of \<^verbatim>\<open>/sys/fs/cgroup\<close> that are controllers: the directories other than
  \<^verbatim>\<open>.\<close> and \<^verbatim>\<open>..\<close>; and the mounts the bind-mount strategy for legacy cgroups takes.
\<close>

definition is_controller :: "dirent \<Rightarrow> bool" where
  "is_controller d = (d_type d = DT_DIR \<and> d_name d \<noteq> ''.'' \<and> d_name d \<noteq> ''..'')"

definition controllers :: "dirent list \<Rightarrow> string list" where
  "controllers ents = map d_name (filter is_controller ents)"

definition controller_mount ::
  "string \<Rightarrow> string \<Rightarrow> string \<times> string \<times> string \<times> 64 word \<times> string option" where
  "controller_mount root n =
     (''sys/fs/cgroup/'' @ n, root @ ''/sys/fs/cgroup/'' @ n, ''bind'', MS_BIND, None)"

definition v1_mounts ::
  "string \<Rightarrow> dirent list \<Rightarrow> (string \<times> string \<times> string \<times> 64 word \<times> string option) list" where
  "v1_mounts root ents =
     [(''/sys'', root @ ''/sys'', ''bind'', MS_BIND, None),
      (''/sys/fs/cgroup'', root @ ''/sys/fs/cgroup'', ''bind'', MS_BIND, None)]
     @ map (controller_mount root) (controllers ents)"

definition cgroup_listing :: "kernel \<Rightarrow> string \<Rightarrow> dirent list \<Rightarrow> errno_t option \<Rightarrow> bool" where
  "cgroup_listing K root ents e = (\<forall>n. k_opendir K n (root @ ''/sys/fs/cgroup'') = Inr (ents, e))"

text \<open>
  A computation \<open>issues xs\<close> when the mounts it adds to the trace are a prefix of \<open>xs\<close>,
  and all of \<open>xs\<close> when it goes on.
\<close>

definition issues_at ::
  "'a run \<Rightarrow> st \<Rightarrow> (string \<times> string \<times> string \<times> 64 word \<times> string option) list \<Rightarrow> bool" where
  "issues_at m s xs =
     (\<exists>evs. trace (final (m s)) = trace s @ evs \<and> prefix (mounts_of evs) xs \<and>
            (completed (m s) \<longrightarrow> mounts_of evs = xs))"

definition issues ::
  "'a run \<Rightarrow> (string \<times> string \<times> string \<times> 64 word \<times> string option) list \<Rightarrow> bool" where
  "issues m xs = (\<forall>s. issues_at m s xs)"

text \<open>The parts of \<^verbatim>\<open>main\<close> numbered in the order of the source.\<close>

fun stage_rank :: "stage \<Rightarrow> nat" where
  "stage_rank Make_Mountpoint = 0"
| "stage_rank Open_Root = 1"
| "stage_rank Unlink_Paths = 2"
| "stage_rank Make_Dirs = 3"
| "stage_rank Etc_Hosts = 4"
| "stage_rank Close_Root = 5"
| "stage_rank Dev_Nodes = 6"
| "stage_rank Dir_Mounts = 7"
| "stage_rank Sys_Mount = 8"
| "stage_rank File_Mounts = 9"
| "stage_rank Symlinks = 10"

text \<open>
  The components of the specification, and the component each part of \<^verbatim>\<open>main\<close> belongs
  to; \<open>Engine\<close> is \<^verbatim>\<open>main\<close>'s own handling of the root.
\<close>

datatype component =
  Engine | Skeleton_Builder | Hosts_Synthesizer | Device_File_Mounter | Sys_Mounter

fun component_of :: "stage \<Rightarrow> component" where
  "component_of Make_Mountpoint = Engine"
| "component_of Open_Root = Engine"
| "component_of Unlink_Paths = Skeleton_Builder"
| "component_of Make_Dirs = Skeleton_Builder"
| "component_of Etc_Hosts = Hosts_Synthesizer"
| "component_of Close_Root = Engine"
| "component_of Dev_Nodes = Device_File_Mounter"
| "component_of Dir_Mounts = Device_File_Mounter"
| "component_of Sys_Mount = Sys_Mounter"
| "component_of File_Mounts = Device_File_Mounter"
| "component_of Symlinks = Device_File_Mounter"

text \<open>
  A computation is \<open>staged g g' P\<close> when, started in part \<open>g\<close>, it only appends calls, in
  parts from \<open>g\<close> to \<open>g'\<close> that never go back, each call satisfying \<open>P\<close>, and is in part
  \<open>g'\<close> when it goes on.
\<close>

definition staged :: "stage \<Rightarrow> stage \<Rightarrow> (event \<Rightarrow> bool) \<Rightarrow> 'a run \<Rightarrow> bool" where
  "staged g g' P m =
     (\<forall>s. stage s = g \<longrightarrow>
          (\<exists>evs. trace (final (m s)) = trace s @ evs \<and>
                 sorted (map (\<lambda>e. stage_rank (fst e)) evs) \<and>
                 (\<forall>e\<in>set evs. stage_rank g \<le> stage_rank (fst e) \<and>
                              stage_rank (fst e) \<le> stage_rank g' \<and> P e) \<and>
                 (completed (m s) \<longrightarrow> stage (final (m s)) = g')))"

text \<open>
  The arguments of the mount \<^verbatim>\<open>mount_at\<close> issues for an entry of a mount table: the target
  is the root, a slash and the target of the entry.
\<close>

definition at_root ::
  "string \<Rightarrow> mount_point \<Rightarrow> string \<times> string \<times> string \<times> 64 word \<times> string option" where
  "at_root root m = (source m, root @ ''/'' @ target m, fstype m, flags m, options m)"

text \<open>
  An entry is \<open>listed\<close> when the kernel, at some moment, gives it among the entries of
  \<^verbatim>\<open>sys/fs/cgroup\<close> under the root.
\<close>

definition listed :: "kernel \<Rightarrow> string \<Rightarrow> dirent \<Rightarrow> bool" where
  "listed K root d =
     (\<exists>n ents e. k_opendir K n (root @ ''/sys/fs/cgroup'') = Inr (ents, e) \<and> d \<in> set ents)"

text \<open>
  The mounts of each part of \<^verbatim>\<open>main\<close>, as the arguments of the call: the target of each is
  written in full, the root followed by the path of the source text.
\<close>

fun part_mounts ::
  "kernel \<Rightarrow> string \<Rightarrow> stage \<Rightarrow> (string \<times> string \<times> string \<times> 64 word \<times> string option) set" where
  "part_mounts K root Make_Mountpoint = {(root, root, ''bind'', MS_BIND OR MS_REC, None)}"
| "part_mounts K root Dev_Nodes = (\<lambda>from. (from, root @ from, ''bind'', MS_BIND, None)) ` set devnodes"
| "part_mounts K root Dir_Mounts = at_root root ` set dirs_mount_table"
| "part_mounts K root Sys_Mount =
     at_root root ` set (mnt_rec # sys_bind_table) \<union>
     {controller_mount root (d_name d) |d. listed K root d \<and> is_controller d}"
| "part_mounts K root File_Mounts = at_root root ` set files_mount_table"
| "part_mounts K root _ = {}"

text \<open>
  The calls of each part of \<^verbatim>\<open>main\<close>: \<open>part_call K root g c\<close> holds when \<open>c\<close>, by its
  arguments, is a call that part \<open>g\<close> of the source issues. Every mount but the one of the
  root on itself has a target of fewer than 4096 bytes.
\<close>

definition part_call :: "kernel \<Rightarrow> string \<Rightarrow> stage \<Rightarrow> syscall \<Rightarrow> bool" where
  "part_call K root g c =
     (case c of
        Mount src tgt ty fl dat r \<Rightarrow>
          (src, tgt, ty, fl, dat) \<in> part_mounts K root g \<and>
          (g = Make_Mountpoint \<or> length tgt < 4096)
      | Open p fl md r \<Rightarrow>
          g = Open_Root \<and> p = root \<and> fl = O_DIRECTORY OR O_CLOEXEC \<and> md = None \<or>
          g = Etc_Hosts \<and> p = ''/etc/machine-id'' \<and> fl = O_RDONLY \<and> md = None \<or>
          g = Dev_Nodes \<and> p \<in> (\<lambda>from. root @ from) ` set devnodes \<and> length p < 4096 \<and>
            fl = O_WRONLY OR O_CREAT OR O_CLOEXEC OR O_NOCTTY \<and> md = Some (octal [0, 6, 4, 4])
      | Openat fd p fl md r \<Rightarrow>
          g = Etc_Hosts \<and> p = ''etc/hosts'' \<and> fl = O_WRONLY OR O_CREAT \<and> md = octal [0, 6, 4, 4]
      | Close fd r \<Rightarrow> g \<in> {Etc_Hosts, Close_Root, Dev_Nodes, File_Mounts}
      | Read fd n r \<Rightarrow> g = Etc_Hosts \<and> n = MACHINE_ID_LEN
      | Write fd bs r \<Rightarrow> g = Etc_Hosts
      | Unlinkat fd p fl r \<Rightarrow> g = Unlink_Paths \<and> p \<in> set unlink_paths \<and> fl = 0
      | Umask m \<Rightarrow> g = Make_Dirs \<and> m = 0
      | Mkdirat fd p md r \<Rightarrow> g = Make_Dirs \<and> (p, md) \<in> (\<lambda>d. (name d, mode d)) ` set dirs
      | Faccessat fd p m fl r \<Rightarrow> g = Etc_Hosts \<and> p = ''etc/hosts'' \<and> m = F_OK \<and> fl = AT_EACCESS
      | Access p m r \<Rightarrow>
          m = F_OK \<and>
          (g = Dev_Nodes \<and> p \<in> set devnodes \<or>
           g = Sys_Mount \<and> p = ''/proc/1/uid_map'' \<or>
           g = File_Mounts \<and>
             p \<in> source ` set files_mount_table \<union>
                 (\<lambda>m. root @ ''/'' @ target m) ` set files_mount_table)
      | Statfs p r \<Rightarrow> g = Sys_Mount \<and> p = ''/sys/fs/cgroup''
      | Fopen p md r \<Rightarrow> g = Sys_Mount \<and> p = ''/proc/1/uid_map'' \<and> md = ''re''
      | Fscanf fmt r \<Rightarrow> g = Sys_Mount \<and> fmt = ''%u %u %u''
      | Fclose r \<Rightarrow> g = Sys_Mount
      | Opendir p r \<Rightarrow> g = Sys_Mount \<and> p = root @ ''/sys/fs/cgroup''
      | Readdir r \<Rightarrow> g = Sys_Mount
      | Closedir r \<Rightarrow> g = Sys_Mount
      | Creat p md r \<Rightarrow>
          g = File_Mounts \<and> p \<in> (\<lambda>m. root @ ''/'' @ target m) ` set files_mount_table \<and>
          md = octal [0, 6, 4, 4]
      | Symlink dest p r \<Rightarrow>
          g = Symlinks \<and>
          (dest, p) \<in> {(''/dev/pts/ptmx'', root @ ''/dev/ptmx''),
                       (''/run/systemd/journal/dev-log'', root @ ''/dev/log'')})"

text \<open>
  The mounts under the root: those of every part of \<^verbatim>\<open>main\<close> but the mount of the root on
  itself.
\<close>

definition root_mounts ::
  "kernel \<Rightarrow> string \<Rightarrow> (string \<times> string \<times> string \<times> 64 word \<times> string option) set" where
  "root_mounts K root =
     part_mounts K root Dev_Nodes \<union> part_mounts K root Dir_Mounts \<union>
     part_mounts K root Sys_Mount \<union> part_mounts K root File_Mounts"

definition K_stop :: kernel where
  "K_stop =
     K_plain\<lparr>k_mount := (\<lambda>n src tgt ty fl dat. if src = ''/dev/zero'' then Inl 13 else Inr ())\<rparr>"

definition hosts_line :: "string \<Rightarrow> string" where
  "hosts_line hostname =
     ''127.0.0.1'' @ [TAB] @ hostname @ [TAB] @ ''localhost'' @ [TAB] @ ''localhost.localdomain''
     @ [NL]"

definition K_no_mount :: kernel where
  "K_no_mount = K_plain\<lparr>k_mount := (\<lambda>n src tgt ty fl dat. Inl 1)\<rparr>"

text \<open>The state of a process that has issued no call yet and is in part \<open>g\<close> of \<^verbatim>\<open>main\<close>.\<close>

definition in_part :: "stage \<Rightarrow> st" where
  "in_part g = init\<lparr>stage := g\<rparr>"

text \<open>A kernel with a read-only container root: creating or opening a file to write fails.\<close>

definition K_read_only :: kernel where
  "K_read_only = K_plain\<lparr>k_open := (\<lambda>n path fl md. Inl 30)\<rparr>"

text \<open>
  The hostname \<^verbatim>\<open>get_machine_name\<close> formats from the bytes of the identity: groups of
  8, 4, 4, 4 and 8 characters, 28 in all.
\<close>

definition machine_name :: "string \<Rightarrow> string" where
  "machine_name ident =
     ''rkt-'' @ take 8 ident @ ''-'' @ take 4 (drop 8 ident) @ ''-'' @ take 4 (drop 12 ident)
     @ ''-'' @ take 4 (drop 16 ident) @ ''-'' @ take 8 (drop 20 ident)"

text \<open>
  No hosts file under the root; the identity file opens as \<open>fd\<close> and holds the bytes
  \<open>content\<close>; the hosts file is created as \<open>hfd\<close>; reads, writes and closes succeed.
\<close>

definition hosts_absent :: "kernel \<Rightarrow> int \<Rightarrow> nat \<Rightarrow> string \<Rightarrow> nat \<Rightarrow> bool" where
  "hosts_absent K rootfd fd content hfd =
     (\<forall>n. is_err (k_faccessat K n rootfd ''etc/hosts'' F_OK AT_EACCESS) \<and>
          k_open K n ''/etc/machine-id'' O_RDONLY None = Inr fd \<and>
          (\<forall>count. k_read K n (int fd) count = Inr (take count content)) \<and>
          (\<forall>d. k_close K n d = Inr ()) \<and>
          k_openat K n rootfd ''etc/hosts'' (O_WRONLY OR O_CREAT) (octal [0, 6, 4, 4]) = Inr hfd \<and>
          (\<forall>d bs. k_write K n d bs = Inr (length bs)))"

text \<open>
  A run against a root that already holds the skeleton and a hosts file. The calls with a
  tolerated failure may fail that way: \<^verbatim>\<open>unlinkat\<close> with \<^verbatim>\<open>ENOENT\<close> or \<^verbatim>\<open>EISDIR\<close>,
  \<^verbatim>\<open>mkdirat\<close> and \<^verbatim>\<open>symlink\<close> with \<^verbatim>\<open>EEXIST\<close>, and \<^verbatim>\<open>access\<close> in any way. The hosts file is
  there, every other call succeeds, directory entries have names of at most 255 bytes, and
  the root is short enough for every path to fit the buffer of 4096 bytes.
\<close>

definition skeleton_present :: "kernel \<Rightarrow> string \<Rightarrow> bool" where
  "skeleton_present K root =
     (length root + 270 < 4096 \<and>
      (\<forall>n. (\<forall>src tgt ty fl dat. k_mount K n src tgt ty fl dat = Inr ()) \<and>
           (\<exists>fd. k_open K n root (O_DIRECTORY OR O_CLOEXEC) None = Inr fd) \<and>
           (\<forall>dfd p fl. k_unlinkat K n dfd p fl \<in> {Inr (), Inl ENOENT, Inl EISDIR}) \<and>
           (\<forall>dfd p m. k_mkdirat K n dfd p m \<in> {Inr (), Inl EEXIST}) \<and>
           (\<forall>dfd. k_faccessat K n dfd ''etc/hosts'' F_OK AT_EACCESS = Inr ()) \<and>
           (\<forall>fd. k_close K n fd = Inr ()) \<and>
           (\<exists>ty. k_statfs K n ''/sys/fs/cgroup'' = Inr ty) \<and>
           (\<forall>p m. k_fopen K n p m = Inr ()) \<and>
           fst (k_fscanf K n ''%u %u %u'') = 3 \<and>
           k_fclose K n = Inr () \<and>
           (\<exists>ents. k_opendir K n (root @ ''/sys/fs/cgroup'') = Inr (ents, None) \<and>
                   (\<forall>d\<in>set ents. length (d_name d) \<le> 255)) \<and>
           k_closedir K n = Inr () \<and>
           (\<forall>p m. \<exists>fd. k_creat K n p m = Inr fd) \<and>
           (\<forall>t p. k_symlink K n t p \<in> {Inr (), Inl EEXIST})))"

text \<open>A computation \<open>keeps_errno\<close> when it always goes on and leaves \<^verbatim>\<open>errno\<close> as it was.\<close>

definition keeps_errno :: "unit run \<Rightarrow> bool" where
  "keeps_errno m = (\<forall>s. \<exists>s'. m s = Done () s' \<and> errno s' = errno s)"

text \<open>
  A second run on the same root: \<^verbatim>\<open>dev/shm\<close> is a directory, the directories and the link
  \<^verbatim>\<open>dev/log\<close> exist, the hosts file exists, and the host has neither \<^verbatim>\<open>/dev/net/tun\<close> nor
  \<^verbatim>\<open>/etc/rkt-resolv.conf\<close>.
\<close>

definition K_rerun :: kernel where
  "K_rerun =
     K_plain
       \<lparr>k_unlinkat := (\<lambda>n dfd path fl. if path = ''dev/shm'' then Inl EISDIR else Inr ()),
        k_mkdirat := (\<lambda>n dfd path md. Inl EEXIST),
        k_faccessat := (\<lambda>n dfd path md fl. Inr ()),
        k_access :=
          (\<lambda>n path md.
             if path = ''/dev/net/tun'' \<or> path = ''/etc/rkt-resolv.conf'' then Inl ENOENT
             else Inr ()),
        k_symlink := (\<lambda>n tgt path. if path = ''/stage2/rootfs/dev/log'' then Inl EEXIST else Inr ())\<rparr>"

section \<open>Basic facts\<close>

subsection \<open>Calls a computation can issue\<close>

lemmas monad_defs = bind_def return_def seq_def ignore_def exit_if_def pexit_if_def call_def
  get_errno_def set_errno_def

lemmas sys_defs = sys_mount_def sys_open_def sys_openat_def sys_close_def sys_read_def
  sys_write_def sys_unlinkat_def sys_umask_def sys_mkdirat_def sys_faccessat_def sys_access_def
  sys_statfs_def sys_fopen_def sys_fscanf_def sys_fclose_def sys_opendir_def sys_readdir_def
  sys_closedir_def sys_creat_def sys_symlink_def ret0_def retfd_def snprintf_def

lemma emits_return: "emits P (return x)"
  by (simp add: emits_def return_def final_def)

lemma emits_bind:
  assumes "emits P m" and "\<And>x. emits P (f x)"
  shows "emits P (bind m f)"
  unfolding emits_def
proof (intro allI)
  fix s :: st
  from assms(1) obtain evs where m: "stage (final (m s)) = stage s"
    "trace (final (m s)) = trace s @ evs" "\<forall>e\<in>set evs. fst e = stage s \<and> P (snd e)"
    unfolding emits_def by blast
  show "stage (final (bind m f s)) = stage s \<and>
          (\<exists>evs. trace (final (bind m f s)) = trace s @ evs \<and>
                 (\<forall>e\<in>set evs. fst e = stage s \<and> P (snd e)))"
  proof (cases "m s")
    case (Exit c s')
    with m show ?thesis by (auto simp: bind_def final_def)
  next
    case (Done x s')
    from assms(2)[of x] obtain evs' where f: "stage (final (f x s')) = stage s'"
      "trace (final (f x s')) = trace s' @ evs'"
      "\<forall>e\<in>set evs'. fst e = stage s' \<and> P (snd e)"
      unfolding emits_def by blast
    from Done m have s': "stage s' = stage s" "trace s' = trace s @ evs"
      by (simp_all add: final_def)
    have "trace (final (f x s')) = trace s @ (evs @ evs')"
      using f(2) s'(2) by simp
    moreover have "\<forall>e\<in>set (evs @ evs'). fst e = stage s \<and> P (snd e)"
      using m(3) f(3) s'(1) by auto
    ultimately show ?thesis
      using Done f(1) s'(1) unfolding bind_def by auto
  qed
qed

lemma emits_seq: "emits P m \<Longrightarrow> emits P k \<Longrightarrow> emits P (seq m k)"
  unfolding seq_def by (rule emits_bind)

lemma emits_ignore: "emits P m \<Longrightarrow> emits P (ignore m)"
  unfolding ignore_def by (rule emits_bind) (auto intro: emits_return)

lemma emits_if: "emits P a \<Longrightarrow> emits P b \<Longrightarrow> emits P (if c then a else b)"
  by simp

lemma emits_exit_if:
  assumes "emits P m"
  shows "emits P (exit_if m bad)"
  unfolding emits_def
proof (intro allI)
  fix s :: st
  let ?s1 = "s\<lparr>exit_err := exit_err s + 1\<rparr>"
  from assms obtain evs where m: "stage (final (m ?s1)) = stage ?s1"
    "trace (final (m ?s1)) = trace ?s1 @ evs" "\<forall>e\<in>set evs. fst e = stage ?s1 \<and> P (snd e)"
    unfolding emits_def by blast
  have "final (exit_if m bad s) = final (m ?s1)"
    by (simp add: exit_if_def final_def split: outcome.splits)
  with m show "stage (final (exit_if m bad s)) = stage s \<and>
          (\<exists>evs. trace (final (exit_if m bad s)) = trace s @ evs \<and>
                 (\<forall>e\<in>set evs. fst e = stage s \<and> P (snd e)))"
    by simp
qed

lemma emits_pexit_if: "emits P m \<Longrightarrow> emits P (pexit_if m bad)"
  unfolding pexit_if_def by (rule emits_exit_if)

lemma emits_call: "(\<And>r. P (mk r)) \<Longrightarrow> emits P (call k mk)"
  by (simp add: emits_def call_def final_def Let_def split: sum.splits)

lemma emits_get_errno: "emits P get_errno"
  by (simp add: emits_def get_errno_def final_def)

lemma emits_set_errno: "emits P (set_errno e)"
  by (simp add: emits_def set_errno_def final_def)

lemma emits_for_each: "(\<And>x. x \<in> set xs \<Longrightarrow> emits P (body x)) \<Longrightarrow> emits P (for_each xs body)"
  by (induction xs) (auto intro: emits_return emits_seq)

lemmas emits_struct = emits_return emits_bind emits_seq emits_ignore emits_if emits_exit_if
  emits_pexit_if emits_get_errno emits_set_errno

subsection \<open>Which calls each function can issue\<close>

lemma emits_sys_mount: "KMount \<in> S \<Longrightarrow> emits (of_kinds S) (sys_mount K a b c d e)"
  unfolding sys_mount_def by (intro emits_bind emits_call emits_return) (simp add: of_kinds_def)

lemma emits_sys_open: "KOpen \<in> S \<Longrightarrow> emits (of_kinds S) (sys_open K a b c)"
  unfolding sys_open_def by (intro emits_bind emits_call emits_return) (simp add: of_kinds_def)

lemma emits_sys_openat: "KOpenat \<in> S \<Longrightarrow> emits (of_kinds S) (sys_openat K a b c d)"
  unfolding sys_openat_def by (intro emits_bind emits_call emits_return) (simp add: of_kinds_def)

lemma emits_sys_close: "KClose \<in> S \<Longrightarrow> emits (of_kinds S) (sys_close K a)"
  unfolding sys_close_def by (intro emits_bind emits_call emits_return) (simp add: of_kinds_def)

lemma emits_sys_read: "KRead \<in> S \<Longrightarrow> emits (of_kinds S) (sys_read K a b c)"
  unfolding sys_read_def by (intro emits_bind emits_call emits_return) (simp add: of_kinds_def)

lemma emits_sys_write: "KWrite \<in> S \<Longrightarrow> emits (of_kinds S) (sys_write K a b c)"
  unfolding sys_write_def by (intro emits_bind emits_call emits_return) (simp add: of_kinds_def)

lemma emits_sys_unlinkat: "KUnlinkat \<in> S \<Longrightarrow> emits (of_kinds S) (sys_unlinkat K a b c)"
  unfolding sys_unlinkat_def by (intro emits_bind emits_call emits_return) (simp add: of_kinds_def)

lemma emits_sys_umask: "KUmask \<in> S \<Longrightarrow> emits (of_kinds S) (sys_umask a)"
  by (simp add: emits_def sys_umask_def final_def of_kinds_def)

lemma emits_sys_mkdirat: "KMkdirat \<in> S \<Longrightarrow> emits (of_kinds S) (sys_mkdirat K a b c)"
  unfolding sys_mkdirat_def by (intro emits_bind emits_call emits_return) (simp add: of_kinds_def)

lemma emits_sys_faccessat: "KFaccessat \<in> S \<Longrightarrow> emits (of_kinds S) (sys_faccessat K a b c d)"
  unfolding sys_faccessat_def by (intro emits_bind emits_call emits_return) (simp add: of_kinds_def)

lemma emits_sys_access: "KAccess \<in> S \<Longrightarrow> emits (of_kinds S) (sys_access K a b)"
  unfolding sys_access_def by (intro emits_bind emits_call emits_return) (simp add: of_kinds_def)

lemma emits_sys_statfs: "KStatfs \<in> S \<Longrightarrow> emits (of_kinds S) (sys_statfs K a)"
  unfolding sys_statfs_def by (intro emits_bind emits_call emits_return) (simp add: of_kinds_def)

lemma emits_sys_fopen: "KFopen \<in> S \<Longrightarrow> emits (of_kinds S) (sys_fopen K a b)"
  unfolding sys_fopen_def by (intro emits_bind emits_call emits_return) (simp add: of_kinds_def)

lemma emits_sys_fscanf: "KFscanf \<in> S \<Longrightarrow> emits (of_kinds S) (sys_fscanf K a)"
  by (simp add: emits_def sys_fscanf_def final_def of_kinds_def Let_def)

lemma emits_sys_fclose: "KFclose \<in> S \<Longrightarrow> emits (of_kinds S) (sys_fclose K)"
  unfolding sys_fclose_def by (intro emits_bind emits_call emits_return) (simp add: of_kinds_def)

lemma emits_sys_opendir: "KOpendir \<in> S \<Longrightarrow> emits (of_kinds S) (sys_opendir K a)"
  unfolding sys_opendir_def by (intro emits_bind emits_call emits_return) (simp add: of_kinds_def)

lemma emits_sys_readdir: "KReaddir \<in> S \<Longrightarrow> emits (of_kinds S) (sys_readdir r)"
  unfolding sys_readdir_def by (intro emits_bind emits_call emits_return) (simp add: of_kinds_def)

lemma emits_sys_closedir: "KClosedir \<in> S \<Longrightarrow> emits (of_kinds S) (sys_closedir K)"
  unfolding sys_closedir_def by (intro emits_bind emits_call emits_return) (simp add: of_kinds_def)

lemma emits_sys_creat: "KCreat \<in> S \<Longrightarrow> emits (of_kinds S) (sys_creat K a b)"
  unfolding sys_creat_def by (intro emits_bind emits_call emits_return) (simp add: of_kinds_def)

lemma emits_sys_symlink: "KSymlink \<in> S \<Longrightarrow> emits (of_kinds S) (sys_symlink K a b)"
  unfolding sys_symlink_def by (intro emits_bind emits_call emits_return) (simp add: of_kinds_def)

lemmas emits_sys = emits_sys_mount emits_sys_open emits_sys_openat emits_sys_close emits_sys_read
  emits_sys_write emits_sys_unlinkat emits_sys_umask emits_sys_mkdirat emits_sys_faccessat
  emits_sys_access emits_sys_statfs emits_sys_fopen emits_sys_fscanf emits_sys_fclose
  emits_sys_opendir emits_sys_readdir emits_sys_closedir emits_sys_creat emits_sys_symlink

section \<open>The Sys Mounter\<close>

subsection \<open>Unified and nested hosts\<close>

lemma mount_at_run:
  "mount_at K root mnt s =
     (if 4096 \<le> length (root @ ''/'' @ target mnt)
      then Exit (exit_err s + 1) (s\<lparr>exit_err := exit_err s + 1\<rparr>)
      else (case k_mount K (length (trace s)) (source mnt) (root @ ''/'' @ target mnt) (fstype mnt)
                   (flags mnt) (options mnt) of
              Inl e \<Rightarrow>
                Exit (exit_err s + 2)
                  (s\<lparr>exit_err := exit_err s + 2, errno := e,
                     trace := trace s @ [mount_ev K (length (trace s)) (stage s) (source mnt)
                                           (root @ ''/'' @ target mnt) (fstype mnt) (flags mnt)
                                           (options mnt)]\<rparr>)
            | Inr u \<Rightarrow>
                Done ()
                  (s\<lparr>exit_err := exit_err s + 2,
                     trace := trace s @ [mount_ev K (length (trace s)) (stage s) (source mnt)
                                           (root @ ''/'' @ target mnt) (fstype mnt) (flags mnt)
                                           (options mnt)]\<rparr>)))"
  by (simp add: mount_at_def monad_defs sys_mount_def ret0_def snprintf_def mount_ev_def Let_def
      split: sum.splits)

lemma recursive_flags: "recursive (MS_BIND OR MS_REC)" "\<not> recursive MS_BIND"
  by (simp_all add: recursive_def MS_BIND_def MS_REC_def)

lemma statfs_run:
  "cgroup_fs_type K ty \<Longrightarrow>
   pexit_if (sys_statfs K ''/sys/fs/cgroup'') (\<lambda>(r, f_type). r \<noteq> 0) s =
     Done (0, ty)
       (s\<lparr>exit_err := exit_err s + 1,
          trace := trace s @ [(stage s, Statfs ''/sys/fs/cgroup'' (Inr ty))]\<rparr>)"
  by (simp add: cgroup_fs_type_def sys_statfs_def monad_defs Let_def)

text \<open>
  C2. With the unified cgroup type, the calls of \<^verbatim>\<open>mount_sys\<close> are \<^verbatim>\<open>statfs\<close> and then
  one recursive bind mount of \<^verbatim>\<open>/sys\<close> on \<^verbatim>\<open><root>/sys\<close>: no mount per controller, no look
  at the UID map. When \<^verbatim>\<open><root>/sys\<close> does not fit the buffer of 4096 bytes, it exits
  without any mount.
\<close>

theorem mount_sys_unified:
  assumes "cgroup_fs_type K CGROUP2_SUPER_MAGIC"
  shows "new_events s (mount_sys K root s) =
           (stage s, Statfs ''/sys/fs/cgroup'' (Inr CGROUP2_SUPER_MAGIC)) #
           (if length (root @ ''/sys'') < 4096
            then [mount_ev K (length (trace s) + 1) (stage s) ''/sys'' (root @ ''/sys'') ''bind''
                    (MS_BIND OR MS_REC) None]
            else [])
         \<and> recursive (MS_BIND OR MS_REC)"
  using statfs_run[OF assms, of s]
  by (simp add: mount_sys_def bind_def mount_at_run mnt_rec_def new_events_def final_def
      recursive_flags split: sum.splits)

theorem mount_sys_unified_witness:
  "cgroup_fs_type K_unified CGROUP2_SUPER_MAGIC \<and>
   new_events (in_part Sys_Mount) (mount_sys K_unified ''/stage2/rootfs'' (in_part Sys_Mount)) =
     [(Sys_Mount, Statfs ''/sys/fs/cgroup'' (Inr CGROUP2_SUPER_MAGIC)),
      (Sys_Mount,
       Mount ''/sys'' ''/stage2/rootfs/sys'' ''bind'' (MS_BIND OR MS_REC) None (Inr ()))]"
proof -
  have h: "cgroup_fs_type K_unified CGROUP2_SUPER_MAGIC"
    by (simp add: cgroup_fs_type_def K_unified_def K_plain_def)
  show ?thesis
    using h mount_sys_unified[OF h, of "in_part Sys_Mount" "''/stage2/rootfs''"]
    by (simp add: in_part_def init_def mount_ev_def K_unified_def K_plain_def)
qed

lemma uid_map_run:
  assumes "cgroup_fs_type K ty" "ty \<noteq> CGROUP2_SUPER_MAGIC" "uid_map_opened K"
  shows "mount_sys K root s =
     (let n = length (trace s);
          g = stage s;
          rec = k_fscanf K (n + 3) ''%u %u %u'';
          evs = [(g, Statfs ''/sys/fs/cgroup'' (Inr ty)),
                 (g, Access ''/proc/1/uid_map'' F_OK (Inr ())),
                 (g, Fopen ''/proc/1/uid_map'' ''re'' (Inr ())),
                 (g, Fscanf ''%u %u %u'' rec),
                 (g, Fclose (k_fclose K (n + 4)))];
          s1 = s\<lparr>trace := trace s @ evs\<rparr>
      in case k_fclose K (n + 4) of
           Inl e \<Rightarrow> Exit (exit_err s + 3) (s1\<lparr>exit_err := exit_err s + 3, errno := e\<rparr>)
         | Inr u \<Rightarrow>
             if fst rec \<noteq> 3 then Exit (exit_err s + 4) (s1\<lparr>exit_err := exit_err s + 4\<rparr>)
             else if fst (snd rec) \<noteq> 0 \<or> fst (snd (snd rec)) \<noteq> 0 \<or> snd (snd (snd rec)) \<noteq> UNMAPPED
             then mount_at K root mnt_rec (s1\<lparr>exit_err := exit_err s + 4\<rparr>)
             else mount_sys_cgroup_v1 K root (s1\<lparr>exit_err := exit_err s + 4\<rparr>))"
  using assms
  by (simp add: mount_sys_def cgroup_fs_type_def uid_map_opened_def sys_statfs_def sys_access_def
      sys_fopen_def sys_fscanf_def sys_fclose_def ret0_def monad_defs Let_def split_def
      eval_nat_numeral add.commute split: sum.splits)

text \<open>
  C3. With a legacy cgroup type and a UID-map record whose base or shift is not zero or
  whose range is not the unmapped sentinel, \<^verbatim>\<open>mount_sys\<close> reads the record and then
  issues one recursive bind mount of \<^verbatim>\<open>/sys\<close> on \<^verbatim>\<open><root>/sys\<close> and no other mount; when
  that path does not fit the buffer of 4096 bytes, it exits without any mount.
\<close>

theorem mount_sys_nested:
  assumes "cgroup_fs_type K ty" and "ty \<noteq> CGROUP2_SUPER_MAGIC"
    and "uid_map_record K b sh rg" and "b \<noteq> 0 \<or> sh \<noteq> 0 \<or> rg \<noteq> UNMAPPED"
  shows "new_events s (mount_sys K root s) =
           [(stage s, Statfs ''/sys/fs/cgroup'' (Inr ty)),
            (stage s, Access ''/proc/1/uid_map'' F_OK (Inr ())),
            (stage s, Fopen ''/proc/1/uid_map'' ''re'' (Inr ())),
            (stage s, Fscanf ''%u %u %u'' (3, b, sh, rg)),
            (stage s, Fclose (Inr ()))] @
           (if length (root @ ''/sys'') < 4096
            then [mount_ev K (length (trace s) + 5) (stage s) ''/sys'' (root @ ''/sys'') ''bind''
                    (MS_BIND OR MS_REC) None]
            else [])
         \<and> recursive (MS_BIND OR MS_REC)"
proof -
  from assms(3) have o: "uid_map_opened K"
    and r: "\<And>n. k_fscanf K n ''%u %u %u'' = (3, b, sh, rg)" "\<And>n. k_fclose K n = Inr ()"
    by (simp_all add: uid_map_record_def)
  show ?thesis
    using assms(4)
    by (simp add: uid_map_run[OF assms(1,2) o] r Let_def mount_at_run mnt_rec_def new_events_def
        final_def recursive_flags eval_nat_numeral split: sum.splits)
qed

theorem mount_sys_nested_witness:
  "cgroup_fs_type K_nested 0x01021994 \<and> uid_map_record K_nested 100000 0 65536 \<and>
   mounts_of (new_events (in_part Sys_Mount) (mount_sys K_nested ''/stage2/rootfs'' (in_part Sys_Mount))) =
     [(''/sys'', ''/stage2/rootfs/sys'', ''bind'', MS_BIND OR MS_REC, None)]"
proof -
  have h: "cgroup_fs_type K_nested 0x01021994" "(0x01021994 :: 64 word) \<noteq> CGROUP2_SUPER_MAGIC"
    "uid_map_record K_nested 100000 0 65536"
    "(100000 :: 32 word) \<noteq> 0 \<or> (0 :: 32 word) \<noteq> 0 \<or> (65536 :: 32 word) \<noteq> UNMAPPED"
    by (simp_all add: cgroup_fs_type_def uid_map_record_def uid_map_opened_def K_nested_def
        K_plain_def CGROUP2_SUPER_MAGIC_def)
  show ?thesis
    using h(1,3) mount_sys_nested[OF h, of "in_part Sys_Mount" "''/stage2/rootfs''"]
    by (simp add: mounts_of_def List.map_filter_simps mount_ev_def)
qed

text \<open>
  C7. With a legacy cgroup type, when \<^verbatim>\<open>/proc/1/uid_map\<close> is there and opens but \<^verbatim>\<open>fscanf\<close>
  assigns a number of fields other than three, \<^verbatim>\<open>mount_sys\<close> exits: its calls are those
  that read the record, and no mount is issued.
\<close>

theorem mount_sys_malformed_uid_map:
  assumes "cgroup_fs_type K ty" and "ty \<noteq> CGROUP2_SUPER_MAGIC" and "uid_map_opened K"
    and "\<forall>n. fst (k_fscanf K n ''%u %u %u'') \<noteq> 3"
  shows "\<not> completed (mount_sys K root s) \<and>
         new_events s (mount_sys K root s) =
           [(stage s, Statfs ''/sys/fs/cgroup'' (Inr ty)),
            (stage s, Access ''/proc/1/uid_map'' F_OK (Inr ())),
            (stage s, Fopen ''/proc/1/uid_map'' ''re'' (Inr ())),
            (stage s, Fscanf ''%u %u %u'' (k_fscanf K (length (trace s) + 3) ''%u %u %u'')),
            (stage s, Fclose (k_fclose K (length (trace s) + 4)))] \<and>
         mounts_of (new_events s (mount_sys K root s)) = []"
  using assms(4)
  by (simp add: uid_map_run[OF assms(1,2,3)] Let_def new_events_def final_def completed_def
      mounts_of_def List.map_filter_simps split: sum.splits)

theorem mount_sys_malformed_uid_map_witness:
  "cgroup_fs_type K_malformed 0x01021994 \<and> uid_map_opened K_malformed \<and>
   (\<forall>n. fst (k_fscanf K_malformed n ''%u %u %u'') \<noteq> 3) \<and>
   \<not> completed (mount_sys K_malformed ''/stage2/rootfs'' (in_part Sys_Mount)) \<and>
   mounts_of (new_events (in_part Sys_Mount) (mount_sys K_malformed ''/stage2/rootfs'' (in_part Sys_Mount))) = []"
proof -
  have h: "cgroup_fs_type K_malformed 0x01021994" "(0x01021994 :: 64 word) \<noteq> CGROUP2_SUPER_MAGIC"
    "uid_map_opened K_malformed" "\<forall>n. fst (k_fscanf K_malformed n ''%u %u %u'') \<noteq> 3"
    by (simp_all add: cgroup_fs_type_def uid_map_opened_def K_malformed_def K_plain_def
        CGROUP2_SUPER_MAGIC_def)
  show ?thesis
    using h(1,3,4) mount_sys_malformed_uid_map[OF h, of "''/stage2/rootfs''" "in_part Sys_Mount"]
    by (simp add: mounts_of_def List.map_filter_simps)
qed

subsection \<open>Legacy hierarchy on the host\<close>

lemma mounts_of_simps:
  "mounts_of [] = []"
  "mounts_of ((g, c) # tr) = (case mount_args c of None \<Rightarrow> mounts_of tr | Some a \<Rightarrow> a # mounts_of tr)"
  "mounts_of (tr @ tr') = mounts_of tr @ mounts_of tr'"
  by (simp_all add: mounts_of_def List.map_filter_def split: option.splits)

lemma mounts_of_mount_ev:
  "mounts_of [mount_ev K n g src tgt ty fl dat] = [(src, tgt, ty, fl, dat)]"
  by (simp add: mounts_of_simps mount_ev_def)

lemma mounts_of_no_mount:
  "\<forall>e\<in>set evs. kind_of (snd e) \<noteq> KMount \<Longrightarrow> mounts_of evs = []"
proof (induction evs)
  case Nil
  then show ?case by (simp add: mounts_of_simps)
next
  case (Cons ev evs)
  obtain g c where ev: "ev = (g, c)" by (cases ev)
  with Cons.prems have "kind_of c \<noteq> KMount" by simp
  then have "mount_args c = None" by (cases c) simp_all
  with Cons ev show ?case by (simp add: mounts_of_simps)
qed

lemma readdir_step:
  "readdir_loop K root (d # ds) e s =
     (let s1 = s\<lparr>trace := trace s @ [(stage s, Readdir (Inr (Some d)))]\<rparr>
      in if \<not> is_controller d then readdir_loop K root ds e s1
         else if 4096 \<le> length (''sys/fs/cgroup/'' @ d_name d)
         then Exit (exit_err s + 1) (s1\<lparr>exit_err := exit_err s + 1\<rparr>)
         else seq (mount_at K root
                     \<lparr>source = ''sys/fs/cgroup/'' @ d_name d, target = ''sys/fs/cgroup/'' @ d_name d,
                      fstype = ''bind'', options = None, flags = MS_BIND\<rparr>)
                (readdir_loop K root ds e) (s1\<lparr>exit_err := exit_err s + 1\<rparr>))"
  by (simp add: sys_readdir_def monad_defs snprintf_def is_controller_def Let_def)

lemma readdir_loop_mounts:
  "\<exists>evs. trace (final (readdir_loop K root ents e s)) = trace s @ evs \<and>
         prefix (mounts_of evs) (map (controller_mount root) (controllers ents)) \<and>
         (completed (readdir_loop K root ents e s) \<longrightarrow>
            mounts_of evs = map (controller_mount root) (controllers ents))"
proof (induction ents arbitrary: s)
  case Nil
  show ?case
    by (simp add: sys_readdir_def monad_defs Let_def final_def controllers_def mounts_of_simps
        split: option.splits)
next
  case (Cons d ds)
  let ?s1 = "s\<lparr>trace := trace s @ [(stage s, Readdir (Inr (Some d)))]\<rparr>"
  let ?s2 = "?s1\<lparr>exit_err := exit_err s + 1\<rparr>"
  let ?to = "''sys/fs/cgroup/'' @ d_name d"
  let ?ev = "mount_ev K (Suc (length (trace s))) (stage s) ?to (root @ ''/'' @ ?to) ''bind'' MS_BIND None"
  let ?s3 = "?s2\<lparr>exit_err := exit_err s + 3, trace := trace ?s2 @ [?ev]\<rparr>"
  show ?case
  proof (cases "is_controller d")
    case False
    from Cons.IH[of ?s1] obtain evs where
      "trace (final (readdir_loop K root ds e ?s1)) = trace ?s1 @ evs"
      "prefix (mounts_of evs) (map (controller_mount root) (controllers ds))"
      "completed (readdir_loop K root ds e ?s1) \<longrightarrow>
         mounts_of evs = map (controller_mount root) (controllers ds)"
      by blast
    with False show ?thesis
      by (simp add: readdir_step Let_def controllers_def mounts_of_simps del: readdir_loop.simps)
  next
    case True
    then have ctl: "controllers (d # ds) = d_name d # controllers ds"
      by (simp add: controllers_def)
    show ?thesis
    proof (cases "4096 \<le> length ?to \<or> 4096 \<le> length (root @ ''/'' @ ?to)")
      case True
      with \<open>is_controller d\<close> show ?thesis
        by (auto simp: readdir_step Let_def seq_def bind_def mount_at_run final_def
            completed_def mounts_of_simps simp del: readdir_loop.simps)
    next
      case fits: False
      show ?thesis
      proof (cases "k_mount K (Suc (length (trace s))) ?to (root @ ''/'' @ ?to) ''bind'' MS_BIND None")
        case (Inl err)
        with fits \<open>is_controller d\<close> show ?thesis
          by (simp add: readdir_step Let_def seq_def bind_def mount_at_run final_def
              completed_def mounts_of_simps mount_ev_def ctl controller_mount_def
              del: readdir_loop.simps)
      next
        case (Inr u)
        from Cons.IH[of ?s3] obtain evs where ih:
          "trace (final (readdir_loop K root ds e ?s3)) = trace ?s3 @ evs"
          "prefix (mounts_of evs) (map (controller_mount root) (controllers ds))"
          "completed (readdir_loop K root ds e ?s3) \<longrightarrow>
             mounts_of evs = map (controller_mount root) (controllers ds)"
          by blast
        have run: "readdir_loop K root (d # ds) e s = readdir_loop K root ds e ?s3"
          using fits \<open>is_controller d\<close> Inr
          by (simp add: readdir_step Let_def seq_def bind_def mount_at_run add.commute
              del: readdir_loop.simps)
        have "trace (final (readdir_loop K root (d # ds) e s)) =
                trace s @ ((stage s, Readdir (Inr (Some d))) # ?ev # evs)"
          using ih(1) by (simp add: run del: readdir_loop.simps)
        moreover have "mounts_of ((stage s, Readdir (Inr (Some d))) # ?ev # evs) =
                controller_mount root (d_name d) # mounts_of evs"
          by (simp add: mounts_of_simps mount_ev_def controller_mount_def)
        ultimately show ?thesis
          using ih(2,3) by (simp add: run ctl del: readdir_loop.simps)
      qed
    qed
  qed
qed

lemma issues_at_bind:
  assumes "m s = Done x s'" and "trace s' = trace s @ evs0" and "mounts_of evs0 = xs"
    and "issues_at (f x) s' ys"
  shows "issues_at (bind m f) s (xs @ ys)"
proof -
  from assms(4) obtain evs where e: "trace (final (f x s')) = trace s' @ evs"
    "prefix (mounts_of evs) ys" "completed (f x s') \<longrightarrow> mounts_of evs = ys"
    unfolding issues_at_def by blast
  have "trace (final (bind m f s)) = trace s @ (evs0 @ evs)"
    using assms(1,2) e(1) by (simp add: bind_def)
  moreover have "prefix (mounts_of (evs0 @ evs)) (xs @ ys)"
    using assms(3) e(2) by (simp add: mounts_of_simps)
  moreover have "completed (bind m f s) \<longrightarrow> mounts_of (evs0 @ evs) = xs @ ys"
    using assms(1,3) e(3) by (simp add: bind_def mounts_of_simps)
  ultimately show ?thesis unfolding issues_at_def by blast
qed

lemma issues_bind:
  assumes "issues m xs" and "\<And>x. issues (f x) ys"
  shows "issues (bind m f) (xs @ ys)"
  unfolding issues_def
proof
  fix s :: st
  from assms(1) obtain evs where e: "trace (final (m s)) = trace s @ evs"
    "prefix (mounts_of evs) xs" "completed (m s) \<longrightarrow> mounts_of evs = xs"
    unfolding issues_def issues_at_def by blast
  show "issues_at (bind m f) s (xs @ ys)"
  proof (cases "m s")
    case (Exit c s')
    with e show ?thesis
      unfolding issues_at_def by (auto simp: bind_def final_def completed_def)
  next
    case (Done x s')
    with e have "trace s' = trace s @ evs" "mounts_of evs = xs"
      by (simp_all add: final_def completed_def)
    moreover from assms(2) have "issues_at (f x) s' ys"
      by (simp add: issues_def)
    ultimately show ?thesis
      using Done by (intro issues_at_bind)
  qed
qed

lemma issues_seq: "issues m xs \<Longrightarrow> issues k ys \<Longrightarrow> issues (seq m k) (xs @ ys)"
  unfolding seq_def by (rule issues_bind)

lemma issues_return: "issues (return x) []"
  by (simp add: issues_def issues_at_def return_def final_def mounts_of_simps)

lemma issues_no_mount:
  assumes "emits (of_kinds S) m" and "KMount \<notin> S"
  shows "issues m []"
  unfolding issues_def issues_at_def
proof
  fix s :: st
  from assms(1) obtain evs where e: "trace (final (m s)) = trace s @ evs"
    "\<forall>e\<in>set evs. kind_of (snd e) \<in> S"
    unfolding emits_def of_kinds_def by blast
  with assms(2) have "mounts_of evs = []"
    by (intro mounts_of_no_mount) auto
  with e(1) show "\<exists>evs. trace (final (m s)) = trace s @ evs \<and> prefix (mounts_of evs) [] \<and>
      (completed (m s) \<longrightarrow> mounts_of evs = [])"
    by auto
qed

lemma issues_guard:
  assumes "\<not> bad n \<Longrightarrow> issues k xs"
  shows "issues (seq (ignore (exit_if (return n) bad)) k) xs"
proof (cases "bad n")
  case True
  then show ?thesis
    by (simp add: issues_def issues_at_def monad_defs final_def completed_def mounts_of_simps)
next
  case False
  have "emits (of_kinds {}) (ignore (exit_if (return n) bad))"
    by (intro emits_struct)
  then have "issues (ignore (exit_if (return n) bad)) []"
    by (rule issues_no_mount) simp
  from issues_seq[OF this assms[OF False]] show ?thesis by simp
qed

lemma issues_mount_at:
  "issues (mount_at K root mnt)
     [(source mnt, root @ ''/'' @ target mnt, fstype mnt, flags mnt, options mnt)]"
  by (simp add: issues_def issues_at_def mount_at_run final_def completed_def mounts_of_simps
      mounts_of_mount_ev split: sum.splits)

lemma issues_readdir_loop:
  "issues (readdir_loop K root ents e) (map (controller_mount root) (controllers ents))"
  unfolding issues_def issues_at_def using readdir_loop_mounts by blast

lemma issues_after_opendir:
  "issues
     (block [set_errno 0, readdir_loop K root ents e,
             ignore (pexit_if get_errno (\<lambda>e. e \<noteq> 0)),
             ignore (pexit_if (sys_closedir K) (\<lambda>c. c \<noteq> 0))])
     (map (controller_mount root) (controllers ents))"
proof -
  have 1: "issues (set_errno 0) []"
    by (rule issues_no_mount[of "{}"]) (simp_all add: emits_struct)
  have 2: "issues (ignore (pexit_if get_errno (\<lambda>e. e \<noteq> 0))) []"
    by (rule issues_no_mount[of "{}"]) (intro emits_struct, simp)
  have 3: "issues (ignore (pexit_if (sys_closedir K) (\<lambda>c. c \<noteq> 0))) []"
    by (rule issues_no_mount[of "{KClosedir}"]) (intro emits_struct emits_sys, simp_all)
  from issues_seq[OF 1 issues_seq[OF issues_readdir_loop issues_seq[OF 2 issues_seq[OF 3 issues_return]]]]
  show ?thesis by simp
qed

lemma opendir_run:
  assumes "cgroup_listing K root ents e"
  shows "pexit_if (sys_opendir K (root @ ''/sys/fs/cgroup'')) (\<lambda>dir. dir = None) s =
           Done (Some (ents, e))
             (s\<lparr>exit_err := exit_err s + 1,
                trace := trace s @ [(stage s, Opendir (root @ ''/sys/fs/cgroup'') (Inr (ents, e)))]\<rparr>)"
  using assms by (simp add: cgroup_listing_def sys_opendir_def monad_defs Let_def)

lemma issues_cgroup_v1:
  assumes "cgroup_listing K root ents e"
  shows "issues (mount_sys_cgroup_v1 K root) (v1_mounts root ents)"
proof -
  have tbl: "issues (for_each sys_bind_table (mount_at K root))
      [(''/sys'', root @ ''/sys'', ''bind'', MS_BIND, None),
       (''/sys/fs/cgroup'', root @ ''/sys/fs/cgroup'', ''bind'', MS_BIND, None)]"
  proof -
    have 1: "issues (mount_at K root (sys_bind_table ! 0))
        [(''/sys'', root @ ''/sys'', ''bind'', MS_BIND, None)]"
      using issues_mount_at[of K root "sys_bind_table ! 0"] by (simp add: sys_bind_table_def)
    have 2: "issues (mount_at K root (sys_bind_table ! 1))
        [(''/sys/fs/cgroup'', root @ ''/sys/fs/cgroup'', ''bind'', MS_BIND, None)]"
      using issues_mount_at[of K root "sys_bind_table ! 1"] by (simp add: sys_bind_table_def)
    from issues_seq[OF 1 issues_seq[OF 2 issues_return]] show ?thesis
      by (simp add: sys_bind_table_def)
  qed
  have dir: "issues
      (bind (pexit_if (sys_opendir K (root @ ''/sys/fs/cgroup'')) (\<lambda>dir. dir = None))
         (\<lambda>dir. case dir of None \<Rightarrow> return ()
                 | Some (ents, e) \<Rightarrow>
                     block [set_errno 0, readdir_loop K root ents e,
                            ignore (pexit_if get_errno (\<lambda>e. e \<noteq> 0)),
                            ignore (pexit_if (sys_closedir K) (\<lambda>c. c \<noteq> 0))]))
      (map (controller_mount root) (controllers ents))"
    unfolding issues_def
  proof
    fix s :: st
    have "issues_at
        (bind (pexit_if (sys_opendir K (root @ ''/sys/fs/cgroup'')) (\<lambda>dir. dir = None))
           (\<lambda>dir. case dir of None \<Rightarrow> return ()
                   | Some (ents, e) \<Rightarrow>
                       block [set_errno 0, readdir_loop K root ents e,
                              ignore (pexit_if get_errno (\<lambda>e. e \<noteq> 0)),
                              ignore (pexit_if (sys_closedir K) (\<lambda>c. c \<noteq> 0))])) s
        ([] @ map (controller_mount root) (controllers ents))"
    proof (rule issues_at_bind[OF opendir_run[OF assms]])
      show "trace (s\<lparr>exit_err := exit_err s + 1,
                       trace := trace s @ [(stage s, Opendir (root @ ''/sys/fs/cgroup'')
                                                       (Inr (ents, e)))]\<rparr>) =
            trace s @ [(stage s, Opendir (root @ ''/sys/fs/cgroup'') (Inr (ents, e)))]"
        by simp
      show "mounts_of [(stage s, Opendir (root @ ''/sys/fs/cgroup'') (Inr (ents, e)))] = []"
        by (simp add: mounts_of_simps)
      show "issues_at
          (case Some (ents, e) of None \<Rightarrow> return ()
           | Some (ents, e) \<Rightarrow>
               block [set_errno 0, readdir_loop K root ents e,
                      ignore (pexit_if get_errno (\<lambda>e. e \<noteq> 0)),
                      ignore (pexit_if (sys_closedir K) (\<lambda>c. c \<noteq> 0))])
          (s\<lparr>exit_err := exit_err s + 1,
               trace := trace s @ [(stage s, Opendir (root @ ''/sys/fs/cgroup'')
                                               (Inr (ents, e)))]\<rparr>)
          (map (controller_mount root) (controllers ents))"
        using issues_after_opendir[of K root ents e] by (simp add: issues_def)
    qed
    then show "issues_at
        (bind (pexit_if (sys_opendir K (root @ ''/sys/fs/cgroup'')) (\<lambda>dir. dir = None))
           (\<lambda>dir. case dir of None \<Rightarrow> return ()
                   | Some (ents, e) \<Rightarrow>
                       block [set_errno 0, readdir_loop K root ents e,
                              ignore (pexit_if get_errno (\<lambda>e. e \<noteq> 0)),
                              ignore (pexit_if (sys_closedir K) (\<lambda>c. c \<noteq> 0))])) s
        (map (controller_mount root) (controllers ents))"
      by simp
  qed
  have rest: "issues
      (let (to, n) = snprintf 4096 (root @ ''/'' @ ''sys/fs/cgroup'')
       in seq (ignore (exit_if (return n) (\<lambda>n. n \<ge> 4096)))
            (bind (pexit_if (sys_opendir K to) (\<lambda>dir. dir = None))
               (\<lambda>dir. case dir of None \<Rightarrow> return ()
                       | Some (ents, e) \<Rightarrow>
                           block [set_errno 0, readdir_loop K root ents e,
                                  ignore (pexit_if get_errno (\<lambda>e. e \<noteq> 0)),
                                  ignore (pexit_if (sys_closedir K) (\<lambda>c. c \<noteq> 0))])))
      (map (controller_mount root) (controllers ents))"
    unfolding snprintf_def Let_def prod.case
    by (rule issues_guard) (use dir in \<open>simp del: block.simps\<close>)
  from issues_seq[OF tbl rest] show ?thesis
    by (simp add: mount_sys_cgroup_v1_def v1_mounts_def)
qed

text \<open>
  C1. With a legacy cgroup type and the identity record \<^verbatim>\<open>0 0 4294967295\<close> read from the UID
  map, the mounts of \<^verbatim>\<open>mount_sys\<close> are, in this order and none of them recursive: \<^verbatim>\<open>/sys\<close>
  on \<^verbatim>\<open><root>/sys\<close>, \<^verbatim>\<open>/sys/fs/cgroup\<close> on \<^verbatim>\<open><root>/sys/fs/cgroup\<close>, and one mount on
  \<^verbatim>\<open><root>/sys/fs/cgroup/<name>\<close> for every directory entry \<^verbatim>\<open><name>\<close> other than \<^verbatim>\<open>.\<close> and
  \<^verbatim>\<open>..\<close> that the enumeration of that directory delivers. A run that exits on a failure
  has issued a prefix of these mounts, and a run that goes on has issued all of them; the
  targets of the controller mounts are then the names of the controller directories,
  under \<^verbatim>\<open><root>/sys/fs/cgroup/\<close>.
\<close>

theorem mount_sys_legacy_host:
  assumes "cgroup_fs_type K ty" and "ty \<noteq> CGROUP2_SUPER_MAGIC"
    and "uid_map_record K 0 0 UNMAPPED" and "cgroup_listing K root ents e"
  shows "prefix (mounts_of (new_events s (mount_sys K root s))) (v1_mounts root ents) \<and>
         (completed (mount_sys K root s) \<longrightarrow>
            mounts_of (new_events s (mount_sys K root s)) = v1_mounts root ents \<and>
            (\<lambda>(src, tgt, rest). tgt) ` set (drop 2 (mounts_of (new_events s (mount_sys K root s)))) =
              (\<lambda>n. root @ ''/sys/fs/cgroup/'' @ n) `
                {d_name d |d. d \<in> set ents \<and> d_type d = DT_DIR \<and> d_name d \<noteq> ''.'' \<and>
                   d_name d \<noteq> ''..''}) \<and>
         \<not> recursive MS_BIND"
proof -
  from assms(3) have o: "uid_map_opened K"
    and r: "\<And>n. k_fscanf K n ''%u %u %u'' = (3, 0, 0, UNMAPPED)" "\<And>n. k_fclose K n = Inr ()"
    by (simp_all add: uid_map_record_def)
  let ?evs = "[(stage s, Statfs ''/sys/fs/cgroup'' (Inr ty)),
               (stage s, Access ''/proc/1/uid_map'' F_OK (Inr ())),
               (stage s, Fopen ''/proc/1/uid_map'' ''re'' (Inr ())),
               (stage s, Fscanf ''%u %u %u'' (3, 0, 0, UNMAPPED)),
               (stage s, Fclose (Inr ()))]"
  let ?s1 = "s\<lparr>trace := trace s @ ?evs, exit_err := exit_err s + 4\<rparr>"
  have run: "mount_sys K root s = mount_sys_cgroup_v1 K root ?s1"
    by (simp add: uid_map_run[OF assms(1,2) o] r Let_def)
  from issues_cgroup_v1[OF assms(4)] obtain evs where v1:
    "trace (final (mount_sys_cgroup_v1 K root ?s1)) = trace ?s1 @ evs"
    "prefix (mounts_of evs) (v1_mounts root ents)"
    "completed (mount_sys_cgroup_v1 K root ?s1) \<longrightarrow> mounts_of evs = v1_mounts root ents"
    unfolding issues_def issues_at_def by blast
  have "new_events s (mount_sys K root s) = ?evs @ evs"
    using v1(1) by (simp add: run new_events_def)
  then have m: "mounts_of (new_events s (mount_sys K root s)) = mounts_of evs"
    by (simp add: mounts_of_simps)
  have tg: "(\<lambda>(src, tgt, rest). tgt) ` set (drop 2 (v1_mounts root ents)) =
      (\<lambda>n. root @ ''/sys/fs/cgroup/'' @ n) `
        {d_name d |d. d \<in> set ents \<and> d_type d = DT_DIR \<and> d_name d \<noteq> ''.'' \<and> d_name d \<noteq> ''..''}"
    by (auto simp: v1_mounts_def controllers_def controller_mount_def is_controller_def image_iff)
  have c: "completed (mount_sys K root s) = completed (mount_sys_cgroup_v1 K root ?s1)"
    by (simp only: run)
  show ?thesis
    unfolding m c using v1(2,3) tg by (auto simp: recursive_flags)
qed

theorem mount_sys_legacy_host_witness:
  "cgroup_fs_type K_plain 0x01021994 \<and> uid_map_record K_plain 0 0 UNMAPPED \<and>
   cgroup_listing K_plain ''/stage2/rootfs''
     [\<lparr>d_name = ''.'', d_type = DT_DIR\<rparr>, \<lparr>d_name = ''..'', d_type = DT_DIR\<rparr>,
      \<lparr>d_name = ''cpu'', d_type = DT_DIR\<rparr>, \<lparr>d_name = ''cpuacct'', d_type = 10\<rparr>,
      \<lparr>d_name = ''memory'', d_type = DT_DIR\<rparr>] None \<and>
   completed (mount_sys K_plain ''/stage2/rootfs'' (in_part Sys_Mount)) \<and>
   mounts_of (new_events (in_part Sys_Mount) (mount_sys K_plain ''/stage2/rootfs'' (in_part Sys_Mount))) =
     [(''/sys'', ''/stage2/rootfs/sys'', ''bind'', MS_BIND, None),
      (''/sys/fs/cgroup'', ''/stage2/rootfs/sys/fs/cgroup'', ''bind'', MS_BIND, None),
      (''sys/fs/cgroup/cpu'', ''/stage2/rootfs/sys/fs/cgroup/cpu'', ''bind'', MS_BIND, None),
      (''sys/fs/cgroup/memory'', ''/stage2/rootfs/sys/fs/cgroup/memory'', ''bind'', MS_BIND, None)]"
proof -
  let ?ents = "[\<lparr>d_name = ''.'', d_type = DT_DIR\<rparr>, \<lparr>d_name = ''..'', d_type = DT_DIR\<rparr>,
      \<lparr>d_name = ''cpu'', d_type = DT_DIR\<rparr>, \<lparr>d_name = ''cpuacct'', d_type = 10\<rparr>,
      \<lparr>d_name = ''memory'', d_type = DT_DIR\<rparr>]"
  have h: "cgroup_fs_type K_plain 0x01021994" "(0x01021994 :: 64 word) \<noteq> CGROUP2_SUPER_MAGIC"
    "uid_map_record K_plain 0 0 UNMAPPED" "cgroup_listing K_plain ''/stage2/rootfs'' ?ents None"
    by (simp_all add: cgroup_fs_type_def uid_map_record_def uid_map_opened_def cgroup_listing_def
        K_plain_def CGROUP2_SUPER_MAGIC_def)
  have c: "completed (mount_sys K_plain ''/stage2/rootfs'' (in_part Sys_Mount))"
    by (simp add: mount_sys_def mount_sys_cgroup_v1_def mount_at_def sys_bind_table_def
        K_plain_def in_part_def init_def monad_defs sys_defs Let_def completed_def CGROUP2_SUPER_MAGIC_def
        UNMAPPED_def DT_DIR_def)
  show ?thesis
    using h(1,3,4) c mount_sys_legacy_host[OF h, of "in_part Sys_Mount"]
    by (simp add: v1_mounts_def controllers_def controller_mount_def is_controller_def DT_DIR_def)
qed

section \<open>The order of the parts of main\<close>

lemma staged_emits:
  assumes "emits P' m" and "\<And>c. P' c \<Longrightarrow> P (g, c)"
  shows "staged g g P m"
  unfolding staged_def
proof (intro allI impI)
  fix s :: st
  assume g: "stage s = g"
  from assms(1) obtain evs where e: "stage (final (m s)) = stage s"
    "trace (final (m s)) = trace s @ evs" "\<forall>e\<in>set evs. fst e = stage s \<and> P' (snd e)"
    unfolding emits_def by blast
  have "map (\<lambda>e. stage_rank (fst e)) evs = replicate (length evs) (stage_rank g)"
    using e(3) g by (intro replicate_eqI) auto
  then have "sorted (map (\<lambda>e. stage_rank (fst e)) evs)"
    by (simp add: sorted_replicate)
  moreover have "\<forall>e\<in>set evs. stage_rank g \<le> stage_rank (fst e) \<and>
      stage_rank (fst e) \<le> stage_rank g \<and> P e"
  proof
    fix ev assume "ev \<in> set evs"
    with e(3) g have "fst ev = g" "P' (snd ev)" by auto
    with assms(2)[of "snd ev"] show "stage_rank g \<le> stage_rank (fst ev) \<and>
      stage_rank (fst ev) \<le> stage_rank g \<and> P ev"
      by (cases ev) auto
  qed
  ultimately show "\<exists>evs. trace (final (m s)) = trace s @ evs \<and>
      sorted (map (\<lambda>e. stage_rank (fst e)) evs) \<and>
      (\<forall>e\<in>set evs. stage_rank g \<le> stage_rank (fst e) \<and>
                   stage_rank (fst e) \<le> stage_rank g \<and> P e) \<and>
      (completed (m s) \<longrightarrow> stage (final (m s)) = g)"
    using e(1,2) g by auto
qed

lemma staged_enter:
  "stage_rank g \<le> stage_rank g' \<Longrightarrow> staged g g' P (enter g')"
  by (simp add: staged_def enter_def final_def)

lemma staged_return: "staged g g P (return x)"
  by (simp add: staged_def return_def final_def)

lemma staged_bind:
  assumes m: "staged g g' P m" and f: "\<And>x. staged g' g'' P (f x)"
    and le: "stage_rank g \<le> stage_rank g'" "stage_rank g' \<le> stage_rank g''"
  shows "staged g g'' P (bind m f)"
  unfolding staged_def
proof (intro allI impI)
  fix s :: st
  assume g: "stage s = g"
  from m g obtain evs where e: "trace (final (m s)) = trace s @ evs"
    "sorted (map (\<lambda>e. stage_rank (fst e)) evs)"
    "\<forall>e\<in>set evs. stage_rank g \<le> stage_rank (fst e) \<and> stage_rank (fst e) \<le> stage_rank g' \<and> P e"
    "completed (m s) \<longrightarrow> stage (final (m s)) = g'"
    unfolding staged_def by blast
  show "\<exists>evs. trace (final (bind m f s)) = trace s @ evs \<and>
      sorted (map (\<lambda>e. stage_rank (fst e)) evs) \<and>
      (\<forall>e\<in>set evs. stage_rank g \<le> stage_rank (fst e) \<and>
                   stage_rank (fst e) \<le> stage_rank g'' \<and> P e) \<and>
      (completed (bind m f s) \<longrightarrow> stage (final (bind m f s)) = g'')"
  proof (cases "m s")
    case (Exit c s')
    with e le show ?thesis
      by (auto simp: bind_def final_def completed_def intro!: exI[of _ evs])
  next
    case (Done x s')
    with e have s': "trace s' = trace s @ evs" "stage s' = g'"
      by (simp_all add: final_def completed_def)
    from f[of x] s'(2) obtain evs' where e': "trace (final (f x s')) = trace s' @ evs'"
      "sorted (map (\<lambda>e. stage_rank (fst e)) evs')"
      "\<forall>e\<in>set evs'. stage_rank g' \<le> stage_rank (fst e) \<and> stage_rank (fst e) \<le> stage_rank g'' \<and> P e"
      "completed (f x s') \<longrightarrow> stage (final (f x s')) = g''"
      unfolding staged_def by blast
    have run: "bind m f s = f x s'"
      using Done by (simp add: bind_def)
    have 1: "trace (final (bind m f s)) = trace s @ (evs @ evs')"
      using e'(1) s'(1) by (simp add: run)
    have 2: "sorted (map (\<lambda>e. stage_rank (fst e)) (evs @ evs'))"
      using e(2,3) e'(2,3) by (fastforce simp: sorted_append)
    have 3: "\<forall>e\<in>set (evs @ evs'). stage_rank g \<le> stage_rank (fst e) \<and>
        stage_rank (fst e) \<le> stage_rank g'' \<and> P e"
      using e(3) e'(3) le by fastforce
    from 1 2 3 e'(4) show ?thesis
      unfolding run by blast
  qed
qed

lemma staged_seq:
  "staged g g' P m \<Longrightarrow> staged g' g'' P k \<Longrightarrow> stage_rank g \<le> stage_rank g' \<Longrightarrow>
   stage_rank g' \<le> stage_rank g'' \<Longrightarrow> staged g g'' P (seq m k)"
  unfolding seq_def by (rule staged_bind)

lemma staged_step:
  "emits P' m \<Longrightarrow> (\<And>c. P' c \<Longrightarrow> P (g, c)) \<Longrightarrow> staged g g' P (block ms) \<Longrightarrow>
   stage_rank g \<le> stage_rank g' \<Longrightarrow> staged g g' P (block (m # ms))"
  unfolding block.simps
  by (rule staged_seq[OF staged_emits[of P' m P g]]) simp_all

lemma staged_enter_step:
  "staged g' g'' P (block ms) \<Longrightarrow> stage_rank g \<le> stage_rank g' \<Longrightarrow>
   stage_rank g' \<le> stage_rank g'' \<Longrightarrow> staged g g'' P (block (enter g' # ms))"
  unfolding block.simps by (rule staged_seq[OF staged_enter])

lemma staged_block_nil: "staged g g P (block [])"
  by (simp add: staged_return)

subsection \<open>The calls of each part\<close>

lemma emits_mk_mount: "(\<And>r. P (Mount a b c d e r)) \<Longrightarrow> emits P (sys_mount K a b c d e)"
  unfolding sys_mount_def by (intro emits_bind emits_call emits_return)

lemma emits_mk_open: "(\<And>r. P (Open a b c r)) \<Longrightarrow> emits P (sys_open K a b c)"
  unfolding sys_open_def by (intro emits_bind emits_call emits_return)

lemma emits_mk_openat: "(\<And>r. P (Openat a b c d r)) \<Longrightarrow> emits P (sys_openat K a b c d)"
  unfolding sys_openat_def by (intro emits_bind emits_call emits_return)

lemma emits_mk_close: "(\<And>r. P (Close a r)) \<Longrightarrow> emits P (sys_close K a)"
  unfolding sys_close_def by (intro emits_bind emits_call emits_return)

lemma emits_mk_read: "(\<And>r. P (Read a c r)) \<Longrightarrow> emits P (sys_read K a b c)"
  unfolding sys_read_def by (intro emits_bind emits_call emits_return)

lemma emits_mk_write: "(\<And>r. P (Write a (take (nat c) b) r)) \<Longrightarrow> emits P (sys_write K a b c)"
  unfolding sys_write_def by (intro emits_bind emits_call emits_return)

lemma emits_mk_unlinkat: "(\<And>r. P (Unlinkat a b c r)) \<Longrightarrow> emits P (sys_unlinkat K a b c)"
  unfolding sys_unlinkat_def by (intro emits_bind emits_call emits_return)

lemma emits_mk_umask: "P (Umask a) \<Longrightarrow> emits P (sys_umask a)"
  by (simp add: emits_def sys_umask_def final_def)

lemma emits_mk_mkdirat: "(\<And>r. P (Mkdirat a b c r)) \<Longrightarrow> emits P (sys_mkdirat K a b c)"
  unfolding sys_mkdirat_def by (intro emits_bind emits_call emits_return)

lemma emits_mk_faccessat: "(\<And>r. P (Faccessat a b c d r)) \<Longrightarrow> emits P (sys_faccessat K a b c d)"
  unfolding sys_faccessat_def by (intro emits_bind emits_call emits_return)

lemma emits_mk_access: "(\<And>r. P (Access a b r)) \<Longrightarrow> emits P (sys_access K a b)"
  unfolding sys_access_def by (intro emits_bind emits_call emits_return)

lemma emits_mk_statfs: "(\<And>r. P (Statfs a r)) \<Longrightarrow> emits P (sys_statfs K a)"
  unfolding sys_statfs_def by (intro emits_bind emits_call emits_return)

lemma emits_mk_fopen: "(\<And>r. P (Fopen a b r)) \<Longrightarrow> emits P (sys_fopen K a b)"
  unfolding sys_fopen_def by (intro emits_bind emits_call emits_return)

lemma emits_mk_fscanf: "(\<And>r. P (Fscanf a r)) \<Longrightarrow> emits P (sys_fscanf K a)"
  by (simp add: emits_def sys_fscanf_def final_def Let_def)

lemma emits_mk_fclose: "(\<And>r. P (Fclose r)) \<Longrightarrow> emits P (sys_fclose K)"
  unfolding sys_fclose_def by (intro emits_bind emits_call emits_return)

lemma emits_mk_opendir: "(\<And>r. P (Opendir a r)) \<Longrightarrow> emits P (sys_opendir K a)"
  unfolding sys_opendir_def by (intro emits_bind emits_call emits_return)

lemma emits_mk_readdir: "(\<And>r. P (Readdir r)) \<Longrightarrow> emits P (sys_readdir x)"
  unfolding sys_readdir_def by (intro emits_bind emits_call emits_return)

lemma emits_mk_closedir: "(\<And>r. P (Closedir r)) \<Longrightarrow> emits P (sys_closedir K)"
  unfolding sys_closedir_def by (intro emits_bind emits_call emits_return)

lemma emits_mk_creat: "(\<And>r. P (Creat a b r)) \<Longrightarrow> emits P (sys_creat K a b)"
  unfolding sys_creat_def by (intro emits_bind emits_call emits_return)

lemma emits_mk_symlink: "(\<And>r. P (Symlink a b r)) \<Longrightarrow> emits P (sys_symlink K a b)"
  unfolding sys_symlink_def by (intro emits_bind emits_call emits_return)

lemmas emits_mk = emits_mk_mount emits_mk_open emits_mk_openat emits_mk_close emits_mk_read
  emits_mk_write emits_mk_unlinkat emits_mk_umask emits_mk_mkdirat emits_mk_faccessat
  emits_mk_access emits_mk_statfs emits_mk_fopen emits_mk_fscanf emits_mk_fclose
  emits_mk_opendir emits_mk_readdir emits_mk_closedir emits_mk_creat emits_mk_symlink

lemma part_unlink:
  "emits (part_call K root Unlink_Paths) (for_each unlink_paths (unlink_path K rootfd))"
  unfolding unlink_path_def
  by (intro emits_for_each emits_struct emits_mk) (simp add: part_call_def)

lemma part_umask: "emits (part_call K root Make_Dirs) (sys_umask 0)"
  by (intro emits_mk) (simp add: part_call_def)

lemma part_dirs: "emits (part_call K root Make_Dirs) (for_each dirs (make_dir K rootfd))"
  unfolding make_dir_def
  by (intro emits_for_each emits_struct emits_mk) (simp add: part_call_def)

lemma part_hosts: "emits (part_call K root Etc_Hosts) (ensure_etc_hosts_exists K root rootfd)"
  unfolding ensure_etc_hosts_exists_def get_machine_name_def Let_def split_def
  by (intro emits_struct emits_mk) (simp_all add: part_call_def)

lemma part_close: "emits (part_call K root Close_Root) (ignore (sys_close K fd))"
  by (intro emits_struct emits_mk) (simp add: part_call_def)

lemma part_symlink:
  assumes "(dest, link) \<in> {(''/dev/pts/ptmx'', ''/dev/ptmx''),
                          (''/run/systemd/journal/dev-log'', ''/dev/log'')}"
  shows "emits (part_call K root Symlinks) (make_symlink K root dest link)"
proof (cases "4096 \<le> length (root @ link)")
  case True
  then show ?thesis
    by (simp add: emits_def make_symlink_def monad_defs sys_defs final_def Let_def)
next
  case False
  then have to: "fst (snprintf 4096 (root @ link)) = root @ link"
    by (simp add: snprintf_def)
  show ?thesis
    unfolding make_symlink_def Let_def split_def to
    using assms by (intro emits_struct emits_mk) (auto simp: part_call_def)
qed

lemma part_devnode:
  assumes "from \<in> set devnodes"
  shows "emits (part_call K root Dev_Nodes) (bind_devnode K root from)"
proof (cases "4096 \<le> length (root @ from)")
  case True
  then show ?thesis
    using assms
    by (simp add: emits_def bind_devnode_def monad_defs sys_access_def ret0_def snprintf_def
        final_def Let_def part_call_def F_OK_def split: sum.splits)
next
  case False
  then have to: "fst (snprintf 4096 (root @ from)) = root @ from"
    by (simp add: snprintf_def)
  show ?thesis
    unfolding bind_devnode_def Let_def split_def block.simps to
    using assms False by (intro emits_struct emits_mk) (auto simp: part_call_def)
qed

lemma part_devnodes: "emits (part_call K root Dev_Nodes) (for_each devnodes (bind_devnode K root))"
  by (intro emits_for_each part_devnode)

lemma emits_mount_at_args:
  assumes "\<And>r. length (root @ ''/'' @ target mnt) < 4096 \<Longrightarrow>
      P (Mount (source mnt) (root @ ''/'' @ target mnt) (fstype mnt) (flags mnt) (options mnt) r)"
  shows "emits P (mount_at K root mnt)"
  using assms
  by (simp add: emits_def mount_at_run final_def mount_ev_def split: sum.splits)

lemma part_mount_at:
  assumes "at_root root mnt \<in> part_mounts K root g" "g \<noteq> Make_Mountpoint"
  shows "emits (part_call K root g) (mount_at K root mnt)"
  using assms by (intro emits_mount_at_args) (simp add: part_call_def at_root_def)

lemma part_dir_mounts:
  "emits (part_call K root Dir_Mounts) (for_each dirs_mount_table (mount_at K root))"
  by (intro emits_for_each part_mount_at) simp_all

lemma part_file:
  assumes "mnt \<in> set files_mount_table"
  shows "emits (part_call K root File_Mounts) (bind_file K root mnt)"
proof (cases "4096 \<le> length (root @ ''/'' @ target mnt)")
  case True
  then show ?thesis
    by (simp add: emits_def bind_file_def monad_defs snprintf_def final_def Let_def)
next
  case False
  then have to: "fst (snprintf 4096 (root @ ''/'' @ target mnt)) = root @ ''/'' @ target mnt"
    by (simp add: snprintf_def)
  have mnt: "(source mnt, root @ ''/'' @ target mnt, fstype mnt, flags mnt, options mnt)
      \<in> part_mounts K root File_Mounts"
    using assms by (auto simp: at_root_def image_iff)
  show ?thesis
    unfolding bind_file_def Let_def split_def to
    using assms False mnt by (intro emits_struct emits_mk) (auto simp: part_call_def)
qed

lemma part_files:
  "emits (part_call K root File_Mounts) (for_each files_mount_table (bind_file K root))"
  by (intro emits_for_each part_file)

lemma emits_bind_val:
  assumes "emits P m" and "\<And>s x s'. m s = Done x s' \<Longrightarrow> emits P (f x)"
  shows "emits P (bind m f)"
  unfolding emits_def
proof (intro allI)
  fix s :: st
  from assms(1) obtain evs where m: "stage (final (m s)) = stage s"
    "trace (final (m s)) = trace s @ evs" "\<forall>e\<in>set evs. fst e = stage s \<and> P (snd e)"
    unfolding emits_def by blast
  show "stage (final (bind m f s)) = stage s \<and>
          (\<exists>evs. trace (final (bind m f s)) = trace s @ evs \<and>
                 (\<forall>e\<in>set evs. fst e = stage s \<and> P (snd e)))"
  proof (cases "m s")
    case (Exit c s')
    with m show ?thesis by (auto simp: bind_def final_def)
  next
    case (Done x s')
    from assms(2)[OF Done] obtain evs' where f: "stage (final (f x s')) = stage s'"
      "trace (final (f x s')) = trace s' @ evs'"
      "\<forall>e\<in>set evs'. fst e = stage s' \<and> P (snd e)"
      unfolding emits_def by blast
    from Done m have s': "stage s' = stage s" "trace s' = trace s @ evs"
      by (simp_all add: final_def)
    have "trace (final (f x s')) = trace s @ (evs @ evs')"
      using f(2) s'(2) by simp
    moreover have "\<forall>e\<in>set (evs @ evs'). fst e = stage s \<and> P (snd e)"
      using m(3) f(3) s'(1) by auto
    ultimately show ?thesis
      using Done f(1) s'(1) unfolding bind_def by auto
  qed
qed

lemma opendir_value:
  assumes "pexit_if (sys_opendir K p) (\<lambda>dir. dir = None) s = Done x s'"
  shows "\<exists>ents e. x = Some (ents, e) \<and> k_opendir K (length (trace s)) p = Inr (ents, e)"
  using assms
  by (cases "k_opendir K (length (trace s)) p")
     (auto simp: monad_defs sys_opendir_def Let_def split: if_splits)

lemma part_readdir_loop:
  assumes "\<And>d. d \<in> set ents \<Longrightarrow> listed K root d"
  shows "emits (part_call K root Sys_Mount) (readdir_loop K root ents e)"
  using assms
proof (induction ents)
  case Nil
  show ?case
    unfolding readdir_loop.simps by (intro emits_mk) (simp add: part_call_def)
next
  case (Cons d ds)
  have rd: "emits (part_call K root Sys_Mount) (sys_readdir (Inr (Some d)))"
    by (intro emits_mk) (simp add: part_call_def)
  have rest: "emits (part_call K root Sys_Mount) (readdir_loop K root ds e)"
    by (rule Cons.IH) (simp add: Cons.prems)
  show ?case
  proof (cases "is_controller d")
    case False
    then show ?thesis
      unfolding readdir_loop.simps
      by (intro emits_seq rd) (auto simp: is_controller_def rest)
  next
    case True
    let ?to = "''sys/fs/cgroup/'' @ d_name d"
    have body: "emits (part_call K root Sys_Mount)
        (let (to, n) = snprintf 4096 ?to
         in seq (ignore (exit_if (return n) (\<lambda>n. n \<ge> 4096)))
              (seq (mount_at K root
                      \<lparr>source = to, target = to, fstype = ''bind'', options = None, flags = MS_BIND\<rparr>)
                 (readdir_loop K root ds e)))"
    proof (cases "4096 \<le> length ?to")
      case True
      then show ?thesis
        by (simp add: emits_def monad_defs snprintf_def final_def Let_def)
    next
      case False
      then have to: "fst (snprintf 4096 ?to) = ?to"
        by (simp add: snprintf_def)
      have "listed K root d"
        by (rule Cons.prems) simp
      with True have "at_root root
          \<lparr>source = ?to, target = ?to, fstype = ''bind'', options = None, flags = MS_BIND\<rparr>
          \<in> part_mounts K root Sys_Mount"
        by (auto simp: at_root_def controller_mount_def)
      then have "emits (part_call K root Sys_Mount)
          (mount_at K root
             \<lparr>source = ?to, target = ?to, fstype = ''bind'', options = None, flags = MS_BIND\<rparr>)"
        by (rule part_mount_at) simp
      then show ?thesis
        unfolding Let_def split_def to
        by (intro emits_struct rest)
    qed
    have step: "readdir_loop K root (d # ds) e =
        seq (sys_readdir (Inr (Some d)))
          (let (to, n) = snprintf 4096 ?to
           in seq (ignore (exit_if (return n) (\<lambda>n. n \<ge> 4096)))
                (seq (mount_at K root
                        \<lparr>source = to, target = to, fstype = ''bind'', options = None,
                         flags = MS_BIND\<rparr>)
                   (readdir_loop K root ds e)))"
      using True by (simp add: is_controller_def)
    show ?thesis
      unfolding step by (intro emits_seq rd body)
  qed
qed

lemma part_cgroup_v1: "emits (part_call K root Sys_Mount) (mount_sys_cgroup_v1 K root)"
proof -
  let ?P = "part_call K root Sys_Mount"
  let ?dir = "root @ ''/'' @ ''sys/fs/cgroup''"
  have tbl: "emits ?P (for_each sys_bind_table (mount_at K root))"
    by (intro emits_for_each part_mount_at) simp_all
  have rest: "emits ?P
      (let (to, n) = snprintf 4096 ?dir
       in seq (ignore (exit_if (return n) (\<lambda>n. n \<ge> 4096)))
            (bind (pexit_if (sys_opendir K to) (\<lambda>dir. dir = None)) (\<lambda>dir.
               case dir of
                 None \<Rightarrow> return ()
               | Some (ents, e) \<Rightarrow>
                   block
                     [set_errno 0,
                      readdir_loop K root ents e,
                      ignore (pexit_if get_errno (\<lambda>e. e \<noteq> 0)),
                      ignore (pexit_if (sys_closedir K) (\<lambda>c. c \<noteq> 0))])))"
  proof (cases "4096 \<le> length ?dir")
    case True
    then show ?thesis
      by (simp add: emits_def monad_defs snprintf_def final_def Let_def)
  next
    case False
    then have to: "fst (snprintf 4096 ?dir) = ?dir"
      by (simp add: snprintf_def)
    have od: "emits ?P (pexit_if (sys_opendir K ?dir) (\<lambda>dir. dir = None))"
      by (intro emits_struct emits_mk) (simp add: part_call_def)
    have cd: "emits ?P (sys_closedir K)"
      by (intro emits_mk) (simp add: part_call_def)
    have k: "emits ?P
        (case x of
           None \<Rightarrow> return ()
         | Some a \<Rightarrow>
             block
               [set_errno 0,
                readdir_loop K root (fst a) (snd a),
                ignore (pexit_if get_errno (\<lambda>e. e \<noteq> 0)),
                ignore (pexit_if (sys_closedir K) (\<lambda>c. c \<noteq> 0))])"
      if "pexit_if (sys_opendir K ?dir) (\<lambda>dir. dir = None) s = Done x s'" for s x s'
    proof -
      from opendir_value[OF that] obtain ents e where
        x: "x = Some (ents, e)" "k_opendir K (length (trace s)) ?dir = Inr (ents, e)"
        by blast
      have "\<And>d. d \<in> set ents \<Longrightarrow> listed K root d"
        using x(2) unfolding listed_def by auto
      then have "emits ?P (readdir_loop K root ents e)"
        by (rule part_readdir_loop)
      then show ?thesis
        unfolding x(1) by (simp del: readdir_loop.simps add: emits_struct cd)
    qed
    show ?thesis
      unfolding Let_def split_def to
      by (intro emits_seq emits_ignore emits_exit_if emits_return emits_bind_val[OF od] k)
  qed
  show ?thesis
    unfolding mount_sys_cgroup_v1_def by (intro emits_seq tbl rest)
qed

lemma part_mount_sys: "emits (part_call K root Sys_Mount) (mount_sys K root)"
proof -
  have rec: "emits (part_call K root Sys_Mount) (mount_at K root mnt_rec)"
    by (intro part_mount_at) simp_all
  show ?thesis
    unfolding mount_sys_def Let_def split_def
    by (intro emits_struct emits_mk rec part_cgroup_v1 emits_if) (simp_all add: part_call_def)
qed

lemma part_symlinks:
  "emits (part_call K root Symlinks) (make_symlink K root ''/dev/pts/ptmx'' ''/dev/ptmx'')"
  "emits (part_call K root Symlinks)
     (make_symlink K root ''/run/systemd/journal/dev-log'' ''/dev/log'')"
  by (rule part_symlink, simp)+

lemma part_call_root_mount:
  "part_call K root Make_Mountpoint (Mount root root ''bind'' (MS_BIND OR MS_REC) None r)"
  by (simp add: part_call_def)

lemma part_call_outside_hosts:
  "part_call K root g c \<Longrightarrow> g \<noteq> Etc_Hosts \<Longrightarrow>
   kind_of c \<notin> {KOpenat, KRead, KWrite, KFaccessat}"
  by (cases c) (simp_all add: part_call_def)

lemma part_call_hosts_kinds:
  "part_call K root g c \<Longrightarrow> kind_of c \<in> {KFaccessat, KRead, KOpenat, KWrite} \<Longrightarrow>
   g = Etc_Hosts"
  by (cases c) (simp_all add: part_call_def)

lemma part_call_mount_part:
  "part_call K root g (Mount src tgt ty fl dat r) \<Longrightarrow> g \<noteq> Make_Mountpoint \<Longrightarrow>
   g \<in> {Dev_Nodes, Dir_Mounts, Sys_Mount, File_Mounts} \<and> length tgt < 4096 \<and>
   (src, tgt, ty, fl, dat) \<in> part_mounts K root g"
  by (cases g) (simp_all add: part_call_def)

lemma part_call_mounter_kinds:
  "part_call K root g c \<Longrightarrow> kind_of c \<in> {KMount, KAccess, KCreat, KSymlink} \<Longrightarrow>
   g \<noteq> Make_Mountpoint \<Longrightarrow> 6 \<le> stage_rank g"
  by (cases c; cases g) (simp_all add: part_call_def)

lemma staged_prepare:
  assumes H: "emits H (ensure_etc_hosts_exists K root rootfd)" "\<And>c. H c \<Longrightarrow> P (Etc_Hosts, c)"
    and O: "\<And>g c. g \<noteq> Etc_Hosts \<Longrightarrow> part_call K root g c \<Longrightarrow> P (g, c)"
  shows "staged Open_Root Symlinks P (prepare K root rootfd)"
  unfolding prepare_def
  apply (rule staged_enter_step[where g' = Unlink_Paths])
    apply (rule staged_step[OF part_unlink[of K root]])
      apply (simp add: O)
     apply (rule staged_enter_step[where g' = Make_Dirs])
       apply (rule staged_step[OF part_umask[of K root]])
         apply (simp add: O)
        apply (rule staged_step[OF part_dirs[of K root]])
          apply (simp add: O)
         apply (rule staged_enter_step[where g' = Etc_Hosts])
           apply (rule staged_step[OF emits_ignore[OF emits_exit_if[OF H(1)]]])
             apply (simp add: H)
            apply (rule staged_enter_step[where g' = Close_Root])
              apply (rule staged_step[OF part_close[of K root]])
                apply (simp add: O)
               apply (rule staged_enter_step[where g' = Dev_Nodes])
                 apply (rule staged_step[OF part_devnodes[of K root]])
                   apply (simp add: O)
                  apply (rule staged_enter_step[where g' = Dir_Mounts])
                    apply (rule staged_step[OF part_dir_mounts[of K root]])
                      apply (simp add: O)
                     apply (rule staged_enter_step[where g' = Sys_Mount])
                       apply (rule staged_step[OF part_mount_sys[of K root]])
                         apply (simp add: O)
                        apply (rule staged_enter_step[where g' = File_Mounts])
                          apply (rule staged_step[OF part_files[of K root]])
                            apply (simp add: O)
                           apply (rule staged_enter_step[where g' = Symlinks])
                             apply (rule staged_step[OF part_symlinks(1)[of K root]])
                               apply (simp add: O)
                              apply (rule staged_step[OF part_symlinks(2)[of K root]])
                                apply (simp add: O)
                               apply (rule staged_block_nil)
                              apply simp_all
  done

lemma prog_runs:
  "main K argv s =
     seq (ignore (exit_if (return (int (length argv))) (\<lambda>argc. argc < 2)))
       (let root = argv ! 1
        in seq (enter Make_Mountpoint)
             (seq (ignore (pexit_if (sys_mount K root root ''bind'' (MS_BIND OR MS_REC) None)
                             (\<lambda>r. r = - 1)))
                (seq (enter Open_Root)
                   (bind (sys_open K root (O_DIRECTORY OR O_CLOEXEC) None)
                      (\<lambda>rootfd.
                         seq (ignore (pexit_if (return rootfd) (\<lambda>rootfd. rootfd < 0)))
                           (seq (prepare K root rootfd) (return EXIT_SUCCESS))))))) s"
  "prepare K root rootfd s =
     block
       [enter Unlink_Paths,
        for_each unlink_paths (unlink_path K rootfd),
        enter Make_Dirs,
        sys_umask 0,
        for_each dirs (make_dir K rootfd),
        enter Etc_Hosts,
        ignore (exit_if (ensure_etc_hosts_exists K root rootfd) (\<lambda>r. r = 0)),
        enter Close_Root,
        ignore (sys_close K rootfd),
        enter Dev_Nodes,
        for_each devnodes (bind_devnode K root),
        enter Dir_Mounts,
        for_each dirs_mount_table (mount_at K root),
        enter Sys_Mount,
        mount_sys K root,
        enter File_Mounts,
        for_each files_mount_table (bind_file K root),
        enter Symlinks,
        make_symlink K root ''/dev/pts/ptmx'' ''/dev/ptmx'',
        make_symlink K root ''/run/systemd/journal/dev-log'' ''/dev/log''] s"
  by (simp_all only: main_def prepare_def)

lemma body_runs:
  "unlink_path K rootfd p s =
     ignore (pexit_if
       (bind (sys_unlinkat K rootfd p 0) (\<lambda>r.
          bind get_errno (\<lambda>e. return (r \<noteq> 0 \<and> e \<noteq> ENOENT \<and> e \<noteq> EISDIR))))
       (\<lambda>b. b)) s"
  "make_dir K rootfd d s =
     ignore (pexit_if
       (bind (sys_mkdirat K rootfd (name d) (mode d)) (\<lambda>r.
          bind get_errno (\<lambda>e. return (r = - 1 \<and> e \<noteq> EEXIST))))
       (\<lambda>b. b)) s"
  "bind_devnode K root from s =
     bind (sys_access K from F_OK) (\<lambda>a.
       if a \<noteq> 0 then return ()
       else
         (let (to, n) = snprintf 4096 (root @ from)
          in block
               [ignore (exit_if (return n) (\<lambda>n. n \<ge> 4096)),
                bind (sys_open K to (O_WRONLY OR O_CREAT OR O_CLOEXEC OR O_NOCTTY)
                        (Some (octal [0, 6, 4, 4])))
                  (\<lambda>fd. if fd \<noteq> - 1 then ignore (sys_close K fd) else return ()),
                ignore (pexit_if (sys_mount K from to ''bind'' MS_BIND None) (\<lambda>r. r = - 1))])) s"
  "bind_file K root mnt s =
     (let (to, n) = snprintf 4096 (root @ ''/'' @ target mnt)
      in seq (ignore (exit_if (return n) (\<lambda>n. n \<ge> 4096)))
           (bind (sys_access K (source mnt) F_OK) (\<lambda>a.
              if a \<noteq> 0 then return ()
              else
                seq (bind (sys_access K to F_OK) (\<lambda>b.
                       if b \<noteq> 0 then
                         bind (pexit_if (sys_creat K to (octal [0, 6, 4, 4])) (\<lambda>fd. fd = - 1))
                           (\<lambda>fd. ignore (pexit_if (sys_close K fd) (\<lambda>c. c = - 1)))
                       else return ()))
                  (ignore (pexit_if (sys_mount K (source mnt) to (fstype mnt) (flags mnt)
                                       (options mnt))
                             (\<lambda>r. r = - 1)))))) s"
  "make_symlink K root dest link s =
     (let (to, n) = snprintf 4096 (root @ link)
      in seq (ignore (exit_if (return n) (\<lambda>n. n \<ge> 4096)))
           (ignore (pexit_if
              (bind (sys_symlink K dest to) (\<lambda>r.
                 bind get_errno (\<lambda>e. return (r = - 1 \<and> e \<noteq> EEXIST))))
              (\<lambda>b. b)))) s"
  by (simp_all only: unlink_path_def make_dir_def bind_devnode_def bind_file_def make_symlink_def)

lemma hosts_runs:
  "get_machine_name K out out_len s =
     bind (sys_open K ''/etc/machine-id'' O_RDONLY None) (\<lambda>fd.
       if fd = - 1 then return (0, out)
       else
         bind (sys_read K fd
                 (take (MACHINE_ID_LEN + 1) (k_stack K @ replicate (MACHINE_ID_LEN + 1) (CHR 0x00)))
                 MACHINE_ID_LEN) (\<lambda>(n, buf).
           if n = - 1 then bind (sys_close K fd) (\<lambda>_. return (0, out))
           else
             bind (sys_close K fd) (\<lambda>c.
               if c \<noteq> 0 then return (0, out)
               else
                 (let (out', r) =
                        snprintf out_len
                          (''rkt-'' @ fmt_prec_s 8 buf @ ''-'' @ fmt_prec_s 4 (drop 8 buf) @ ''-''
                           @ fmt_prec_s 4 (drop 12 buf) @ ''-'' @ fmt_prec_s 4 (drop 16 buf) @ ''-''
                           @ fmt_prec_s 8 (drop 20 buf))
                  in if r \<ge> int out_len then return (0, out') else return (1, out'))))) s"
  "ensure_etc_hosts_exists K root rootfd s =
     bind (sys_faccessat K rootfd ''etc/hosts'' F_OK AT_EACCESS) (\<lambda>a.
       if a = 0 then return 1
       else
         bind (get_machine_name K [] (MACHINE_NAME_LEN + 1)) (\<lambda>(got, name).
           if got = 0 then return 0
           else
             (let (hosts, len) =
                    snprintf 128
                      (''127.0.0.1'' @ [TAB] @ name @ [TAB] @ ''localhost'' @ [TAB]
                       @ ''localhost.localdomain'' @ [NL])
              in if len \<ge> 128 then return 0
                 else
                   bind (sys_openat K rootfd ''etc/hosts'' (O_WRONLY OR O_CREAT) (octal [0, 6, 4, 4]))
                     (\<lambda>fd.
                       if fd = - 1 then return 0
                       else
                         bind (sys_write K fd hosts len) (\<lambda>w.
                           if w \<noteq> len then bind (sys_close K fd) (\<lambda>_. return 0)
                           else
                             bind (sys_close K fd) (\<lambda>c.
                               if c \<noteq> 0 then return 0 else return 1)))))) s"
  by (simp_all only: get_machine_name_def ensure_etc_hosts_exists_def)

lemmas table_defs = unlink_paths_def dirs_def devnodes_def dirs_mount_table_def
  files_mount_table_def sys_bind_table_def mnt_rec_def

lemmas const_defs = MS_BIND_def MS_REC_def O_RDONLY_def O_WRONLY_def O_CREAT_def O_NOCTTY_def
  O_DIRECTORY_def O_CLOEXEC_def F_OK_def AT_EACCESS_def DT_DIR_def EXIT_SUCCESS_def ENOENT_def
  EEXIST_def EISDIR_def CGROUP2_SUPER_MAGIC_def UNMAPPED_def MACHINE_ID_LEN_def
  MACHINE_NAME_LEN_def lenof_def TAB_def NL_def octal_def

lemma K_stop_run:
  "main K_stop [''prepare-app'', ''/stage2/rootfs''] init =
     Exit 21
       \<lparr>exit_err = 21, errno = 13, stage = Dev_Nodes,
        trace =
          [(Make_Mountpoint,
            Mount ''/stage2/rootfs'' ''/stage2/rootfs'' ''bind'' (MS_BIND OR MS_REC) None (Inr ())),
           (Open_Root, Open ''/stage2/rootfs'' (O_DIRECTORY OR O_CLOEXEC) None (Inr 3)),
           (Unlink_Paths, Unlinkat 3 ''dev/shm'' 0 (Inl ENOENT)),
           (Unlink_Paths, Unlinkat 3 ''dev/ptmx'' 0 (Inl ENOENT)),
           (Make_Dirs, Umask 0),
           (Make_Dirs, Mkdirat 3 ''dev'' (octal [0, 7, 5, 5]) (Inr ())),
           (Make_Dirs, Mkdirat 3 ''dev/net'' (octal [0, 7, 5, 5]) (Inr ())),
           (Make_Dirs, Mkdirat 3 ''dev/shm'' (octal [0, 7, 5, 5]) (Inr ())),
           (Make_Dirs, Mkdirat 3 ''etc'' (octal [0, 7, 5, 5]) (Inr ())),
           (Make_Dirs, Mkdirat 3 ''proc'' (octal [0, 7, 5, 5]) (Inr ())),
           (Make_Dirs, Mkdirat 3 ''sys'' (octal [0, 7, 5, 5]) (Inr ())),
           (Make_Dirs, Mkdirat 3 ''tmp'' (octal [0, 1, 7, 7, 7]) (Inr ())),
           (Make_Dirs, Mkdirat 3 ''dev/pts'' (octal [0, 7, 5, 5]) (Inr ())),
           (Make_Dirs, Mkdirat 3 ''run'' (octal [0, 7, 5, 5]) (Inr ())),
           (Make_Dirs, Mkdirat 3 ''run/systemd'' (octal [0, 7, 5, 5]) (Inr ())),
           (Make_Dirs, Mkdirat 3 ''run/systemd/journal'' (octal [0, 7, 5, 5]) (Inr ())),
           (Etc_Hosts, Faccessat 3 ''etc/hosts'' F_OK AT_EACCESS (Inl ENOENT)),
           (Etc_Hosts, Open ''/etc/machine-id'' O_RDONLY None (Inr 4)),
           (Etc_Hosts, Read 4 28 (Inr ''0123456789abcdef0123456789ab'')),
           (Etc_Hosts, Close 4 (Inr ())),
           (Etc_Hosts, Openat 3 ''etc/hosts'' (O_WRONLY OR O_CREAT) (octal [0, 6, 4, 4]) (Inr 4)),
           (Etc_Hosts, Write 4 (hosts_line ''rkt-01234567-89ab-cdef-0123-456789ab'') (Inr 79)),
           (Etc_Hosts, Close 4 (Inr ())),
           (Close_Root, Close 3 (Inr ())),
           (Dev_Nodes, Access ''/dev/null'' F_OK (Inr ())),
           (Dev_Nodes,
            Open ''/stage2/rootfs/dev/null'' (O_WRONLY OR O_CREAT OR O_CLOEXEC OR O_NOCTTY)
              (Some (octal [0, 6, 4, 4])) (Inr 3)),
           (Dev_Nodes, Close 3 (Inr ())),
           (Dev_Nodes,
            Mount ''/dev/null'' ''/stage2/rootfs/dev/null'' ''bind'' MS_BIND None (Inr ())),
           (Dev_Nodes, Access ''/dev/zero'' F_OK (Inr ())),
           (Dev_Nodes,
            Open ''/stage2/rootfs/dev/zero'' (O_WRONLY OR O_CREAT OR O_CLOEXEC OR O_NOCTTY)
              (Some (octal [0, 6, 4, 4])) (Inr 3)),
           (Dev_Nodes, Close 3 (Inr ())),
           (Dev_Nodes,
            Mount ''/dev/zero'' ''/stage2/rootfs/dev/zero'' ''bind'' MS_BIND None (Inl 13))]\<rparr>"
  by (simp add: prog_runs body_runs hosts_runs table_defs const_defs enter_def K_stop_def
      K_plain_def init_def monad_defs sys_defs Let_def fmt_prec_s_def hosts_line_def)

lemma staged_opened:
  assumes H: "\<And>rootfd. emits H (ensure_etc_hosts_exists K root rootfd)"
      "\<And>c. H c \<Longrightarrow> P (Etc_Hosts, c)"
    and O: "\<And>g c. g \<noteq> Etc_Hosts \<Longrightarrow> part_call K root g c \<Longrightarrow> P (g, c)"
  shows "staged Open_Root Symlinks P
      (bind (sys_open K root (O_DIRECTORY OR O_CLOEXEC) None)
         (\<lambda>rootfd.
            seq (ignore (pexit_if (return rootfd) (\<lambda>rootfd. rootfd < 0)))
              (seq (prepare K root rootfd) (return EXIT_SUCCESS))))"
proof -
  have C: "staged Open_Root Open_Root P (sys_open K root (O_DIRECTORY OR O_CLOEXEC) None)"
    by (rule staged_emits[of "part_call K root Open_Root"])
       (auto intro!: emits_mk simp: O part_call_def)
  have D: "\<And>rootfd. staged Open_Root Symlinks P
      (seq (ignore (pexit_if (return rootfd) (\<lambda>rootfd. rootfd < 0)))
         (seq (prepare K root rootfd) (return EXIT_SUCCESS)))"
  proof -
    fix rootfd :: int
    have chk: "staged Open_Root Open_Root P
        (ignore (pexit_if (return rootfd) (\<lambda>rootfd. rootfd < 0)))"
      by (rule staged_emits[of "part_call K root Open_Root"])
         (auto intro!: emits_struct simp: O)
    have "staged Open_Root Symlinks P (prepare K root rootfd)"
      by (rule staged_prepare[where H = H]) (use H O in auto)
    from staged_seq[OF this staged_return]
    have "staged Open_Root Symlinks P (seq (prepare K root rootfd) (return EXIT_SUCCESS))"
      by simp
    from staged_seq[OF chk this]
    show "staged Open_Root Symlinks P
        (seq (ignore (pexit_if (return rootfd) (\<lambda>rootfd. rootfd < 0)))
           (seq (prepare K root rootfd) (return EXIT_SUCCESS)))"
      by simp
  qed
  show ?thesis
    by (rule staged_bind[OF C D]) simp_all
qed

lemma main_no_args: "length argv < 2 \<Longrightarrow> main K argv init = Exit 1 (init\<lparr>exit_err := 1\<rparr>)"
  by (simp add: main_def monad_defs init_def)

lemma main_root_mount_failed:
  assumes "2 \<le> length argv"
    and "k_mount K 0 (argv ! 1) (argv ! 1) ''bind'' (MS_BIND OR MS_REC) None = Inl e"
  shows "main K argv init =
      Exit 2
        \<lparr>exit_err = 2, errno = e, stage = Make_Mountpoint,
         trace = [mount_ev K 0 Make_Mountpoint (argv ! 1) (argv ! 1) ''bind''
                    (MS_BIND OR MS_REC) None]\<rparr>"
  using assms
  by (simp add: main_def monad_defs sys_defs init_def enter_def mount_ev_def Let_def)

lemma main_root_mounted:
  assumes "2 \<le> length argv"
    and "k_mount K 0 (argv ! 1) (argv ! 1) ''bind'' (MS_BIND OR MS_REC) None = Inr u"
  shows "main K argv init =
      bind (sys_open K (argv ! 1) (O_DIRECTORY OR O_CLOEXEC) None)
        (\<lambda>rootfd.
           seq (ignore (pexit_if (return rootfd) (\<lambda>rootfd. rootfd < 0)))
             (seq (prepare K (argv ! 1) rootfd) (return EXIT_SUCCESS)))
        \<lparr>exit_err = 2, errno = 0, stage = Open_Root,
         trace = [mount_ev K 0 Make_Mountpoint (argv ! 1) (argv ! 1) ''bind''
                    (MS_BIND OR MS_REC) None]\<rparr>"
  using assms
  by (simp add: prog_runs(1) monad_defs sys_defs init_def enter_def mount_ev_def Let_def)

text \<open>
  The trace of a run of \<^verbatim>\<open>main\<close> with an argument: the mount of the root on itself, then
  calls of the later parts, in the order of the parts.
\<close>

lemma main_calls:
  assumes H: "\<And>rootfd. emits H (ensure_etc_hosts_exists K (argv ! 1) rootfd)"
      "\<And>c. H c \<Longrightarrow> P (Etc_Hosts, c)"
    and O: "\<And>g c. g \<noteq> Etc_Hosts \<Longrightarrow> part_call K (argv ! 1) g c \<Longrightarrow> P (g, c)"
    and len: "2 \<le> length argv"
  shows "\<exists>rest. trace (final (main K argv init)) =
             mount_ev K 0 Make_Mountpoint (argv ! 1) (argv ! 1) ''bind'' (MS_BIND OR MS_REC) None
             # rest \<and>
           sorted (map (\<lambda>e. stage_rank (fst e)) rest) \<and>
           (\<forall>e\<in>set rest. 1 \<le> stage_rank (fst e) \<and> P e)"
proof (cases "k_mount K 0 (argv ! 1) (argv ! 1) ''bind'' (MS_BIND OR MS_REC) None")
  case (Inl e)
  show ?thesis
    unfolding main_root_mount_failed[OF len Inl] by (simp add: final_def)
next
  case (Inr u)
  let ?root = "argv ! 1"
  let ?ev = "mount_ev K 0 Make_Mountpoint ?root ?root ''bind'' (MS_BIND OR MS_REC) None"
  let ?s1 = "\<lparr>exit_err = 2, errno = 0, stage = Open_Root, trace = [?ev]\<rparr>"
  have "staged Open_Root Symlinks P
      (bind (sys_open K ?root (O_DIRECTORY OR O_CLOEXEC) None)
         (\<lambda>rootfd.
            seq (ignore (pexit_if (return rootfd) (\<lambda>rootfd. rootfd < 0)))
              (seq (prepare K ?root rootfd) (return EXIT_SUCCESS))))"
    by (rule staged_opened[where H = H]) (use H O in auto)
  from this[unfolded staged_def, rule_format, of ?s1]
  show ?thesis
    unfolding main_root_mounted[OF len Inr] by auto
qed

lemma main_part_calls:
  assumes "2 \<le> length argv"
  shows "\<exists>rest. trace (final (main K argv init)) =
             mount_ev K 0 Make_Mountpoint (argv ! 1) (argv ! 1) ''bind'' (MS_BIND OR MS_REC) None
             # rest \<and>
           sorted (map (\<lambda>e. stage_rank (fst e)) rest) \<and>
           (\<forall>e\<in>set rest. 1 \<le> stage_rank (fst e) \<and> part_call K (argv ! 1) (fst e) (snd e))"
  by (rule main_calls[where H = "part_call K (argv ! 1) Etc_Hosts"])
     (simp_all add: part_hosts assms)

lemma main_ordered:
  "sorted (map (\<lambda>e. stage_rank (fst e)) (trace (final (main K argv init)))) \<and>
   (\<forall>e\<in>set (trace (final (main K argv init))). part_call K (argv ! 1) (fst e) (snd e)) \<and>
   (\<forall>j. j < length (trace (final (main K argv init))) \<and> 0 < j \<longrightarrow>
        fst (trace (final (main K argv init)) ! j) \<noteq> Make_Mountpoint)"
proof (cases "2 \<le> length argv")
  case False
  then have "length argv < 2"
    by simp
  then have "trace (final (main K argv init)) = []"
    unfolding main_no_args[OF \<open>length argv < 2\<close>] by (simp add: final_def init_def)
  then show ?thesis
    by simp
next
  case True
  let ?ev = "mount_ev K 0 Make_Mountpoint (argv ! 1) (argv ! 1) ''bind'' (MS_BIND OR MS_REC) None"
  from main_part_calls[OF True, of K] obtain rest where
    tr: "trace (final (main K argv init)) = ?ev # rest"
    and srt: "sorted (map (\<lambda>e. stage_rank (fst e)) rest)"
    and rest: "\<forall>e\<in>set rest. 1 \<le> stage_rank (fst e) \<and> part_call K (argv ! 1) (fst e) (snd e)"
    by blast
  have 1: "sorted (map (\<lambda>e. stage_rank (fst e)) (?ev # rest))"
    using srt by (simp add: mount_ev_def)
  have 2: "\<forall>e\<in>set (?ev # rest). part_call K (argv ! 1) (fst e) (snd e)"
    using rest by (simp add: mount_ev_def part_call_root_mount)
  have 3: "\<forall>j. j < length (?ev # rest) \<and> 0 < j \<longrightarrow> fst ((?ev # rest) ! j) \<noteq> Make_Mountpoint"
  proof (intro allI impI)
    fix j
    assume j: "j < length (?ev # rest) \<and> 0 < j"
    then obtain k where k: "j = Suc k" "k < length rest"
      by (cases j) auto
    with rest have "1 \<le> stage_rank (fst (rest ! k))"
      by simp
    then show "fst ((?ev # rest) ! j) \<noteq> Make_Mountpoint"
      using k by auto
  qed
  show ?thesis
    unfolding tr by (intro conjI) (fact 1 2 3)+
qed

text \<open>
  C5 (as amended). In every run the calls appear in the order of the parts of \<^verbatim>\<open>main\<close>:
  the mount of the root on itself and the opening of the root, the Skeleton Builder
  (unlinks, directories), the Hosts Synthesizer, the closing of the root, then of the
  Device and File Bind-Mounter the device nodes and the directory mounts, then the Sys
  Mounter, and last of the Device and File Bind-Mounter the file mount and the symbolic
  links. Every recorded call is, by its arguments, a call of the part it is recorded in
  (\<open>part_call\<close>), so the order of the parts is the order of the operations. In particular
  every call of the Hosts Synthesizer precedes every call of the Device and File
  Bind-Mounter; read off the calls alone: every \<^verbatim>\<open>faccessat\<close>, \<^verbatim>\<open>read\<close>, \<^verbatim>\<open>openat\<close> and
  \<^verbatim>\<open>write\<close> of a run precedes every \<^verbatim>\<open>access\<close>, \<^verbatim>\<open>creat\<close> and \<^verbatim>\<open>symlink\<close> and every \<^verbatim>\<open>mount\<close>
  but the first call.
\<close>

theorem main_parts_in_source_order:
  "sorted (map (\<lambda>e. stage_rank (fst e)) (trace (final (main K argv init)))) \<and>
   (\<forall>e\<in>set (trace (final (main K argv init))). part_call K (argv ! 1) (fst e) (snd e)) \<and>
   (\<forall>i j. i < length (trace (final (main K argv init))) \<and>
          j < length (trace (final (main K argv init))) \<and>
          component_of (fst (trace (final (main K argv init)) ! i)) = Hosts_Synthesizer \<and>
          component_of (fst (trace (final (main K argv init)) ! j)) = Device_File_Mounter
          \<longrightarrow> i < j) \<and>
   (\<forall>i j. i < length (trace (final (main K argv init))) \<and>
          j < length (trace (final (main K argv init))) \<and> 0 < j \<and>
          kind_of (snd (trace (final (main K argv init)) ! i)) \<in>
            {KFaccessat, KRead, KOpenat, KWrite} \<and>
          kind_of (snd (trace (final (main K argv init)) ! j)) \<in>
            {KMount, KAccess, KCreat, KSymlink}
          \<longrightarrow> i < j)"
proof -
  let ?tr = "trace (final (main K argv init))"
  have srt: "sorted (map (\<lambda>e. stage_rank (fst e)) ?tr)"
    by (rule main_ordered[THEN conjunct1])
  have calls: "\<forall>e\<in>set ?tr. part_call K (argv ! 1) (fst e) (snd e)"
    by (rule main_ordered[THEN conjunct2, THEN conjunct1])
  have first: "\<And>j. j < length ?tr \<Longrightarrow> 0 < j \<Longrightarrow> fst (?tr ! j) \<noteq> Make_Mountpoint"
    using main_ordered[THEN conjunct2, THEN conjunct2, of K argv] by simp
  have before: "i < j"
    if "i < length ?tr" "j < length ?tr" "stage_rank (fst (?tr ! i)) < stage_rank (fst (?tr ! j))"
    for i j
  proof (rule ccontr)
    assume "\<not> i < j"
    then have "j \<le> i" by simp
    with srt that(1) have
      "map (\<lambda>e. stage_rank (fst e)) ?tr ! j \<le> map (\<lambda>e. stage_rank (fst e)) ?tr ! i"
      by (intro sorted_nth_mono) simp_all
    with that show False by simp
  qed
  have parts: "\<forall>i j. i < length ?tr \<and> j < length ?tr \<and>
      component_of (fst (?tr ! i)) = Hosts_Synthesizer \<and>
      component_of (fst (?tr ! j)) = Device_File_Mounter \<longrightarrow> i < j"
  proof (intro allI impI)
    fix i j
    assume a: "i < length ?tr \<and> j < length ?tr \<and>
        component_of (fst (?tr ! i)) = Hosts_Synthesizer \<and>
        component_of (fst (?tr ! j)) = Device_File_Mounter"
    then have h: "fst (?tr ! i) = Etc_Hosts"
      by (cases "fst (?tr ! i)") simp_all
    from a have d: "6 \<le> stage_rank (fst (?tr ! j))"
      by (cases "fst (?tr ! j)") simp_all
    show "i < j"
      using a h d by - (rule before, simp_all)
  qed
  have kinds: "\<forall>i j. i < length ?tr \<and> j < length ?tr \<and> 0 < j \<and>
      kind_of (snd (?tr ! i)) \<in> {KFaccessat, KRead, KOpenat, KWrite} \<and>
      kind_of (snd (?tr ! j)) \<in> {KMount, KAccess, KCreat, KSymlink} \<longrightarrow> i < j"
  proof (intro allI impI)
    fix i j
    assume a: "i < length ?tr \<and> j < length ?tr \<and> 0 < j \<and>
        kind_of (snd (?tr ! i)) \<in> {KFaccessat, KRead, KOpenat, KWrite} \<and>
        kind_of (snd (?tr ! j)) \<in> {KMount, KAccess, KCreat, KSymlink}"
    from a calls have ci: "part_call K (argv ! 1) (fst (?tr ! i)) (snd (?tr ! i))"
      and cj: "part_call K (argv ! 1) (fst (?tr ! j)) (snd (?tr ! j))"
      by simp_all
    from part_call_hosts_kinds[OF ci] a have h: "fst (?tr ! i) = Etc_Hosts"
      by blast
    from a first have "fst (?tr ! j) \<noteq> Make_Mountpoint"
      by blast
    with part_call_mounter_kinds[OF cj] a have d: "6 \<le> stage_rank (fst (?tr ! j))"
      by blast
    show "i < j"
      using a h d by - (rule before, simp_all)
  qed
  show ?thesis
    by (intro conjI) (fact srt calls parts kinds)+
qed

theorem main_parts_in_source_order_witness:
  "21 < length (trace (final (main K_stop [''prepare-app'', ''/stage2/rootfs''] init))) \<and>
   27 < length (trace (final (main K_stop [''prepare-app'', ''/stage2/rootfs''] init))) \<and>
   component_of (fst (trace (final (main K_stop [''prepare-app'', ''/stage2/rootfs''] init)) ! 21)) =
     Hosts_Synthesizer \<and>
   component_of (fst (trace (final (main K_stop [''prepare-app'', ''/stage2/rootfs''] init)) ! 27)) =
     Device_File_Mounter \<and>
   kind_of (snd (trace (final (main K_stop [''prepare-app'', ''/stage2/rootfs''] init)) ! 21)) = KWrite \<and>
   kind_of (snd (trace (final (main K_stop [''prepare-app'', ''/stage2/rootfs''] init)) ! 27)) = KMount \<and>
   (21 :: nat) < 27 \<and>
   sorted (map (\<lambda>e. stage_rank (fst e))
     (trace (final (main K_stop [''prepare-app'', ''/stage2/rootfs''] init)))) \<and>
   part_call K_stop ''/stage2/rootfs'' Etc_Hosts
     (Write 4 (hosts_line ''rkt-01234567-89ab-cdef-0123-456789ab'') (Inr 79)) \<and>
   part_call K_stop ''/stage2/rootfs'' Dev_Nodes
     (Mount ''/dev/null'' ''/stage2/rootfs/dev/null'' ''bind'' MS_BIND None (Inr ()))"
  using main_parts_in_source_order[of K_stop "[''prepare-app'', ''/stage2/rootfs'']"]
  by (simp add: K_stop_run final_def)

theorem hosts_synthesizer_runs_first_counterexample:
  "trace (final (main K_stop [''prepare-app'', ''/stage2/rootfs''] init)) ! 21 =
     (Etc_Hosts, Write 4 (hosts_line ''rkt-01234567-89ab-cdef-0123-456789ab'') (Inr 79)) \<and>
   trace (final (main K_stop [''prepare-app'', ''/stage2/rootfs''] init)) ! 27 =
     (Dev_Nodes, Mount ''/dev/null'' ''/stage2/rootfs/dev/null'' ''bind'' MS_BIND None (Inr ())) \<and>
   component_of Etc_Hosts = Hosts_Synthesizer \<and> component_of Dev_Nodes = Device_File_Mounter"
  by (simp add: K_stop_run final_def)

section \<open>The root self-mount\<close>

text \<open>
  C10. With fewer than two arguments \<^verbatim>\<open>main\<close> exits before any call. Otherwise the first
  call of every run is the recursive bind mount of the root on itself, and when that mount
  fails the run exits with no further call.
\<close>

theorem main_first_call:
  "(length argv < 2 \<longrightarrow> main K argv init = Exit 1 (init\<lparr>exit_err := 1\<rparr>)) \<and>
   (2 \<le> length argv \<longrightarrow>
      (\<exists>rest. trace (final (main K argv init)) =
                mount_ev K 0 Make_Mountpoint (argv ! 1) (argv ! 1) ''bind'' (MS_BIND OR MS_REC) None
                # rest) \<and>
      (\<forall>e. k_mount K 0 (argv ! 1) (argv ! 1) ''bind'' (MS_BIND OR MS_REC) None = Inl e \<longrightarrow>
           main K argv init =
             Exit 2
               \<lparr>exit_err = 2, errno = e, stage = Make_Mountpoint,
                trace = [mount_ev K 0 Make_Mountpoint (argv ! 1) (argv ! 1) ''bind''
                           (MS_BIND OR MS_REC) None]\<rparr>)) \<and>
   recursive (MS_BIND OR MS_REC)"
proof (intro conjI impI allI)
  assume "length argv < 2"
  then show "main K argv init = Exit 1 (init\<lparr>exit_err := 1\<rparr>)"
    by (simp add: main_def monad_defs init_def)
next
  fix e
  assume "2 \<le> length argv"
    and "k_mount K 0 (argv ! 1) (argv ! 1) ''bind'' (MS_BIND OR MS_REC) None = Inl e"
  then show "main K argv init =
      Exit 2 \<lparr>exit_err = 2, errno = e, stage = Make_Mountpoint,
              trace = [mount_ev K 0 Make_Mountpoint (argv ! 1) (argv ! 1) ''bind''
                         (MS_BIND OR MS_REC) None]\<rparr>"
    by (simp add: main_def monad_defs sys_defs init_def enter_def mount_ev_def Let_def)
next
  assume "2 \<le> length argv"
  from main_part_calls[OF this, of K]
  show "\<exists>rest. trace (final (main K argv init)) =
      mount_ev K 0 Make_Mountpoint (argv ! 1) (argv ! 1) ''bind'' (MS_BIND OR MS_REC) None # rest"
    by blast
next
  show "recursive (MS_BIND OR MS_REC)"
    by (rule recursive_flags)
qed

theorem main_first_call_witness:
  "2 \<le> length [''prepare-app'', ''/stage2/rootfs''] \<and>
   (\<exists>rest. trace (final (main K_plain [''prepare-app'', ''/stage2/rootfs''] init)) =
      (Make_Mountpoint,
       Mount ''/stage2/rootfs'' ''/stage2/rootfs'' ''bind'' (MS_BIND OR MS_REC) None (Inr ())) # rest) \<and>
   main K_no_mount [''prepare-app'', ''/stage2/rootfs''] init =
     Exit 2
       \<lparr>exit_err = 2, errno = 1, stage = Make_Mountpoint,
        trace = [(Make_Mountpoint,
                  Mount ''/stage2/rootfs'' ''/stage2/rootfs'' ''bind'' (MS_BIND OR MS_REC) None
                    (Inl 1))]\<rparr> \<and>
   main K_plain [''prepare-app''] init = Exit 1 (init\<lparr>exit_err := 1\<rparr>)"
  using main_first_call[of "[''prepare-app'', ''/stage2/rootfs'']" K_plain]
    main_first_call[of "[''prepare-app'', ''/stage2/rootfs'']" K_no_mount]
    main_first_call[of "[''prepare-app'']" K_plain]
  by (simp add: mount_ev_def K_plain_def K_no_mount_def)

section \<open>Device nodes\<close>

lemma step_index:
  "n + 2 = Suc (Suc n)" "n + 3 = Suc (Suc (Suc n))" "n + 4 = Suc (Suc (Suc (Suc n)))"
  "n + 5 = Suc (Suc (Suc (Suc (Suc n))))" "n + 6 = Suc (Suc (Suc (Suc (Suc (Suc n)))))"
  by simp_all

text \<open>
  C6 (as amended). For a device node path \<^verbatim>\<open>from\<close>: \<^verbatim>\<open>access\<close> is called on the host path;
  when it fails nothing else is called. Otherwise, when \<^verbatim>\<open><root><from>\<close> fits the buffer,
  \<^verbatim>\<open>open\<close> with \<^verbatim>\<open>O_CREAT\<close> is called on that path, the descriptor is closed when there is
  one, and the host node is bind-mounted on the path. The step exits exactly when the path
  does not fit or the mount fails: a failure of \<^verbatim>\<open>open\<close> or of \<^verbatim>\<open>close\<close> is ignored.
\<close>

theorem bind_devnode_step:
  "new_events s (bind_devnode K root from s) =
     (stage s, Access from F_OK (k_access K (length (trace s)) from F_OK)) #
     (if is_err (k_access K (length (trace s)) from F_OK) \<or> 4096 \<le> length (root @ from) then []
      else
        (stage s,
         Open (root @ from) (O_WRONLY OR O_CREAT OR O_CLOEXEC OR O_NOCTTY) (Some (octal [0, 6, 4, 4]))
           (k_open K (length (trace s) + 1) (root @ from)
              (O_WRONLY OR O_CREAT OR O_CLOEXEC OR O_NOCTTY) (Some (octal [0, 6, 4, 4])))) #
        (case k_open K (length (trace s) + 1) (root @ from)
                (O_WRONLY OR O_CREAT OR O_CLOEXEC OR O_NOCTTY) (Some (octal [0, 6, 4, 4])) of
           Inl e \<Rightarrow>
             [mount_ev K (length (trace s) + 2) (stage s) from (root @ from) ''bind'' MS_BIND None]
         | Inr fd \<Rightarrow>
             [(stage s, Close (int fd) (k_close K (length (trace s) + 2) (int fd))),
              mount_ev K (length (trace s) + 3) (stage s) from (root @ from) ''bind'' MS_BIND
                None])) \<and>
   completed (bind_devnode K root from s) =
     (is_err (k_access K (length (trace s)) from F_OK) \<or>
      (length (root @ from) < 4096 \<and>
       (\<forall>e\<in>set (new_events s (bind_devnode K root from s)).
          kind_of (snd e) = KMount \<longrightarrow> \<not> failed (snd e))))"
proof (cases "k_access K (length (trace s)) from F_OK")
  case (Inl e)
  then show ?thesis
    by (simp add: body_runs monad_defs sys_defs Let_def new_events_def final_def completed_def
        is_err_def)
next
  case acc: (Inr u)
  show ?thesis
  proof (cases "4096 \<le> length (root @ from)")
    case True
    with acc show ?thesis
      by (simp add: body_runs monad_defs sys_defs Let_def new_events_def final_def
          completed_def is_err_def)
  next
    case fits: False
    show ?thesis
    proof (cases "k_open K (Suc (length (trace s))) (root @ from)
        (O_WRONLY OR O_CREAT OR O_CLOEXEC OR O_NOCTTY) (Some (octal [0, 6, 4, 4]))")
      case (Inl e)
      show ?thesis
      proof (cases "k_mount K (Suc (Suc (length (trace s)))) from (root @ from) ''bind'' MS_BIND None")
        case mnt: (Inl e')
        from acc fits Inl mnt show ?thesis
          by (simp add: body_runs monad_defs sys_defs Let_def new_events_def final_def
              completed_def is_err_def mount_ev_def step_index)
      next
        case mnt: (Inr u')
        from acc fits Inl mnt show ?thesis
          by (simp add: body_runs monad_defs sys_defs Let_def new_events_def final_def
              completed_def is_err_def mount_ev_def step_index)
      qed
    next
      case (Inr fd)
      show ?thesis
      proof (cases "k_mount K (Suc (Suc (Suc (length (trace s))))) from (root @ from) ''bind''
          MS_BIND None")
        case mnt: (Inl e')
        from acc fits Inr mnt show ?thesis
          by (cases "k_close K (Suc (Suc (length (trace s)))) (int fd)")
             (simp_all add: body_runs monad_defs sys_defs Let_def new_events_def final_def
               completed_def is_err_def mount_ev_def step_index)
      next
        case mnt: (Inr u')
        from acc fits Inr mnt show ?thesis
          by (cases "k_close K (Suc (Suc (length (trace s)))) (int fd)")
             (simp_all add: body_runs monad_defs sys_defs Let_def new_events_def final_def
               completed_def is_err_def mount_ev_def step_index)
      qed
    qed
  qed
qed

theorem bind_devnode_step_witness:
  "new_events (in_part Dev_Nodes)
     (bind_devnode K_plain ''/stage2/rootfs'' ''/dev/null'' (in_part Dev_Nodes)) =
     [(Dev_Nodes, Access ''/dev/null'' F_OK (Inr ())),
      (Dev_Nodes,
       Open ''/stage2/rootfs/dev/null'' (O_WRONLY OR O_CREAT OR O_CLOEXEC OR O_NOCTTY)
         (Some (octal [0, 6, 4, 4])) (Inr 3)),
      (Dev_Nodes, Close 3 (Inr ())),
      (Dev_Nodes, Mount ''/dev/null'' ''/stage2/rootfs/dev/null'' ''bind'' MS_BIND None (Inr ()))] \<and>
   completed (bind_devnode K_plain ''/stage2/rootfs'' ''/dev/null'' (in_part Dev_Nodes))"
  using bind_devnode_step[of "in_part Dev_Nodes" K_plain "''/stage2/rootfs''" "''/dev/null''"]
  by (simp add: in_part_def init_def K_plain_def is_err_def mount_ev_def)

theorem placeholder_failure_ignored_counterexample:
  "bind_devnode K_read_only ''/stage2/rootfs'' ''/dev/null'' (in_part Dev_Nodes) =
     Done ()
       \<lparr>exit_err = 2, errno = 30, stage = Dev_Nodes,
        trace =
          [(Dev_Nodes, Access ''/dev/null'' F_OK (Inr ())),
           (Dev_Nodes,
            Open ''/stage2/rootfs/dev/null'' (O_WRONLY OR O_CREAT OR O_CLOEXEC OR O_NOCTTY)
              (Some (octal [0, 6, 4, 4])) (Inl 30)),
           (Dev_Nodes,
            Mount ''/dev/null'' ''/stage2/rootfs/dev/null'' ''bind'' MS_BIND None (Inr ()))]\<rparr>"
  by (simp add: body_runs monad_defs sys_defs Let_def in_part_def init_def K_read_only_def
      K_plain_def)

section \<open>The hosts file\<close>

lemma fmt_prec_s_take:
  "CHR 0x00 \<notin> set (take n bytes) \<Longrightarrow> fmt_prec_s n bytes = take n bytes"
  by (auto simp: fmt_prec_s_def takeWhile_eq_all_conv)

lemma machine_name_formatted:
  assumes "28 \<le> length buf" and "CHR 0x00 \<notin> set (take 28 buf)"
  shows "''rkt-'' @ fmt_prec_s 8 buf @ ''-'' @ fmt_prec_s 4 (drop 8 buf) @ ''-''
           @ fmt_prec_s 4 (drop 12 buf) @ ''-'' @ fmt_prec_s 4 (drop 16 buf) @ ''-''
           @ fmt_prec_s 8 (drop 20 buf) = machine_name buf"
proof -
  have sub: "\<And>k n. k + n \<le> 28 \<Longrightarrow> set (take n (drop k buf)) \<subseteq> set (take 28 buf)"
  proof -
    fix k n :: nat
    assume "k + n \<le> 28"
    have "take n (drop k buf) = drop k (take (k + n) buf)"
      by (simp add: drop_take add.commute)
    then have "set (take n (drop k buf)) \<subseteq> set (take (k + n) buf)"
      by (simp add: set_drop_subset)
    also have "\<dots> \<subseteq> set (take 28 buf)"
      using \<open>k + n \<le> 28\<close> by (rule set_take_subset_set_take)
    finally show "set (take n (drop k buf)) \<subseteq> set (take 28 buf)" .
  qed
  have 1: "CHR 0x00 \<notin> set (take 8 buf)"
    using sub[of 0 8] assms(2) by auto
  have 2: "CHR 0x00 \<notin> set (take 4 (drop 8 buf))"
    using sub[of 8 4] assms(2) by auto
  have 3: "CHR 0x00 \<notin> set (take 4 (drop 12 buf))"
    using sub[of 12 4] assms(2) by auto
  have 4: "CHR 0x00 \<notin> set (take 4 (drop 16 buf))"
    using sub[of 16 4] assms(2) by auto
  have 5: "CHR 0x00 \<notin> set (take 8 (drop 20 buf))"
    using sub[of 20 8] assms(2) by auto
  show ?thesis
    by (simp only: fmt_prec_s_take[OF 1] fmt_prec_s_take[OF 2] fmt_prec_s_take[OF 3]
        fmt_prec_s_take[OF 4] fmt_prec_s_take[OF 5] machine_name_def)
qed

lemma machine_name_length: "28 \<le> length buf \<Longrightarrow> length (machine_name buf) = 36"
  by (simp add: machine_name_def)

lemma machine_lens: "MACHINE_ID_LEN = 28" "MACHINE_NAME_LEN = 36"
  by (simp_all add: MACHINE_ID_LEN_def MACHINE_NAME_LEN_def lenof_def)

lemma get_machine_name_run:
  assumes "hosts_absent K rootfd fd content hfd"
    and "28 \<le> length content" and "CHR 0x00 \<notin> set (take 28 content)"
  shows "get_machine_name K [] 37 s =
     Done (1, machine_name content)
       (s\<lparr>trace := trace s @
            [(stage s, Open ''/etc/machine-id'' O_RDONLY None (Inr fd)),
             (stage s, Read (int fd) 28 (Inr (take 28 content))),
             (stage s, Close (int fd) (Inr ()))]\<rparr>)"
proof -
  from assms(1) have k: "\<And>n. k_open K n ''/etc/machine-id'' O_RDONLY None = Inr fd"
    "\<And>n count. k_read K n (int fd) count = Inr (take count content)"
    "\<And>n d. k_close K n d = Inr ()"
    by (simp_all add: hosts_absent_def)
  let ?stack = "take 29 (k_stack K @ replicate 29 (CHR 0x00))"
  let ?buf = "take 28 content @ drop 28 ?stack"
  have buf: "28 \<le> length ?buf" "CHR 0x00 \<notin> set (take 28 ?buf)"
    using assms(2,3) by simp_all
  have name: "machine_name ?buf = machine_name content"
    using assms(2) by (simp add: machine_name_def drop_take)
  have fmt: "''rkt-'' @ fmt_prec_s 8 ?buf @ ''-'' @ fmt_prec_s 4 (drop 8 ?buf) @ ''-''
           @ fmt_prec_s 4 (drop 12 ?buf) @ ''-'' @ fmt_prec_s 4 (drop 16 ?buf) @ ''-''
           @ fmt_prec_s 8 (drop 20 ?buf) = machine_name content"
    using machine_name_formatted[OF buf] name by simp
  have len: "length (machine_name content) = 36"
    using assms(2) by (rule machine_name_length)
  have run: "get_machine_name K [] 37 s =
      (let (out', r) = snprintf 37 (''rkt-'' @ fmt_prec_s 8 ?buf @ ''-'' @ fmt_prec_s 4 (drop 8 ?buf)
             @ ''-'' @ fmt_prec_s 4 (drop 12 ?buf) @ ''-'' @ fmt_prec_s 4 (drop 16 ?buf) @ ''-''
             @ fmt_prec_s 8 (drop 20 ?buf))
       in if r \<ge> 37 then return (0, out') else return (1, out'))
      (s\<lparr>trace := trace s @
            [(stage s, Open ''/etc/machine-id'' O_RDONLY None (Inr fd)),
             (stage s, Read (int fd) 28 (Inr (take 28 content))),
             (stage s, Close (int fd) (Inr ()))]\<rparr>)"
    using assms(2)
    by (simp add: hosts_runs(1) k bind_def return_def call_def sys_open_def sys_read_def
        sys_close_def retfd_def ret0_def Let_def machine_lens)
  show ?thesis
    unfolding run fmt by (simp add: snprintf_def return_def len)
qed

text \<open>
  C4 (as amended). With no hosts file under the root and an identity file that holds the
  32 characters \<^verbatim>\<open>0123456789abcdef0123456789abXXXX\<close>, \<^verbatim>\<open>ensure_etc_hosts_exists\<close> reads 28
  bytes of the identity, returns 1, and its one write to the hosts file it creates is the
  line \<^verbatim>\<open>127.0.0.1\trkt-01234567-89ab-cdef-0123-456789ab\tlocalhost\tlocalhost.localdomain\n\<close>,
  79 bytes: the last four characters of the identity are not part of the hostname.
\<close>

theorem hosts_file_synthesized:
  assumes "hosts_absent K rootfd fd ((''0123456789abcdef0123456789ab'' @ xs) @ rest) hfd"
    and "length xs = 4" and "CHR 0x00 \<notin> set xs"
  shows "(\<exists>s'. ensure_etc_hosts_exists K root rootfd s = Done 1 s') \<and>
         new_events s (ensure_etc_hosts_exists K root rootfd s) =
           [(stage s, Faccessat rootfd ''etc/hosts'' F_OK AT_EACCESS
                        (k_faccessat K (length (trace s)) rootfd ''etc/hosts'' F_OK AT_EACCESS)),
            (stage s, Open ''/etc/machine-id'' O_RDONLY None (Inr fd)),
            (stage s, Read (int fd) 28 (Inr ''0123456789abcdef0123456789ab'')),
            (stage s, Close (int fd) (Inr ())),
            (stage s, Openat rootfd ''etc/hosts'' (O_WRONLY OR O_CREAT) (octal [0, 6, 4, 4]) (Inr hfd)),
            (stage s, Write (int hfd) (hosts_line ''rkt-01234567-89ab-cdef-0123-456789ab'') (Inr 79)),
            (stage s, Close (int hfd) (Inr ()))]"
proof -
  let ?content = "(''0123456789abcdef0123456789ab'' @ xs) @ rest"
  from assms(1) have k: "\<And>n. is_err (k_faccessat K n rootfd ''etc/hosts'' F_OK AT_EACCESS)"
    "\<And>n d. k_close K n d = Inr ()"
    "\<And>n. k_openat K n rootfd ''etc/hosts'' (O_WRONLY OR O_CREAT) (octal [0, 6, 4, 4]) = Inr hfd"
    "\<And>n d bs. k_write K n d bs = Inr (length bs)"
    by (simp_all add: hosts_absent_def)
  have c: "28 \<le> length ?content" "CHR 0x00 \<notin> set (take 28 ?content)"
    by simp_all
  have name: "machine_name ?content = ''rkt-01234567-89ab-cdef-0123-456789ab''"
    by (simp add: machine_name_def)
  have t: "take 28 ?content = ''0123456789abcdef0123456789ab''"
    by simp
  note gmn = get_machine_name_run[OF assms(1) c, unfolded name t]
  obtain e where f: "k_faccessat K (length (trace s)) rootfd ''etc/hosts'' F_OK AT_EACCESS = Inl e"
    using k(1)[of "length (trace s)"] by (auto simp: is_err_def split: sum.splits)
  show ?thesis
    by (simp add: hosts_runs(2) machine_lens gmn f k bind_def return_def call_def
        sys_faccessat_def sys_openat_def sys_write_def sys_close_def retfd_def ret0_def
        snprintf_def Let_def hosts_line_def new_events_def final_def TAB_def NL_def)
qed

theorem hosts_file_synthesized_witness:
  "hosts_absent K_plain 3 4 ((''0123456789abcdef0123456789ab'' @ ''cdef'') @ [NL]) 4 \<and>
   length ''cdef'' = 4 \<and> CHR 0x00 \<notin> set ''cdef'' \<and>
   (\<exists>s'. ensure_etc_hosts_exists K_plain ''/stage2/rootfs'' 3 (in_part Etc_Hosts) = Done 1 s') \<and>
   new_events (in_part Etc_Hosts)
       (ensure_etc_hosts_exists K_plain ''/stage2/rootfs'' 3 (in_part Etc_Hosts)) ! 5 =
     (Etc_Hosts, Write 4 (hosts_line ''rkt-01234567-89ab-cdef-0123-456789ab'') (Inr 79))"
proof -
  have h: "hosts_absent K_plain 3 4 ((''0123456789abcdef0123456789ab'' @ ''cdef'') @ [NL]) 4"
    "length ''cdef'' = 4" "CHR 0x00 \<notin> set ''cdef''"
    by (simp_all add: hosts_absent_def K_plain_def is_err_def)
  show ?thesis
    using h hosts_file_synthesized[OF h, of "''/stage2/rootfs''" "in_part Etc_Hosts"]
    by (simp add: in_part_def init_def)
qed

theorem hostname_drops_identity_tail_counterexample:
  "ensure_etc_hosts_exists K_plain ''/stage2/rootfs'' 3 (in_part Etc_Hosts) =
     Done 1
       \<lparr>exit_err = 0, errno = ENOENT, stage = Etc_Hosts,
        trace =
          [(Etc_Hosts, Faccessat 3 ''etc/hosts'' F_OK AT_EACCESS (Inl ENOENT)),
           (Etc_Hosts, Open ''/etc/machine-id'' O_RDONLY None (Inr 4)),
           (Etc_Hosts, Read 4 28 (Inr ''0123456789abcdef0123456789ab'')),
           (Etc_Hosts, Close 4 (Inr ())),
           (Etc_Hosts, Openat 3 ''etc/hosts'' (O_WRONLY OR O_CREAT) (octal [0, 6, 4, 4]) (Inr 4)),
           (Etc_Hosts, Write 4 (hosts_line ''rkt-01234567-89ab-cdef-0123-456789ab'') (Inr 79)),
           (Etc_Hosts, Close 4 (Inr ()))]\<rparr> \<and>
   k_read K_plain 0 4 33 = Inr (''0123456789abcdef0123456789abcdef'' @ [NL]) \<and>
   hosts_line ''rkt-01234567-89ab-cdef-0123-456789ab'' \<noteq>
     hosts_line ''rkt-01234567-89ab-cdef-0123-456789abcdef''"
  by (simp add: hosts_runs table_defs const_defs K_plain_def in_part_def init_def monad_defs
      sys_defs Let_def fmt_prec_s_def hosts_line_def)

section \<open>Running again on a prepared root\<close>

lemma succeeds_return: "succeeds (return x)"
  by (simp add: succeeds_def return_def completed_def)

lemma succeeds_bind: "succeeds m \<Longrightarrow> (\<And>x. succeeds (f x)) \<Longrightarrow> succeeds (bind m f)"
proof -
  assume m: "succeeds m" and f: "\<And>x. succeeds (f x)"
  show "succeeds (bind m f)"
    unfolding succeeds_def
  proof
    fix s :: st
    from m have "completed (m s)"
      by (simp add: succeeds_def)
    then obtain x s' where 1: "m s = Done x s'"
      by (cases "m s") (simp_all add: completed_def)
    from f[of x] have "completed (f x s')"
      by (simp add: succeeds_def)
    with 1 show "completed (bind m f s)"
      by (simp add: bind_def)
  qed
qed

lemma succeeds_seq: "succeeds m \<Longrightarrow> succeeds k \<Longrightarrow> succeeds (seq m k)"
  unfolding seq_def by (rule succeeds_bind)

lemma succeeds_enter: "succeeds (enter g)"
  by (simp add: succeeds_def enter_def completed_def)

lemma succeeds_for_each: "(\<And>x. x \<in> set xs \<Longrightarrow> succeeds (body x)) \<Longrightarrow> succeeds (for_each xs body)"
  by (induction xs) (simp_all add: succeeds_return succeeds_seq)

lemma succeeds_block: "(\<And>m. m \<in> set ms \<Longrightarrow> succeeds m) \<Longrightarrow> succeeds (block ms)"
  by (induction ms) (simp_all add: succeeds_return succeeds_seq)

lemma succeeds_keeps: "keeps_errno m \<Longrightarrow> succeeds m"
  unfolding succeeds_def keeps_errno_def
proof
  fix s :: st
  assume "\<forall>s. \<exists>s'. m s = Done () s' \<and> errno s' = errno s"
  then obtain s' where "m s = Done () s'" by blast
  then show "completed (m s)" by (simp add: completed_def)
qed

lemma keeps_seq: "keeps_errno m \<Longrightarrow> keeps_errno k \<Longrightarrow> keeps_errno (seq m k)"
  unfolding keeps_errno_def seq_def bind_def
proof
  fix s :: st
  assume m: "\<forall>s. \<exists>s'. m s = Done () s' \<and> errno s' = errno s"
    and k: "\<forall>s. \<exists>s'. k s = Done () s' \<and> errno s' = errno s"
  from m obtain s1 where 1: "m s = Done () s1" "errno s1 = errno s" by blast
  from k obtain s2 where 2: "k s1 = Done () s2" "errno s2 = errno s1" by blast
  from 1 2 show "\<exists>s'. (case m s of Done x s' \<Rightarrow> k s' | Exit c s' \<Rightarrow> Exit c s') = Done () s' \<and>
      errno s' = errno s"
    by simp
qed

lemma sp_facts:
  assumes "skeleton_present K root"
  shows "k_mount K n src tgt ty fl dat = Inr ()"
    and "k_unlinkat K n dfd p ufl \<in> {Inr (), Inl ENOENT, Inl EISDIR}"
    and "k_mkdirat K n dfd p m \<in> {Inr (), Inl EEXIST}"
    and "k_faccessat K n dfd ''etc/hosts'' F_OK AT_EACCESS = Inr ()"
    and "k_close K n fd = Inr ()"
    and "k_fopen K n p md = Inr ()"
    and "fst (k_fscanf K n ''%u %u %u'') = 3"
    and "k_fclose K n = Inr ()"
    and "k_closedir K n = Inr ()"
    and "k_symlink K n t p \<in> {Inr (), Inl EEXIST}"
    and "length root + 270 < 4096"
  using assms unfolding skeleton_present_def by simp_all

lemma sp_ex:
  assumes "skeleton_present K root"
  shows "\<exists>fd. k_open K n root (O_DIRECTORY OR O_CLOEXEC) None = Inr fd"
    and "\<exists>ty. k_statfs K n ''/sys/fs/cgroup'' = Inr ty"
    and "\<exists>ents. k_opendir K n (root @ ''/sys/fs/cgroup'') = Inr (ents, None) \<and>
                (\<forall>d\<in>set ents. length (d_name d) \<le> 255)"
    and "\<exists>fd. k_creat K n p m = Inr fd"
  using assms unfolding skeleton_present_def by simp_all

lemma keeps_mount_at:
  assumes "skeleton_present K root" and "length (target mnt) \<le> 269"
  shows "keeps_errno (mount_at K root mnt)"
  using sp_facts(11)[OF assms(1)] assms(2)
  by (simp add: keeps_errno_def mount_at_run sp_facts(1)[OF assms(1)])

lemma keeps_readdir_loop:
  assumes "skeleton_present K root" and "\<forall>d\<in>set ents. length (d_name d) \<le> 255"
  shows "keeps_errno (readdir_loop K root ents None)"
  using assms(2)
proof (induction ents)
  case Nil
  show ?case
    by (simp add: keeps_errno_def sys_readdir_def monad_defs Let_def)
next
  case (Cons d ds)
  then have ih: "keeps_errno (readdir_loop K root ds None)" and len: "length (d_name d) \<le> 255"
    by simp_all
  have rd: "keeps_errno (sys_readdir (Inr (Some d)))"
    by (simp add: keeps_errno_def sys_readdir_def monad_defs Let_def)
  have guard: "keeps_errno (ignore (exit_if (return (int (length (''sys/fs/cgroup/'' @ d_name d))))
      (\<lambda>n. n \<ge> 4096)))"
    using len by (simp add: keeps_errno_def monad_defs)
  have mnt: "keeps_errno (mount_at K root
      \<lparr>source = ''sys/fs/cgroup/'' @ d_name d, target = ''sys/fs/cgroup/'' @ d_name d,
       fstype = ''bind'', options = None, flags = MS_BIND\<rparr>)"
    using len by (intro keeps_mount_at[OF assms(1)]) simp
  have t: "take 4095 (''sys/fs/cgroup/'' @ d_name d) = ''sys/fs/cgroup/'' @ d_name d"
    using len by simp
  show ?case
    unfolding readdir_loop.simps snprintf_def Let_def prod.case
    using rd ih guard mnt t
    by (auto intro!: keeps_seq)
qed

lemma succeeds_unlink_path:
  assumes "skeleton_present K root"
  shows "succeeds (unlink_path K rootfd p)"
  unfolding succeeds_def
proof
  fix s :: st
  from sp_facts(2)[OF assms, of "length (trace s)" rootfd p 0]
  consider "k_unlinkat K (length (trace s)) rootfd p 0 = Inr ()"
    | "k_unlinkat K (length (trace s)) rootfd p 0 = Inl ENOENT"
    | "k_unlinkat K (length (trace s)) rootfd p 0 = Inl EISDIR"
    by auto
  then show "completed (unlink_path K rootfd p s)"
    by cases (simp_all add: body_runs monad_defs sys_defs Let_def completed_def)
qed

lemma succeeds_make_dir:
  assumes "skeleton_present K root"
  shows "succeeds (make_dir K rootfd d)"
  unfolding succeeds_def
proof
  fix s :: st
  from sp_facts(3)[OF assms, of "length (trace s)" rootfd "name d" "mode d"]
  consider "k_mkdirat K (length (trace s)) rootfd (name d) (mode d) = Inr ()"
    | "k_mkdirat K (length (trace s)) rootfd (name d) (mode d) = Inl EEXIST"
    by auto
  then show "completed (make_dir K rootfd d s)"
    by cases (simp_all add: body_runs monad_defs sys_defs Let_def completed_def)
qed

lemma hosts_present_run:
  assumes "skeleton_present K root"
  shows "ensure_etc_hosts_exists K root rootfd s =
           Done 1 (s\<lparr>trace := trace s @
                     [(stage s, Faccessat rootfd ''etc/hosts'' F_OK AT_EACCESS (Inr ()))]\<rparr>)"
  by (simp add: hosts_runs(2) sp_facts(4)[OF assms] monad_defs sys_defs Let_def)

lemma succeeds_hosts_present:
  assumes "skeleton_present K root"
  shows "succeeds (ignore (exit_if (ensure_etc_hosts_exists K root rootfd) (\<lambda>r. r = 0)))"
  by (simp add: succeeds_def ignore_def exit_if_def bind_def return_def
      hosts_present_run[OF assms] completed_def)

lemma emits_hosts_present:
  assumes "skeleton_present K root"
  shows "emits (of_kinds {KFaccessat}) (ensure_etc_hosts_exists K root rootfd)"
  by (simp add: emits_def hosts_present_run[OF assms] final_def of_kinds_def)

lemma succeeds_sys_close: "succeeds (ignore (sys_close K fd))"
  by (simp add: succeeds_def monad_defs sys_defs Let_def completed_def)

lemma succeeds_sys_umask: "succeeds (sys_umask m)"
  by (simp add: succeeds_def sys_umask_def completed_def)

lemma succeeds_bind_devnode:
  assumes "skeleton_present K root" and "length from \<le> 269"
  shows "succeeds (bind_devnode K root from)"
  unfolding succeeds_def
proof
  fix s :: st
  from sp_facts(11)[OF assms(1)] assms(2) have fits: "\<not> 4096 \<le> length (root @ from)"
    by simp
  show "completed (bind_devnode K root from s)"
  proof (cases "k_access K (length (trace s)) from F_OK")
    case (Inl e)
    then show ?thesis
      by (simp add: body_runs monad_defs sys_defs Let_def completed_def)
  next
    case acc: (Inr u)
    show ?thesis
    proof (cases "k_open K (Suc (length (trace s))) (root @ from)
        (O_WRONLY OR O_CREAT OR O_CLOEXEC OR O_NOCTTY) (Some (octal [0, 6, 4, 4]))")
      case (Inl e)
      with acc fits show ?thesis
        by (simp add: body_runs monad_defs sys_defs Let_def completed_def
            sp_facts(1)[OF assms(1)])
    next
      case (Inr fd)
      with acc fits show ?thesis
        by (simp add: body_runs monad_defs sys_defs Let_def completed_def
            sp_facts(1)[OF assms(1)] sp_facts(5)[OF assms(1)])
    qed
  qed
qed

lemma succeeds_bind_file:
  assumes "skeleton_present K root" and "length (target mnt) \<le> 269"
  shows "succeeds (bind_file K root mnt)"
  unfolding succeeds_def
proof
  fix s :: st
  from sp_facts(11)[OF assms(1)] assms(2)
  have fits: "\<not> 4096 \<le> length (root @ ''/'' @ target mnt)"
    by simp
  show "completed (bind_file K root mnt s)"
  proof (cases "k_access K (length (trace s)) (source mnt) F_OK")
    case (Inl e)
    with fits show ?thesis
      by (simp add: body_runs monad_defs sys_defs Let_def completed_def)
  next
    case acc: (Inr u)
    show ?thesis
    proof (cases "k_access K (Suc (length (trace s))) (root @ ''/'' @ target mnt) F_OK")
      case (Inl e)
      from sp_ex(4)[OF assms(1)] obtain fd where
        "k_creat K (Suc (Suc (length (trace s)))) (root @ ''/'' @ target mnt) (octal [0, 6, 4, 4])
           = Inr fd"
        by blast
      with acc fits Inl show ?thesis
        by (simp add: body_runs monad_defs sys_defs Let_def completed_def
            sp_facts(1)[OF assms(1)] sp_facts(5)[OF assms(1)])
    next
      case (Inr u')
      with acc fits show ?thesis
        by (simp add: body_runs monad_defs sys_defs Let_def completed_def
            sp_facts(1)[OF assms(1)])
    qed
  qed
qed

lemma succeeds_make_symlink:
  assumes "skeleton_present K root" and "length link \<le> 269"
  shows "succeeds (make_symlink K root dest link)"
  unfolding succeeds_def
proof
  fix s :: st
  from sp_facts(11)[OF assms(1)] assms(2) have fits: "\<not> 4096 \<le> length (root @ link)"
    by simp
  from sp_facts(10)[OF assms(1), of "length (trace s)" dest "root @ link"]
  consider "k_symlink K (length (trace s)) dest (root @ link) = Inr ()"
    | "k_symlink K (length (trace s)) dest (root @ link) = Inl EEXIST"
    by auto
  then show "completed (make_symlink K root dest link s)"
    using fits
    by cases (simp_all add: body_runs monad_defs sys_defs Let_def completed_def)
qed

lemma succeeds_mount_at:
  "skeleton_present K root \<Longrightarrow> length (target mnt) \<le> 269 \<Longrightarrow> succeeds (mount_at K root mnt)"
  by (rule succeeds_keeps[OF keeps_mount_at])

lemma succeeds_cgroup_v1:
  assumes "skeleton_present K root"
  shows "succeeds (mount_sys_cgroup_v1 K root)"
proof -
  have tbl: "succeeds (for_each sys_bind_table (mount_at K root))"
    by (rule succeeds_for_each) (auto simp: sys_bind_table_def intro!: succeeds_mount_at[OF assms])
  have fits: "\<not> 4096 \<le> length (root @ ''/'' @ ''sys/fs/cgroup'')"
    using sp_facts(11)[OF assms] by simp
  have dir: "succeeds
      (bind (pexit_if (sys_opendir K (root @ ''/sys/fs/cgroup'')) (\<lambda>dir. dir = None))
         (\<lambda>dir. case dir of None \<Rightarrow> return ()
                 | Some (ents, e) \<Rightarrow>
                     block [set_errno 0, readdir_loop K root ents e,
                            ignore (pexit_if get_errno (\<lambda>e. e \<noteq> 0)),
                            ignore (pexit_if (sys_closedir K) (\<lambda>c. c \<noteq> 0))]))"
    unfolding succeeds_def
  proof
    fix s :: st
    from sp_ex(3)[OF assms, of "length (trace s)"] obtain ents where
      od: "k_opendir K (length (trace s)) (root @ ''/sys/fs/cgroup'') = Inr (ents, None)"
      and len: "\<forall>d\<in>set ents. length (d_name d) \<le> 255"
      by blast
    let ?s1 = "s\<lparr>exit_err := exit_err s + 1,
                  trace := trace s @ [(stage s, Opendir (root @ ''/sys/fs/cgroup'')
                                                  (Inr (ents, None)))],
                  errno := 0\<rparr>"
    from keeps_readdir_loop[OF assms len] obtain s2 where
      loop: "readdir_loop K root ents None ?s1 = Done () s2" and e2: "errno s2 = 0"
      unfolding keeps_errno_def by fastforce
    show "completed
        (bind (pexit_if (sys_opendir K (root @ ''/sys/fs/cgroup'')) (\<lambda>dir. dir = None))
           (\<lambda>dir. case dir of None \<Rightarrow> return ()
                   | Some (ents, e) \<Rightarrow>
                       block [set_errno 0, readdir_loop K root ents e,
                              ignore (pexit_if get_errno (\<lambda>e. e \<noteq> 0)),
                              ignore (pexit_if (sys_closedir K) (\<lambda>c. c \<noteq> 0))]) s)"
      using od loop e2
      by (simp add: monad_defs sys_opendir_def sys_closedir_def ret0_def Let_def completed_def
          sp_facts(9)[OF assms])
  qed
  have guard: "succeeds (ignore (exit_if (return (int (length (root @ ''/'' @ ''sys/fs/cgroup''))))
      (\<lambda>n. n \<ge> 4096)))"
    using fits by (simp add: succeeds_def monad_defs completed_def)
  have t: "take 4095 (root @ ''/'' @ ''sys/fs/cgroup'') = root @ ''/sys/fs/cgroup''"
    using fits by simp
  show ?thesis
    unfolding mount_sys_cgroup_v1_def snprintf_def Let_def prod.case
    using tbl guard dir t
    by (auto intro!: succeeds_seq simp del: block.simps for_each.simps)
qed

lemma succeeds_mount_sys:
  assumes "skeleton_present K root"
  shows "succeeds (mount_sys K root)"
  unfolding succeeds_def
proof
  fix s :: st
  have rec: "\<And>s'. completed (mount_at K root mnt_rec s')"
    using succeeds_mount_at[OF assms, of mnt_rec] by (simp add: succeeds_def mnt_rec_def)
  have v1: "\<And>s'. completed (mount_sys_cgroup_v1 K root s')"
    using succeeds_cgroup_v1[OF assms] by (simp add: succeeds_def)
  from sp_ex(2)[OF assms, of "length (trace s)"] obtain ty where
    ty: "k_statfs K (length (trace s)) ''/sys/fs/cgroup'' = Inr ty"
    by blast
  show "completed (mount_sys K root s)"
  proof (cases "ty = CGROUP2_SUPER_MAGIC")
    case True
    with ty rec show ?thesis
      by (simp add: mount_sys_def monad_defs sys_statfs_def Let_def)
  next
    case legacy: False
    show ?thesis
    proof (cases "k_access K (Suc (length (trace s))) ''/proc/1/uid_map'' F_OK")
      case (Inl e)
      with ty legacy v1 show ?thesis
        by (simp add: mount_sys_def monad_defs sys_statfs_def sys_access_def ret0_def Let_def)
    next
      case (Inr u)
      obtain k b sh rg where
        sc: "k_fscanf K (Suc (Suc (Suc (length (trace s))))) ''%u %u %u'' = (k, b, sh, rg)"
        by (cases "k_fscanf K (Suc (Suc (Suc (length (trace s))))) ''%u %u %u''") auto
      with sp_facts(7)[OF assms, of "Suc (Suc (Suc (length (trace s))))"] have k: "k = 3"
        by simp
      from ty legacy Inr sc k rec v1 show ?thesis
        by (simp add: mount_sys_def monad_defs sys_statfs_def sys_access_def sys_fopen_def
            sys_fscanf_def sys_fclose_def ret0_def Let_def sp_facts(6)[OF assms]
            sp_facts(8)[OF assms])
    qed
  qed
qed

lemma succeeds_prepare:
  assumes "skeleton_present K root"
  shows "succeeds (prepare K root rootfd)"
proof -
  have 1: "succeeds (for_each unlink_paths (unlink_path K rootfd))"
    by (rule succeeds_for_each) (rule succeeds_unlink_path[OF assms])
  have 2: "succeeds (for_each dirs (make_dir K rootfd))"
    by (rule succeeds_for_each) (rule succeeds_make_dir[OF assms])
  have 3: "succeeds (for_each devnodes (bind_devnode K root))"
    by (rule succeeds_for_each) (auto simp: devnodes_def intro!: succeeds_bind_devnode[OF assms])
  have 4: "succeeds (for_each dirs_mount_table (mount_at K root))"
    by (rule succeeds_for_each)
       (auto simp: dirs_mount_table_def intro!: succeeds_mount_at[OF assms])
  have 5: "succeeds (for_each files_mount_table (bind_file K root))"
    by (rule succeeds_for_each)
       (auto simp: files_mount_table_def intro!: succeeds_bind_file[OF assms])
  have 6: "succeeds (make_symlink K root ''/dev/pts/ptmx'' ''/dev/ptmx'')"
    "succeeds (make_symlink K root ''/run/systemd/journal/dev-log'' ''/dev/log'')"
    by (rule succeeds_make_symlink[OF assms], simp)+
  show ?thesis
    unfolding prepare_def
    by (rule succeeds_block)
       (auto simp del: for_each.simps
          intro: 1 2 3 4 5 6 succeeds_enter succeeds_sys_umask succeeds_hosts_present[OF assms]
            succeeds_sys_close succeeds_mount_sys[OF assms])
qed

text \<open>
  C9. On a root that already holds the skeleton and a hosts file, a run in which
  \<^verbatim>\<open>unlinkat\<close> fails with \<^verbatim>\<open>ENOENT\<close> or \<^verbatim>\<open>EISDIR\<close>, \<^verbatim>\<open>mkdirat\<close> and \<^verbatim>\<open>symlink\<close> fail with
  \<^verbatim>\<open>EEXIST\<close>, and \<^verbatim>\<open>access\<close> to a device node or to the resolver file fails, while the
  other calls succeed, returns \<^verbatim>\<open>EXIT_SUCCESS\<close>. In such a run the only call of
  \<^verbatim>\<open>ensure_etc_hosts_exists\<close> is the probe \<^verbatim>\<open>faccessat\<close>, and no call of the run is an
  \<^verbatim>\<open>openat\<close>, a \<^verbatim>\<open>read\<close> or a \<^verbatim>\<open>write\<close>: the hosts file is not touched.
\<close>

theorem rerun_succeeds:
  assumes "skeleton_present K root"
  shows "(\<exists>s'. main K [prog, root] init = Done EXIT_SUCCESS s') \<and>
         (\<forall>e\<in>set (trace (final (main K [prog, root] init))).
            kind_of (snd e) \<notin> {KOpenat, KRead, KWrite} \<and>
            (fst e = Etc_Hosts \<longrightarrow> kind_of (snd e) = KFaccessat))"
proof
  from sp_ex(1)[OF assms, of "Suc 0"] obtain fd where
    fd: "k_open K (Suc 0) root (O_DIRECTORY OR O_CLOEXEC) None = Inr fd"
    by blast
  let ?s2 = "\<lparr>exit_err = 3, errno = 0, stage = Open_Root,
              trace = [(Make_Mountpoint, Mount root root ''bind'' (MS_BIND OR MS_REC) None (Inr ())),
                       (Open_Root, Open root (O_DIRECTORY OR O_CLOEXEC) None (Inr fd))]\<rparr>"
  have run: "main K [prog, root] init =
      seq (prepare K root (int fd)) (return EXIT_SUCCESS) ?s2"
    using fd
    by (simp add: prog_runs(1) monad_defs sys_mount_def sys_open_def ret0_def retfd_def init_def
        enter_def Let_def sp_facts(1)[OF assms])
  from succeeds_prepare[OF assms, of "int fd"] have "completed (prepare K root (int fd) ?s2)"
    by (simp add: succeeds_def)
  then obtain s' where "prepare K root (int fd) ?s2 = Done () s'"
    by (cases "prepare K root (int fd) ?s2") (simp_all add: completed_def)
  then show "\<exists>s'. main K [prog, root] init = Done EXIT_SUCCESS s'"
    unfolding run by (simp add: seq_def bind_def return_def)
next
  have "\<exists>rest. trace (final (main K [prog, root] init)) =
          mount_ev K 0 Make_Mountpoint ([prog, root] ! 1) ([prog, root] ! 1) ''bind''
            (MS_BIND OR MS_REC) None # rest \<and>
        sorted (map (\<lambda>e. stage_rank (fst e)) rest) \<and>
        (\<forall>e\<in>set rest. 1 \<le> stage_rank (fst e) \<and>
           (kind_of (snd e) \<notin> {KOpenat, KRead, KWrite} \<and>
            (fst e = Etc_Hosts \<longrightarrow> kind_of (snd e) = KFaccessat)))"
  proof (rule main_calls[where H = "of_kinds {KFaccessat}"])
    fix rootfd
    show "emits (of_kinds {KFaccessat}) (ensure_etc_hosts_exists K ([prog, root] ! 1) rootfd)"
      using emits_hosts_present[OF assms] by simp
  next
    fix c
    assume "of_kinds {KFaccessat} c"
    then show "kind_of (snd (Etc_Hosts, c)) \<notin> {KOpenat, KRead, KWrite} \<and>
        (fst (Etc_Hosts, c) = Etc_Hosts \<longrightarrow> kind_of (snd (Etc_Hosts, c)) = KFaccessat)"
      by (simp add: of_kinds_def)
  next
    fix g c
    assume "g \<noteq> Etc_Hosts" and "part_call K ([prog, root] ! 1) g c"
    then show "kind_of (snd (g, c)) \<notin> {KOpenat, KRead, KWrite} \<and>
        (fst (g, c) = Etc_Hosts \<longrightarrow> kind_of (snd (g, c)) = KFaccessat)"
      using part_call_outside_hosts[of K "[prog, root] ! 1" g c] by simp
  next
    show "2 \<le> length [prog, root]"
      by simp
  qed
  then show "\<forall>e\<in>set (trace (final (main K [prog, root] init))).
      kind_of (snd e) \<notin> {KOpenat, KRead, KWrite} \<and>
      (fst e = Etc_Hosts \<longrightarrow> kind_of (snd e) = KFaccessat)"
    by (auto simp: mount_ev_def)
qed

theorem rerun_succeeds_witness:
  "skeleton_present K_rerun ''/stage2/rootfs'' \<and>
   k_unlinkat K_rerun 2 3 ''dev/shm'' 0 = Inl EISDIR \<and>
   k_mkdirat K_rerun 5 3 ''dev'' (octal [0, 7, 5, 5]) = Inl EEXIST \<and>
   k_access K_rerun 0 ''/dev/net/tun'' F_OK = Inl ENOENT \<and>
   k_access K_rerun 0 ''/etc/rkt-resolv.conf'' F_OK = Inl ENOENT \<and>
   k_symlink K_rerun 0 ''/run/systemd/journal/dev-log'' ''/stage2/rootfs/dev/log'' = Inl EEXIST \<and>
   (\<exists>s'. main K_rerun [''prepare-app'', ''/stage2/rootfs''] init = Done EXIT_SUCCESS s')"
proof -
  have h: "skeleton_present K_rerun ''/stage2/rootfs''"
    by (simp add: skeleton_present_def K_rerun_def K_plain_def)
  show ?thesis
    using h rerun_succeeds[OF h, of "''prepare-app''"]
    by (simp add: K_rerun_def K_plain_def)
qed

section \<open>Mount targets\<close>

lemma bind_devnode_too_long:
  assumes "4096 \<le> length (root @ from)"
  shows "mounts_of (new_events s (bind_devnode K root from s)) = []"
    and "completed (bind_devnode K root from s) = is_err (k_access K (length (trace s)) from F_OK)"
  using assms
  by (cases "k_access K (length (trace s)) from F_OK";
      simp add: body_runs monad_defs sys_access_def ret0_def snprintf_def Let_def new_events_def
        final_def mounts_of_def List.map_filter_def completed_def is_err_def)+

lemma bind_file_too_long:
  assumes "4096 \<le> length (root @ ''/'' @ target mnt)"
  shows "\<not> completed (bind_file K root mnt s)"
    and "new_events s (bind_file K root mnt s) = []"
  using assms
  by (simp_all add: body_runs monad_defs snprintf_def Let_def new_events_def final_def
      completed_def)

lemma main_mounts_under_root:
  assumes "2 \<le> length argv"
  shows "\<exists>rest. trace (final (main K argv init)) =
             mount_ev K 0 Make_Mountpoint (argv ! 1) (argv ! 1) ''bind'' (MS_BIND OR MS_REC) None
             # rest \<and>
           (\<forall>e\<in>set rest. \<forall>src tgt ty fl dat r.
              snd e = Mount src tgt ty fl dat r \<longrightarrow>
              length tgt < 4096 \<and> (src, tgt, ty, fl, dat) \<in> root_mounts K (argv ! 1))"
proof -
  from main_part_calls[OF assms, of K] obtain rest where
    tr: "trace (final (main K argv init)) =
      mount_ev K 0 Make_Mountpoint (argv ! 1) (argv ! 1) ''bind'' (MS_BIND OR MS_REC) None # rest"
    and rest: "\<forall>e\<in>set rest. 1 \<le> stage_rank (fst e) \<and> part_call K (argv ! 1) (fst e) (snd e)"
    by blast
  have "length tgt < 4096 \<and> (src, tgt, ty, fl, dat) \<in> root_mounts K (argv ! 1)"
    if "e \<in> set rest" "snd e = Mount src tgt ty fl dat r" for e src tgt ty fl dat r
  proof -
    from rest that have "1 \<le> stage_rank (fst e)"
      and "part_call K (argv ! 1) (fst e) (Mount src tgt ty fl dat r)"
      by auto
    moreover from this(1) have "fst e \<noteq> Make_Mountpoint"
      by auto
    ultimately have "fst e \<in> {Dev_Nodes, Dir_Mounts, Sys_Mount, File_Mounts} \<and>
        length tgt < 4096 \<and> (src, tgt, ty, fl, dat) \<in> part_mounts K (argv ! 1) (fst e)"
      by (intro part_call_mount_part)
    then show ?thesis
      unfolding root_mounts_def by auto
  qed
  with tr show ?thesis
    by blast
qed

lemma main_first_event:
  assumes "2 \<le> length argv"
  shows "0 < length (trace (final (main K argv init)))"
    and "trace (final (main K argv init)) ! 0 =
      mount_ev K 0 Make_Mountpoint (argv ! 1) (argv ! 1) ''bind'' (MS_BIND OR MS_REC) None"
  using main_part_calls[OF assms, of K] by auto

text \<open>
  C8 (as amended). \<^verbatim>\<open>mount_at\<close> resolves the target under the root. When the resolved path
  has 4096 bytes or more, it exits and issues no call; otherwise its one call is the mount
  on the whole resolved path, with nothing cut off. The device-node step and the file step
  issue no mount when their resolved path has 4096 bytes or more: the first exits once the
  host node is found to exist, the second exits at once. In every run of \<^verbatim>\<open>main\<close> the first
  call is the mount of the root on itself, on the argument as given, whatever its length;
  every later mount is one of \<open>root_mounts\<close>: its target is exactly the root followed by the
  path the source text gives (a device node, a table entry, a listed cgroup controller),
  and has fewer than 4096 bytes.
\<close>

theorem mount_targets_exact:
  "(4096 \<le> length (root @ ''/'' @ target mnt) \<longrightarrow>
      \<not> completed (mount_at K root mnt s) \<and> new_events s (mount_at K root mnt s) = []) \<and>
   (length (root @ ''/'' @ target mnt) < 4096 \<longrightarrow>
      new_events s (mount_at K root mnt s) =
        [mount_ev K (length (trace s)) (stage s) (source mnt) (root @ ''/'' @ target mnt)
           (fstype mnt) (flags mnt) (options mnt)] \<and>
      completed (mount_at K root mnt s) =
        (\<not> is_err (k_mount K (length (trace s)) (source mnt) (root @ ''/'' @ target mnt)
                     (fstype mnt) (flags mnt) (options mnt)))) \<and>
   (4096 \<le> length (root @ from) \<longrightarrow>
      mounts_of (new_events s (bind_devnode K root from s)) = [] \<and>
      completed (bind_devnode K root from s) = is_err (k_access K (length (trace s)) from F_OK)) \<and>
   (4096 \<le> length (root @ ''/'' @ target mnt) \<longrightarrow>
      \<not> completed (bind_file K root mnt s) \<and> new_events s (bind_file K root mnt s) = []) \<and>
   (2 \<le> length argv \<longrightarrow>
      (\<exists>rest. trace (final (main K argv init)) =
                mount_ev K 0 Make_Mountpoint (argv ! 1) (argv ! 1) ''bind'' (MS_BIND OR MS_REC) None
                # rest \<and>
              (\<forall>e\<in>set rest. \<forall>src tgt ty fl dat r.
                 snd e = Mount src tgt ty fl dat r \<longrightarrow>
                 length tgt < 4096 \<and> (src, tgt, ty, fl, dat) \<in> root_mounts K (argv ! 1))))"
proof (intro conjI impI)
  assume "4096 \<le> length (root @ ''/'' @ target mnt)"
  then show "\<not> completed (mount_at K root mnt s)" "new_events s (mount_at K root mnt s) = []"
    by (simp_all add: mount_at_run new_events_def final_def completed_def)
next
  assume fits: "length (root @ ''/'' @ target mnt) < 4096"
  show "new_events s (mount_at K root mnt s) =
      [mount_ev K (length (trace s)) (stage s) (source mnt) (root @ ''/'' @ target mnt)
         (fstype mnt) (flags mnt) (options mnt)]"
    using fits
    by (cases "k_mount K (length (trace s)) (source mnt) (root @ ''/'' @ target mnt) (fstype mnt)
          (flags mnt) (options mnt)")
       (simp_all add: mount_at_run new_events_def final_def)
  show "completed (mount_at K root mnt s) =
      (\<not> is_err (k_mount K (length (trace s)) (source mnt) (root @ ''/'' @ target mnt)
                   (fstype mnt) (flags mnt) (options mnt)))"
    using fits
    by (cases "k_mount K (length (trace s)) (source mnt) (root @ ''/'' @ target mnt) (fstype mnt)
          (flags mnt) (options mnt)")
       (simp_all add: mount_at_run completed_def is_err_def)
next
  assume "4096 \<le> length (root @ from)"
  then show "mounts_of (new_events s (bind_devnode K root from s)) = []"
    "completed (bind_devnode K root from s) = is_err (k_access K (length (trace s)) from F_OK)"
    by (rule bind_devnode_too_long)+
next
  assume "4096 \<le> length (root @ ''/'' @ target mnt)"
  then show "\<not> completed (bind_file K root mnt s)" "new_events s (bind_file K root mnt s) = []"
    by (rule bind_file_too_long)+
next
  assume "2 \<le> length argv"
  then show "\<exists>rest. trace (final (main K argv init)) =
        mount_ev K 0 Make_Mountpoint (argv ! 1) (argv ! 1) ''bind'' (MS_BIND OR MS_REC) None # rest \<and>
      (\<forall>e\<in>set rest. \<forall>src tgt ty fl dat r.
         snd e = Mount src tgt ty fl dat r \<longrightarrow>
         length tgt < 4096 \<and> (src, tgt, ty, fl, dat) \<in> root_mounts K (argv ! 1))"
    by (rule main_mounts_under_root)
qed

theorem mount_targets_exact_witness:
  "4096 \<le> length (replicate 4092 (CHR ''r'') @ ''/'' @ target mnt_rec) \<and>
   \<not> completed (mount_at K_plain (replicate 4092 (CHR ''r'')) mnt_rec (in_part Sys_Mount)) \<and>
   new_events (in_part Sys_Mount)
     (mount_at K_plain (replicate 4092 (CHR ''r'')) mnt_rec (in_part Sys_Mount)) = [] \<and>
   4096 \<le> length (replicate 4092 (CHR ''r'') @ ''/dev/null'') \<and>
   mounts_of (new_events (in_part Sys_Mount)
     (bind_devnode K_plain (replicate 4092 (CHR ''r'')) ''/dev/null'' (in_part Sys_Mount))) = [] \<and>
   \<not> completed (bind_devnode K_plain (replicate 4092 (CHR ''r'')) ''/dev/null'' (in_part Sys_Mount)) \<and>
   \<not> completed (bind_file K_plain (replicate 4092 (CHR ''r'')) mnt_rec (in_part Sys_Mount)) \<and>
   length (''/stage2/rootfs'' @ ''/'' @ target mnt_rec) < 4096 \<and>
   new_events (in_part Sys_Mount) (mount_at K_stop ''/stage2/rootfs'' mnt_rec (in_part Sys_Mount)) =
     [(Sys_Mount, Mount ''/sys'' ''/stage2/rootfs/sys'' ''bind'' (MS_BIND OR MS_REC) None (Inr ()))] \<and>
   2 \<le> length [''prepare-app'', ''/stage2/rootfs''] \<and>
   (Dev_Nodes, Mount ''/dev/null'' ''/stage2/rootfs/dev/null'' ''bind'' MS_BIND None (Inr ()))
     \<in> set (tl (trace (final (main K_stop [''prepare-app'', ''/stage2/rootfs''] init)))) \<and>
   length ''/stage2/rootfs/dev/null'' < 4096 \<and>
   (''/dev/null'', ''/stage2/rootfs/dev/null'', ''bind'', MS_BIND, None)
     \<in> root_mounts K_stop ''/stage2/rootfs''"
proof -
  let ?long = "replicate 4092 (CHR ''r'')"
  let ?argv = "[''prepare-app'', ''/stage2/rootfs'']"
  let ?s = "in_part Sys_Mount"
  let ?ev = "(Dev_Nodes, Mount ''/dev/null'' ''/stage2/rootfs/dev/null'' ''bind'' MS_BIND None (Inr ()))"
  have long: "4096 \<le> length (?long @ ''/'' @ target mnt_rec)"
    by (simp add: mnt_rec_def)
  have long': "4096 \<le> length (?long @ ''/dev/null'')"
    by simp
  have short: "length (''/stage2/rootfs'' @ ''/'' @ target mnt_rec) < 4096"
    by (simp add: mnt_rec_def)
  have len: "2 \<le> length ?argv"
    by simp
  have acc: "\<not> is_err (k_access K_plain (length (trace ?s)) ''/dev/null'' F_OK)"
    by (simp add: K_plain_def is_err_def)
  have ev: "mount_ev K_stop (length (trace ?s)) (stage ?s)
      (source mnt_rec) (''/stage2/rootfs'' @ ''/'' @ target mnt_rec) (fstype mnt_rec) (flags mnt_rec)
      (options mnt_rec) =
      (Sys_Mount, Mount ''/sys'' ''/stage2/rootfs/sys'' ''bind'' (MS_BIND OR MS_REC) None (Inr ()))"
    by (simp add: mount_ev_def mnt_rec_def in_part_def init_def K_stop_def K_plain_def)
  have mem: "?ev \<in> set (tl (trace (final (main K_stop ?argv init))))"
    by (simp add: K_stop_run final_def)
  note long_case = mount_targets_exact[of ?long mnt_rec K_plain ?s "''/dev/null''" ?argv]
  note short_case =
    mount_targets_exact[of "''/stage2/rootfs''" mnt_rec K_stop ?s "''/dev/null''" ?argv]
  from long_case long have a: "\<not> completed (mount_at K_plain ?long mnt_rec ?s)"
    "new_events ?s (mount_at K_plain ?long mnt_rec ?s) = []"
    "\<not> completed (bind_file K_plain ?long mnt_rec ?s)"
    by blast+
  from long_case long' have b: "mounts_of (new_events ?s (bind_devnode K_plain ?long ''/dev/null'' ?s)) = []"
    "completed (bind_devnode K_plain ?long ''/dev/null'' ?s) =
       is_err (k_access K_plain (length (trace ?s)) ''/dev/null'' F_OK)"
    by blast+
  from short_case short
  have c: "new_events ?s (mount_at K_stop ''/stage2/rootfs'' mnt_rec ?s) =
      [mount_ev K_stop (length (trace ?s)) (stage ?s)
         (source mnt_rec) (''/stage2/rootfs'' @ ''/'' @ target mnt_rec) (fstype mnt_rec)
         (flags mnt_rec) (options mnt_rec)]"
    by blast
  from short_case len obtain rest where
    tr: "trace (final (main K_stop ?argv init)) =
      mount_ev K_stop 0 Make_Mountpoint (?argv ! 1) (?argv ! 1) ''bind'' (MS_BIND OR MS_REC) None # rest"
    and all: "\<forall>e\<in>set rest. \<forall>src tgt ty fl dat r.
      snd e = Mount src tgt ty fl dat r \<longrightarrow>
      length tgt < 4096 \<and> (src, tgt, ty, fl, dat) \<in> root_mounts K_stop (?argv ! 1)"
    by blast
  from mem have "?ev \<in> set rest"
    unfolding tr by simp
  with all have d: "length ''/stage2/rootfs/dev/null'' < 4096 \<and>
      (''/dev/null'', ''/stage2/rootfs/dev/null'', ''bind'', MS_BIND, None)
        \<in> root_mounts K_stop (?argv ! 1)"
    by fastforce
  show ?thesis
    using long long' short a b acc c[unfolded ev] mem d by simp
qed

theorem root_self_mount_unchecked_counterexample:
  "4096 \<le> length (CHR ''/'' # replicate 4095 (CHR ''r'')) \<and>
   0 < length (trace (final
     (main K_plain [''prepare-app'', CHR ''/'' # replicate 4095 (CHR ''r'')] init))) \<and>
   trace (final (main K_plain [''prepare-app'', CHR ''/'' # replicate 4095 (CHR ''r'')] init)) ! 0 =
     (Make_Mountpoint,
      Mount (CHR ''/'' # replicate 4095 (CHR ''r'')) (CHR ''/'' # replicate 4095 (CHR ''r''))
        ''bind'' (MS_BIND OR MS_REC) None (Inr ()))"
proof -
  define root where "root = CHR ''/'' # replicate 4095 (CHR ''r'')"
  have len: "4096 \<le> length root"
    by (simp add: root_def)
  have argv: "2 \<le> length [''prepare-app'', root]" "[''prepare-app'', root] ! 1 = root"
    by simp_all
  have ev: "mount_ev K_plain 0 Make_Mountpoint root root ''bind'' (MS_BIND OR MS_REC) None =
      (Make_Mountpoint, Mount root root ''bind'' (MS_BIND OR MS_REC) None (Inr ()))"
    by (simp add: mount_ev_def K_plain_def)
  from main_first_event[OF argv(1), of K_plain] len
  have "4096 \<le> length root \<and>
      0 < length (trace (final (main K_plain [''prepare-app'', root] init))) \<and>
      trace (final (main K_plain [''prepare-app'', root] init)) ! 0 =
        (Make_Mountpoint, Mount root root ''bind'' (MS_BIND OR MS_REC) None (Inr ()))"
    unfolding argv(2) ev by blast
  then show ?thesis
    unfolding root_def .
qed

end
